(* ===== verification/Prelude.thy ===== *)
theory Prelude
  imports Main
begin

text \<open>
  Shared vocabulary of the bin-bot development: the JavaScript values the two sources
  (\<^verbatim>\<open>src/index.js\<close> and \<^verbatim>\<open>src/lambda/index.js\<close>) manipulate, their
  exceptions as values of a sum type, decimal digit strings with their round trip,
  \<^verbatim>\<open>String.prototype.split\<close> on a one-character separator, the \<^verbatim>\<open>/^[0-9]*/\<close> and
  \<^verbatim>\<open>/^\w/\<close> regular expressions of the sources, and the floor-division bounds that the
  calendar arithmetic uses.
\<close>

named_theorems calendar_simps \<open>evaluation rules of the ECMAScript calendar model\<close>
named_theorems digit_simps \<open>facts on decimal digit strings\<close>

section \<open>JavaScript values and exceptions\<close>

text \<open>
  A thrown exception is an \<open>Inl\<close> value. The sources throw \<^verbatim>\<open>TypeError\<close> (a property
  read on \<^verbatim>\<open>undefined\<close>), \<^verbatim>\<open>RangeError\<close> (\<^verbatim>\<open>toISOString\<close> on an invalid date) and
  plain \<^verbatim>\<open>Error\<close> objects with a message.
\<close>

datatype js_error = TypeError | RangeError | JsError string

type_synonym 'a js_result = "js_error + 'a"

text \<open>
  A time value is an integer number of milliseconds since the epoch. A \<^verbatim>\<open>Date\<close>
  object holds a time value or NaN (an "Invalid Date"): \<open>None\<close>.
\<close>

type_synonym time_value = int
type_synonym js_date = "time_value option"

text \<open>Reading index \<open>i\<close> of a JS array: \<^verbatim>\<open>undefined\<close> (\<open>None\<close>) past the end.\<close>

definition js_index :: "'a list \<Rightarrow> nat \<Rightarrow> 'a option" where
  "js_index xs i = (if i < length xs then Some (xs ! i) else None)"

text \<open>A template literal \<^verbatim>\<open>${x}\<close> prints \<^verbatim>\<open>undefined\<close> for a missing value.\<close>

definition js_template_str :: "string option \<Rightarrow> string" where
  "js_template_str v = (case v of None \<Rightarrow> ''undefined'' | Some s \<Rightarrow> s)"

section \<open>Decimal digits\<close>

definition is_digit :: "char \<Rightarrow> bool" where
  "is_digit c \<longleftrightarrow> (48::nat) \<le> of_char c \<and> (of_char c :: nat) \<le> 57"

definition digit_char :: "nat \<Rightarrow> char" where
  "digit_char n = char_of (48 + n)"

definition digit_val :: "char \<Rightarrow> nat" where
  "digit_val c = of_char c - 48"

fun digits_of_nat :: "nat \<Rightarrow> string" where
  "digits_of_nat n =
     (if n < 10 then [digit_char n] else digits_of_nat (n div 10) @ [digit_char (n mod 10)])"

declare digits_of_nat.simps [simp del]

definition nat_of_digits :: "string \<Rightarrow> nat" where
  "nat_of_digits s = foldl (\<lambda>acc c. 10 * acc + digit_val c) 0 s"

text \<open>Two-digit zero-padded rendering, as \<^verbatim>\<open>toLocaleDateString\<close> prints days and months.\<close>

definition pad2 :: "nat \<Rightarrow> string" where
  "pad2 n = [digit_char (n div 10), digit_char (n mod 10)]"

section \<open>String functions of the sources\<close>

text \<open>
  \<^verbatim>\<open>s.split(" ")\<close>: every occurrence of the separator ends a token, empty tokens
  included; the empty string splits into one empty token.
\<close>

fun js_split :: "char \<Rightarrow> string \<Rightarrow> string list" where
  "js_split d [] = [[]]"
| "js_split d (c # cs) =
     (if c = d then [] # js_split d cs
      else (case js_split d cs of [] \<Rightarrow> [[c]] | t # ts \<Rightarrow> (c # t) # ts))"

text \<open>\<^verbatim>\<open>xs.join(sep)\<close> on an array of strings.\<close>

fun js_join :: "string \<Rightarrow> string list \<Rightarrow> string" where
  "js_join sep [] = []"
| "js_join sep [x] = x"
| "js_join sep (x # y # zs) = x @ sep @ js_join sep (y # zs)"

text \<open>\<^verbatim>\<open>s.match(/^[0-9]*/)\<close> always matches: the longest prefix of digits.\<close>

definition leading_digits :: "string \<Rightarrow> string" where
  "leading_digits s = takeWhile is_digit s"

text \<open>\<^verbatim>\<open>/\w/\<close>: ASCII letters, digits and underscore.\<close>

definition is_word_char :: "char \<Rightarrow> bool" where
  "is_word_char c \<longleftrightarrow> is_digit c \<or> c = CHR ''_'' \<or>
     ((65::nat) \<le> of_char c \<and> (of_char c :: nat) \<le> 90) \<or>
     ((97::nat) \<le> of_char c \<and> (of_char c :: nat) \<le> 122)"

definition js_upper :: "char \<Rightarrow> char" where
  "js_upper c = (if (97::nat) \<le> of_char c \<and> (of_char c :: nat) \<le> 122 then char_of (of_char c - (32::nat)) else c)"

definition js_lower :: "char \<Rightarrow> char" where
  "js_lower c = (if (65::nat) \<le> of_char c \<and> (of_char c :: nat) \<le> 90 then char_of (of_char c + (32::nat)) else c)"

text \<open>\<^verbatim>\<open>s.replace(/^\w/, c => c.toUpperCase())\<close>.\<close>

fun capitalise_first :: "string \<Rightarrow> string" where
  "capitalise_first [] = []"
| "capitalise_first (c # cs) = (if is_word_char c then js_upper c # cs else c # cs)"

section \<open>Lemmas on digits\<close>

text \<open>The ten digit characters, for evaluating concrete strings.\<close>

lemma digit_char_values [digit_simps]:
  "digit_char 0 = CHR ''0''" "digit_char 1 = CHR ''1''" "digit_char (Suc 0) = CHR ''1''"
  "digit_char 2 = CHR ''2''"
  "digit_char 3 = CHR ''3''" "digit_char 4 = CHR ''4''" "digit_char 5 = CHR ''5''"
  "digit_char 6 = CHR ''6''" "digit_char 7 = CHR ''7''" "digit_char 8 = CHR ''8''"
  "digit_char 9 = CHR ''9''"
  by (simp_all add: digit_char_def char_of_def bit_0)

lemma digit_char_is_digit [digit_simps]: "n < 10 \<Longrightarrow> is_digit (digit_char n)"
  by (simp add: is_digit_def digit_char_def)

lemma digit_val_digit_char [digit_simps, simp]: "n < 10 \<Longrightarrow> digit_val (digit_char n) = n"
  by (simp add: digit_val_def digit_char_def)

lemma digit_char_inj [digit_simps]:
  "m < 10 \<Longrightarrow> n < 10 \<Longrightarrow> digit_char m = digit_char n \<longleftrightarrow> m = n"
  by (metis digit_val_digit_char)

lemma digits_of_nat_all_digits [digit_simps]: "\<forall>c \<in> set (digits_of_nat n). is_digit c"
proof (induction n rule: digits_of_nat.induct)
  case (1 n)
  then show ?case
    by (subst digits_of_nat.simps) (auto simp: digit_char_is_digit)
qed

lemma digits_of_nat_nonempty [digit_simps]: "digits_of_nat n \<noteq> []"
  by (subst digits_of_nat.simps) simp

lemma nat_of_digits_snoc [simp]:
  "nat_of_digits (s @ [c]) = 10 * nat_of_digits s + digit_val c"
  by (simp add: nat_of_digits_def)

lemma nat_of_digits_digits_of_nat [digit_simps, simp]: "nat_of_digits (digits_of_nat n) = n"
proof (induction n rule: digits_of_nat.induct)
  case (1 n)
  then show ?case
    by (subst digits_of_nat.simps) (simp add: nat_of_digits_def)
qed

lemma digits_of_nat_inj [digit_simps]: "digits_of_nat m = digits_of_nat n \<longleftrightarrow> m = n"
  by (metis nat_of_digits_digits_of_nat)

lemma pad2_inj [digit_simps]:
  assumes "m < 100" and "n < 100"
  shows "pad2 m = pad2 n \<longleftrightarrow> m = n"
proof
  assume "pad2 m = pad2 n"
  then have "m div 10 = n div 10" and "m mod 10 = n mod 10"
    using assms by (auto simp: pad2_def digit_char_inj)
  then show "m = n" by (metis div_mult_mod_eq)
qed simp

lemma length_pad2 [simp]: "length (pad2 n) = 2"
  by (simp add: pad2_def)

lemma leading_digits_all_digits [digit_simps]: "\<forall>c \<in> set (leading_digits s). is_digit c"
  by (auto simp: leading_digits_def dest: set_takeWhileD)

lemma leading_digits_digits_of_nat [digit_simps]:
  "\<not> (s \<noteq> [] \<and> is_digit (hd s)) \<Longrightarrow> leading_digits (digits_of_nat n @ s) = digits_of_nat n"
  using digits_of_nat_all_digits [of n]
  by (cases s) (simp_all add: leading_digits_def takeWhile_append)

section \<open>Lemmas on split\<close>

lemma js_split_nonempty [simp]: "js_split d s \<noteq> []"
  by (induction s) (auto split: list.split)

lemma js_split_join: "js_join [d] (js_split d s) = s"
proof (induction s)
  case Nil
  then show ?case by simp
next
  case (Cons c cs)
  then show ?case
    by (cases "js_split d cs" rule: remdups_adj.cases) auto
qed

lemma js_split_no_sep: "t \<in> set (js_split d s) \<Longrightarrow> d \<notin> set t"
proof (induction s arbitrary: t)
  case Nil
  then show ?case by simp
next
  case (Cons c cs)
  then show ?case
    by (cases "js_split d cs") (auto split: if_splits)
qed

lemma js_split_no_sep_words:
  "d \<notin> set w \<Longrightarrow> w \<noteq> [] \<Longrightarrow> js_split d (w @ d # s) = w # js_split d s"
proof (induction w)
  case Nil
  then show ?case by simp
next
  case (Cons c w)
  then show ?case by (cases w) auto
qed

lemma js_split_append_sep: "js_split d (xs @ d # ys) = js_split d xs @ js_split d ys"
proof (induction xs)
  case Nil
  then show ?case by simp
next
  case (Cons c xs)
  then show ?case by (cases "js_split d xs") auto
qed

lemma js_split_last_sep: "last (js_split d (xs @ d # ys)) = last (js_split d ys)"
  by (simp add: js_split_append_sep)

lemma js_split_last_word: "d \<notin> set w \<Longrightarrow> js_split d w = [w]"
  by (induction w) auto

section \<open>Floor division\<close>

text \<open>\<open>linarith\<close> does not multiply out constant factors; these rules do it first.\<close>

lemmas lin_distribs = right_diff_distrib left_diff_distrib distrib_left distrib_right

lemma int_div_bounds:
  fixes a b :: int
  assumes "0 < b"
  shows "b * (a div b) \<le> a" and "a < b * (a div b) + b"
proof -
  have "a = b * (a div b) + a mod b" by simp
  moreover have "0 \<le> a mod b" and "a mod b < b" using assms by simp_all
  ultimately show "b * (a div b) \<le> a" and "a < b * (a div b) + b" by linarith+
qed

lemma int_div_eqI:
  fixes a b q :: int
  assumes "0 < b" and "b * q \<le> a" and "a < b * q + b"
  shows "a div b = q"
proof -
  have "a div b \<le> q"
  proof (rule ccontr)
    assume "\<not> a div b \<le> q"
    then have "q + 1 \<le> a div b" by simp
    then have "b * (q + 1) \<le> b * (a div b)" using assms(1) by simp
    with int_div_bounds(1) [OF assms(1), of a] assms(3) show False
      by (simp add: algebra_simps)
  qed
  moreover have "q \<le> a div b"
  proof (rule ccontr)
    assume "\<not> q \<le> a div b"
    then have "a div b + 1 \<le> q" by simp
    then have "b * (a div b + 1) \<le> b * q" using assms(1) by simp
    with int_div_bounds(2) [OF assms(1), of a] assms(2) show False
      by (simp add: algebra_simps)
  qed
  ultimately show ?thesis by simp
qed

end
