(* ===== verification/JSDate.thy ===== *)
theory JSDate
  imports Prelude
begin

text \<open>
  The platform's \<^verbatim>\<open>Date\<close> arithmetic that both sources rely on, written after the
  ECMAScript specification (section "Date Objects"): time values in milliseconds,
  \<open>Day\<close>, \<open>DayFromYear\<close>, \<open>YearFromTime\<close>, \<open>MonthFromTime\<close>, \<open>DateFromTime\<close>,
  \<open>MakeDay\<close>, \<open>MakeTime\<close>, \<open>MakeDate\<close> and \<open>TimeClip\<close>. The host's local time
  zone is taken to be UTC (the AWS Lambda runtime sets \<^verbatim>\<open>TZ\<close> to UTC), so
  \<open>LocalTime\<close> and \<open>UTC\<close> are the identity and there is no daylight saving.

  \<open>YearFromTime\<close> is specified as "the largest year whose first day is not after the
  time"; \<open>year_from_day\<close> computes it from a 400-year estimate and a correction, and
  \<open>year_from_day_spec\<close>/\<open>year_from_day_unique\<close> prove that it is that year.
\<close>

section \<open>Days and years\<close>

definition ms_per_day :: int where
  "ms_per_day = 86400000"

text \<open>\<open>Day(t)\<close> and \<open>TimeWithinDay(t)\<close>: floor division, as the specification says.\<close>

definition js_day :: "time_value \<Rightarrow> int" where
  "js_day t = t div ms_per_day"

definition time_within_day :: "time_value \<Rightarrow> int" where
  "time_within_day t = t mod ms_per_day"

definition day_from_year :: "int \<Rightarrow> int" where
  "day_from_year y =
     365 * (y - 1970) + (y - 1969) div 4 - (y - 1901) div 100 + (y - 1601) div 400"

definition days_in_year :: "int \<Rightarrow> int" where
  "days_in_year y =
     (if y mod 4 \<noteq> 0 then 365 else if y mod 100 \<noteq> 0 then 366
      else if y mod 400 \<noteq> 0 then 365 else 366)"

definition year_from_day :: "int \<Rightarrow> int" where
  "year_from_day d =
     (let y = 1970 + (400 * d) div 146097 in
      if day_from_year (y + 1) \<le> d then y + 1
      else if day_from_year y \<le> d then y else y - 1)"

text \<open>\<open>InLeapYear\<close>, as 0 or 1, and \<open>DayWithinYear\<close>, both of a day number.\<close>

definition leap_of_year :: "int \<Rightarrow> int" where
  "leap_of_year y = days_in_year y - 365"

definition day_within_year :: "int \<Rightarrow> int" where
  "day_within_year d = d - day_from_year (year_from_day d)"

section \<open>Months and dates\<close>

text \<open>
  The first day within the year of each month, and the year's length last: the table
  of \<open>MonthFromTime\<close> and \<open>DateFromTime\<close>, for a year with leap value \<open>l\<close>.
\<close>

definition month_bounds :: "int \<Rightarrow> int list" where
  "month_bounds l =
     [0, 31, 59 + l, 90 + l, 120 + l, 151 + l, 181 + l, 212 + l, 243 + l, 273 + l,
      304 + l, 334 + l, 365 + l]"

definition month_from_dwy :: "int \<Rightarrow> int \<Rightarrow> int" where
  "month_from_dwy l d =
     (if d < 31 then 0 else if d < 59 + l then 1 else if d < 90 + l then 2
      else if d < 120 + l then 3 else if d < 151 + l then 4 else if d < 181 + l then 5
      else if d < 212 + l then 6 else if d < 243 + l then 7 else if d < 273 + l then 8
      else if d < 304 + l then 9 else if d < 334 + l then 10 else 11)"

definition month_from_day :: "int \<Rightarrow> int" where
  "month_from_day d =
     month_from_dwy (leap_of_year (year_from_day d)) (day_within_year d)"

definition date_from_day :: "int \<Rightarrow> int" where
  "date_from_day d =
     day_within_year d
       - month_bounds (leap_of_year (year_from_day d)) ! nat (month_from_day d) + 1"

definition days_in_month :: "int \<Rightarrow> int \<Rightarrow> int" where
  "days_in_month y m =
     month_bounds (leap_of_year y) ! nat (m + 1) - month_bounds (leap_of_year y) ! nat m"

section \<open>MakeDay, MakeTime, MakeDate, TimeClip\<close>

definition make_day :: "int \<Rightarrow> int \<Rightarrow> int \<Rightarrow> int" where
  "make_day year month date =
     (let ym = year + month div 12; mn = month mod 12
      in day_from_year ym + month_bounds (leap_of_year ym) ! nat mn + date - 1)"

definition make_time :: "int \<Rightarrow> int \<Rightarrow> int \<Rightarrow> int \<Rightarrow> int" where
  "make_time h m s ms = h * 3600000 + m * 60000 + s * 1000 + ms"

definition make_date :: "int \<Rightarrow> int \<Rightarrow> time_value" where
  "make_date day time = day * ms_per_day + time"

definition time_clip :: "int \<Rightarrow> js_date" where
  "time_clip t = (if \<bar>t\<bar> \<le> 8640000000000000 then Some t else None)"

section \<open>Lemmas on years\<close>

lemma days_in_year_cases [calendar_simps]: "days_in_year y = 365 \<or> days_in_year y = 366"
  by (simp add: days_in_year_def)

lemma leap_of_year_cases [calendar_simps]: "leap_of_year y = 0 \<or> leap_of_year y = 1"
  by (simp add: leap_of_year_def days_in_year_def)

lemma div_succ_eq:
  fixes a k :: int
  assumes "0 < k"
  shows "(a + 1) div k = a div k + (if (a + 1) mod k = 0 then 1 else 0)"
proof -
  have e0: "k * (a div k) + a mod k = a" by simp
  have e1: "k * ((a + 1) div k) + (a + 1) mod k = a + 1" by simp
  have r: "0 \<le> a mod k" "a mod k < k" using assms by simp_all
  have dist: "k * (a div k + 1) = k * (a div k) + k" by (simp add: algebra_simps)
  show ?thesis
  proof (cases "a mod k = k - 1")
    case True
    have d: "(a + 1) div k = a div k + 1"
      using assms True e0 dist by (intro int_div_eqI) linarith+
    have "k * (a div k + 1) + (a + 1) mod k = a + 1" using e1 by (simp only: d)
    with True e0 dist have "(a + 1) mod k = 0" by linarith
    with d show ?thesis by simp
  next
    case False
    have d: "(a + 1) div k = a div k"
      using assms False e0 r by (intro int_div_eqI) linarith+
    have "k * (a div k) + (a + 1) mod k = a + 1" using e1 by (simp only: d)
    with e0 have "(a + 1) mod k = a mod k + 1" by linarith
    with d r show ?thesis by simp
  qed
qed

text \<open>One of the three floors of \<open>DayFromYear\<close> steps up exactly at multiples of \<open>k\<close>.\<close>

lemma floor_step:
  fixes y c j k :: int
  assumes "0 < k" and "c = k * j + 1"
  shows "(y + 1 - c) div k = (y - c) div k + (if y mod k = 0 then 1 else 0)"
proof -
  have e: "y + 1 - c = (y - c) + 1" by simp
  have "(y - c) + 1 = y + k * (- j)" using assms(2) by simp
  then have m: "((y - c) + 1) mod k = y mod k" by (simp only: mod_mult_self2)
  show ?thesis unfolding e using div_succ_eq [OF assms(1), of "y - c"] m by simp
qed

lemma day_from_year_succ [calendar_simps]:
  "day_from_year (y + 1) = day_from_year y + days_in_year y"
proof -
  have four: "(y + 1 - 1969) div 4 = (y - 1969) div 4 + (if y mod 4 = 0 then 1 else 0)"
    by (rule floor_step [where j = 492]) simp_all
  have hundred: "(y + 1 - 1901) div 100 = (y - 1901) div 100 + (if y mod 100 = 0 then 1 else 0)"
    by (rule floor_step [where j = 19]) simp_all
  have fourhundred:
    "(y + 1 - 1601) div 400 = (y - 1601) div 400 + (if y mod 400 = 0 then 1 else 0)"
    by (rule floor_step [where j = 4]) simp_all
  have m: "y mod 100 = 0 \<Longrightarrow> y mod 4 = 0" and n: "y mod 400 = 0 \<Longrightarrow> y mod 100 = 0"
    by presburger+
  show ?thesis
    unfolding day_from_year_def days_in_year_def four hundred fourhundred
    using m n by (simp split: if_splits)
qed

text \<open>
  \<open>400 \<cdot> DayFromYear(y)\<close> stays within a few hundred days of \<open>146097 (y - 1970)\<close>:
  the three floors lose less than one each.
\<close>

lemma day_from_year_bounds:
  "146097 * (y - 1970) - 506 \<le> 400 * day_from_year y"
  "400 * day_from_year y \<le> 146097 * (y - 1970) + 589"
proof -
  have a: "4 * ((y - 1969) div 4) \<le> y - 1969" "y - 1969 < 4 * ((y - 1969) div 4) + 4"
    using int_div_bounds [of 4 "y - 1969"] by simp_all
  have b: "100 * ((y - 1901) div 100) \<le> y - 1901" "y - 1901 < 100 * ((y - 1901) div 100) + 100"
    using int_div_bounds [of 100 "y - 1901"] by simp_all
  have c: "400 * ((y - 1601) div 400) \<le> y - 1601" "y - 1601 < 400 * ((y - 1601) div 400) + 400"
    using int_div_bounds [of 400 "y - 1601"] by simp_all
  show "146097 * (y - 1970) - 506 \<le> 400 * day_from_year y"
    using a b c unfolding day_from_year_def lin_distribs by linarith
  show "400 * day_from_year y \<le> 146097 * (y - 1970) + 589"
    using a b c unfolding day_from_year_def lin_distribs by linarith
qed

lemma day_from_year_less [calendar_simps]: "y < y' \<Longrightarrow> day_from_year y < day_from_year y'"
  using day_from_year_bounds [of y] day_from_year_bounds [of y']
  unfolding lin_distribs by linarith

lemma day_from_year_le_iff [calendar_simps]: "day_from_year y \<le> day_from_year y' \<longleftrightarrow> y \<le> y'"
  by (metis day_from_year_less linorder_not_less order_le_less)

lemma year_from_day_spec:
  "day_from_year (year_from_day d) \<le> d \<and> d < day_from_year (year_from_day d + 1)"
proof -
  define q where "q = (400 * d) div 146097"
  have q: "146097 * q \<le> 400 * d" "400 * d < 146097 * q + 146097"
    using int_div_bounds [of 146097 "400 * d"] by (simp_all add: q_def)
  have lo: "day_from_year (1970 + q - 1) \<le> d"
    using day_from_year_bounds(2) [of "1970 + q - 1"] q unfolding lin_distribs by linarith
  have hi: "d < day_from_year (1970 + q + 2)"
    using day_from_year_bounds(1) [of "1970 + q + 2"] q unfolding lin_distribs by linarith
  show ?thesis
    using lo hi unfolding year_from_day_def Let_def q_def [symmetric]
    by (auto simp: algebra_simps)
qed

lemma year_from_day_unique:
  assumes "day_from_year y \<le> d" and "d < day_from_year (y + 1)"
  shows "year_from_day d = y"
proof -
  let ?Y = "year_from_day d"
  have Y: "day_from_year ?Y \<le> d" "d < day_from_year (?Y + 1)"
    using year_from_day_spec [of d] by simp_all
  have "\<not> ?Y < y"
  proof
    assume "?Y < y"
    then have "day_from_year (?Y + 1) \<le> day_from_year y" by (simp add: day_from_year_le_iff)
    with Y assms show False by simp
  qed
  moreover have "\<not> y < ?Y"
  proof
    assume "y < ?Y"
    then have "day_from_year (y + 1) \<le> day_from_year ?Y" by (simp add: day_from_year_le_iff)
    with Y assms show False by simp
  qed
  ultimately show ?thesis by simp
qed

lemma year_from_day_ge: "day_from_year y \<le> d \<Longrightarrow> y \<le> year_from_day d"
proof -
  assume a: "day_from_year y \<le> d"
  have "d < day_from_year (year_from_day d + 1)" using year_from_day_spec by blast
  with a have "\<not> day_from_year (year_from_day d + 1) \<le> day_from_year y" by linarith
  then show ?thesis by (simp add: day_from_year_le_iff)
qed

section \<open>Lemmas on months and dates\<close>

definition valid_ymd :: "int \<Rightarrow> int \<Rightarrow> int \<Rightarrow> bool" where
  "valid_ymd y m dt \<longleftrightarrow> 0 \<le> m \<and> m \<le> 11 \<and> 1 \<le> dt \<and> dt \<le> days_in_month y m"

lemma month_cases12:
  fixes m :: int
  assumes "0 \<le> m" and "m \<le> 11"
  obtains "m = 0" | "m = 1" | "m = 2" | "m = 3" | "m = 4" | "m = 5" | "m = 6" | "m = 7"
    | "m = 8" | "m = 9" | "m = 10" | "m = 11"
proof -
  have "m = 0 \<or> m = 1 \<or> m = 2 \<or> m = 3 \<or> m = 4 \<or> m = 5 \<or> m = 6 \<or> m = 7 \<or>
      m = 8 \<or> m = 9 \<or> m = 10 \<or> m = 11"
    using assms by presburger
  then show thesis using that by blast
qed

lemma month_from_dwy_spec:
  assumes "l = 0 \<or> l = 1" and "0 \<le> d" and "d < 365 + l"
  shows "0 \<le> month_from_dwy l d \<and> month_from_dwy l d \<le> 11 \<and>
    month_bounds l ! nat (month_from_dwy l d) \<le> d \<and>
    d < month_bounds l ! nat (month_from_dwy l d + 1)"
  using assms by (auto simp: month_from_dwy_def month_bounds_def nat_add_distrib)

lemma month_from_dwy_eqI:
  assumes "l = 0 \<or> l = 1" and "0 \<le> m" and "m \<le> 11"
    and "month_bounds l ! nat m \<le> d" and "d < month_bounds l ! nat (m + 1)"
  shows "month_from_dwy l d = m"
  using assms(2,3)
  by (cases rule: month_cases12) (use assms in \<open>auto simp: month_from_dwy_def month_bounds_def\<close>)

lemma day_within_year_bounds [calendar_simps]:
  "0 \<le> day_within_year d"
  "day_within_year d < 365 + leap_of_year (year_from_day d)"
  using year_from_day_spec [of d] day_from_year_succ [of "year_from_day d"]
  by (simp_all add: day_within_year_def leap_of_year_def)

lemma month_from_day_spec:
  "0 \<le> month_from_day d \<and> month_from_day d \<le> 11 \<and>
    month_bounds (leap_of_year (year_from_day d)) ! nat (month_from_day d) \<le> day_within_year d \<and>
    day_within_year d < month_bounds (leap_of_year (year_from_day d)) ! nat (month_from_day d + 1)"
  unfolding month_from_day_def
  by (rule month_from_dwy_spec) (simp_all add: leap_of_year_cases day_within_year_bounds)

lemma make_day_small_month:
  "0 \<le> m \<Longrightarrow> m \<le> 11 \<Longrightarrow>
    make_day y m dt = day_from_year y + month_bounds (leap_of_year y) ! nat m + dt - 1"
  by (simp add: make_day_def)

lemma make_day_ge_year_start:
  assumes "0 \<le> m" and "m \<le> 11" and "1 \<le> d"
  shows "day_from_year y \<le> make_day y m d"
  using assms(1,2)
  by (cases rule: month_cases12)
     (use assms(3) leap_of_year_cases [of y] in \<open>auto simp: make_day_small_month month_bounds_def\<close>)

text \<open>\<open>MakeDay\<close> of the components of a day gives the day back.\<close>

lemma make_day_of_day [calendar_simps]:
  "make_day (year_from_day d) (month_from_day d) (date_from_day d) = d"
  using month_from_day_spec [of d]
  by (simp add: make_day_small_month date_from_day_def day_within_year_def)

lemma date_from_day_bounds [calendar_simps]:
  "valid_ymd (year_from_day d) (month_from_day d) (date_from_day d)"
  using month_from_day_spec [of d]
  by (auto simp: valid_ymd_def date_from_day_def days_in_month_def)

lemma days_in_month_le_31:
  assumes "0 \<le> m" and "m \<le> 11"
  shows "days_in_month y m \<le> 31"
  using assms
  by (cases rule: month_cases12)
     (use leap_of_year_cases [of y] in \<open>auto simp: days_in_month_def month_bounds_def\<close>)

lemma date_from_day_range [calendar_simps]: "1 \<le> date_from_day d" "date_from_day d \<le> 31"
  using date_from_day_bounds [of d] days_in_month_le_31 [of "month_from_day d" "year_from_day d"]
  by (simp_all add: valid_ymd_def)

text \<open>The components of \<open>MakeDay\<close> of a valid date are that date.\<close>

lemma ymd_of_make_day [calendar_simps]:
  assumes "valid_ymd y m dt"
  shows "year_from_day (make_day y m dt) = y"
    and "month_from_day (make_day y m dt) = m"
    and "date_from_day (make_day y m dt) = dt"
proof -
  let ?l = "leap_of_year y" and ?d = "make_day y m dt"
  have m: "0 \<le> m" "m \<le> 11" "1 \<le> dt" "dt \<le> days_in_month y m"
    using assms by (simp_all add: valid_ymd_def)
  have l: "?l = 0 \<or> ?l = 1" by (rule leap_of_year_cases)
  have bnd: "month_bounds ?l ! nat m + dt - 1 < 365 + ?l" "0 \<le> month_bounds ?l ! nat m"
    using m(1,2) m(4) l
    by (cases rule: month_cases12; auto simp: days_in_month_def month_bounds_def)+
  have d: "?d = day_from_year y + (month_bounds ?l ! nat m + dt - 1)"
    using m by (simp add: make_day_small_month)
  have dsucc: "day_from_year (y + 1) = day_from_year y + 365 + ?l"
    by (simp add: day_from_year_succ leap_of_year_def)
  show y: "year_from_day ?d = y"
    by (rule year_from_day_unique) (use d dsucc bnd m(3) in linarith)+
  have dwy: "day_within_year ?d = month_bounds ?l ! nat m + dt - 1"
    using d y by (simp add: day_within_year_def)
  show mo: "month_from_day ?d = m"
    unfolding month_from_day_def y dwy
    by (rule month_from_dwy_eqI) (use l m in \<open>simp_all add: days_in_month_def\<close>)
  show "date_from_day ?d = dt"
    by (simp add: date_from_day_def mo y dwy)
qed

end
