(* ===== verification/DateAPI.thy ===== *)
theory DateAPI
  imports JSDate
begin

text \<open>
  The \<^verbatim>\<open>Date\<close> methods and the date-fns (v1) helpers that the sources call, over the
  calendar of \<open>JSDate\<close>: \<^verbatim>\<open>new Date(y, m, d, h, mi, s, ms)\<close>, the local getters,
  \<^verbatim>\<open>setDate\<close>, date-fns \<^verbatim>\<open>addDays\<close> and \<^verbatim>\<open>isAfter\<close>, and
  \<^verbatim>\<open>toLocaleDateString("en-GB")\<close>. None of this code is in the repository; it is
  modelled from the ECMAScript specification and the date-fns v1 sources, and each
  definition says which operation it stands for. The main facts are that two en-GB date
  strings are equal exactly when the two instants fall on the same day
  (\<open>locale_date_string_gb_eq_iff\<close>) and that \<^verbatim>\<open>addDays(t, 1)\<close> lands on the next day
  (\<open>add_days_one_day\<close>).
\<close>

section \<open>Constructor and getters\<close>

text \<open>\<^verbatim>\<open>new Date(year, month, date, h, mi, s, ms)\<close>: years 0 to 99 mean 1900 to 1999.\<close>

definition js_new_date :: "int \<Rightarrow> int \<Rightarrow> int \<Rightarrow> int \<Rightarrow> int \<Rightarrow> int \<Rightarrow> int \<Rightarrow> js_date" where
  "js_new_date y mo d h mi s ms =
     (let yr = (if 0 \<le> y \<and> y \<le> 99 then 1900 + y else y)
      in time_clip (make_date (make_day yr mo d) (make_time h mi s ms)))"

definition get_full_year :: "time_value \<Rightarrow> int" where
  "get_full_year t = year_from_day (js_day t)"

definition get_month :: "time_value \<Rightarrow> int" where
  "get_month t = month_from_day (js_day t)"

definition get_date :: "time_value \<Rightarrow> int" where
  "get_date t = date_from_day (js_day t)"

text \<open>\<^verbatim>\<open>d.setDate(dt)\<close> keeps the year, month and time of day.\<close>

definition set_date :: "time_value \<Rightarrow> int \<Rightarrow> js_date" where
  "set_date t dt =
     time_clip (make_date (make_day (get_full_year t) (get_month t) dt) (time_within_day t))"

text \<open>date-fns \<^verbatim>\<open>addDays(date, n)\<close>: a copy of the date, then \<^verbatim>\<open>setDate(getDate() + n)\<close>.\<close>

definition add_days :: "js_date \<Rightarrow> int \<Rightarrow> js_date" where
  "add_days d n = (case d of None \<Rightarrow> None | Some t \<Rightarrow> set_date t (get_date t + n))"

text \<open>date-fns \<^verbatim>\<open>isAfter(a, b)\<close>: \<^verbatim>\<open>a.getTime() > b.getTime()\<close>, false on NaN.\<close>

definition is_after :: "js_date \<Rightarrow> js_date \<Rightarrow> bool" where
  "is_after a b = (case (a, b) of (Some x, Some y) \<Rightarrow> y < x | _ \<Rightarrow> False)"

section \<open>toLocaleDateString("en-GB")\<close>

text \<open>
  The en-GB short date is \<open>DD/MM/Y\<close>: day and month padded to two digits, the year of
  the era unpadded (1 BC prints as 1); an invalid date prints \<^verbatim>\<open>Invalid Date\<close>.
\<close>

definition year_of_era :: "int \<Rightarrow> int" where
  "year_of_era y = (if 1 \<le> y then y else 1 - y)"

definition gb_date_string :: "int \<Rightarrow> string" where
  "gb_date_string dd =
     pad2 (nat (date_from_day dd)) @ ''/'' @ pad2 (nat (month_from_day dd + 1)) @ ''/'' @
     digits_of_nat (nat (year_of_era (year_from_day dd)))"

definition locale_date_string_gb :: "js_date \<Rightarrow> string" where
  "locale_date_string_gb d =
     (case d of None \<Rightarrow> ''Invalid Date'' | Some t \<Rightarrow> gb_date_string (js_day t))"

text \<open>A time value no earlier than 1970 and at least two days inside the clip range.\<close>

definition ordinary_time :: "time_value \<Rightarrow> bool" where
  "ordinary_time t \<longleftrightarrow> 0 \<le> t \<and> t + 2 * ms_per_day \<le> 8640000000000000"

section \<open>Lemmas\<close>

lemma time_clip_Some [calendar_simps]: "\<bar>t\<bar> \<le> 8640000000000000 \<Longrightarrow> time_clip t = Some t"
  by (simp add: time_clip_def)

lemma js_day_make_date [calendar_simps]:
  "0 \<le> tod \<Longrightarrow> tod < ms_per_day \<Longrightarrow> js_day (make_date d tod) = d"
  by (simp add: js_day_def make_date_def ms_per_day_def)

lemma time_within_day_make_date [calendar_simps]:
  "0 \<le> tod \<Longrightarrow> tod < ms_per_day \<Longrightarrow> time_within_day (make_date d tod) = tod"
  by (simp add: time_within_day_def make_date_def ms_per_day_def)

lemma make_date_day_time [calendar_simps]: "make_date (js_day t) (time_within_day t) = t"
  by (simp add: make_date_def js_day_def time_within_day_def)

lemma time_within_day_bounds [calendar_simps]:
  "0 \<le> time_within_day t" "time_within_day t < ms_per_day"
  by (simp_all add: time_within_day_def ms_per_day_def)

lemma make_day_succ_date: "make_day y m (dt + 1) = make_day y m dt + 1"
  by (simp add: make_day_def Let_def)

text \<open>\<^verbatim>\<open>setDate(getDate() + n)\<close> moves by \<open>n\<close> whole days.\<close>

lemma set_date_shift [calendar_simps]:
  "set_date t (get_date t + n) = time_clip (t + n * ms_per_day)"
proof -
  have "make_day (get_full_year t) (get_month t) (get_date t + n) = js_day t + n"
    using make_day_of_day [of "js_day t"]
    by (simp add: make_day_def Let_def get_full_year_def get_month_def get_date_def)
  then show ?thesis
    by (simp add: set_date_def make_date_def js_day_def time_within_day_def algebra_simps)
qed

lemma add_days_Some [calendar_simps]:
  "add_days (Some t) n = time_clip (t + n * ms_per_day)"
  by (simp add: add_days_def set_date_shift)

lemma ordinary_time_clip [calendar_simps]:
  assumes "ordinary_time t" and "0 \<le> k" and "k \<le> 2 * ms_per_day"
  shows "time_clip (t + k) = Some (t + k)"
  using assms by (simp add: ordinary_time_def time_clip_def ms_per_day_def)

lemma add_days_one_day:
  assumes "ordinary_time t"
  shows "add_days (Some t) 1 = Some (t + ms_per_day)"
    and "js_day (t + ms_per_day) = js_day t + 1"
proof -
  show "add_days (Some t) 1 = Some (t + ms_per_day)"
    using assms by (simp add: add_days_Some ordinary_time_clip ms_per_day_def)
  show "js_day (t + ms_per_day) = js_day t + 1"
    by (simp add: js_day_def ms_per_day_def)
qed

lemma ordinary_time_year:
  "ordinary_time t \<Longrightarrow> 1970 \<le> year_from_day (js_day t)"
proof -
  assume "ordinary_time t"
  then have "0 \<le> js_day t"
    by (simp add: ordinary_time_def js_day_def ms_per_day_def pos_imp_zdiv_nonneg_iff)
  then have "day_from_year 1970 \<le> js_day t" by (simp add: day_from_year_def)
  moreover have "js_day t < day_from_year (year_from_day (js_day t) + 1)"
    using year_from_day_spec by blast
  ultimately have "day_from_year 1970 < day_from_year (year_from_day (js_day t) + 1)"
    by linarith
  then have "\<not> year_from_day (js_day t) + 1 \<le> 1970"
    using day_from_year_le_iff [of "year_from_day (js_day t) + 1" 1970] by linarith
  then show ?thesis by simp
qed

text \<open>The en-GB string determines the day, for days of the common era.\<close>

lemma gb_date_string_inj:
  assumes "1 \<le> year_from_day a" and "1 \<le> year_from_day b"
    and "gb_date_string a = gb_date_string b"
  shows "a = b"
proof -
  let ?Da = "nat (date_from_day a)" and ?Db = "nat (date_from_day b)"
  let ?Ma = "nat (month_from_day a + 1)" and ?Mb = "nat (month_from_day b + 1)"
  have va: "valid_ymd (year_from_day a) (month_from_day a) (date_from_day a)"
    and vb: "valid_ymd (year_from_day b) (month_from_day b) (date_from_day b)"
    by (rule date_from_day_bounds)+
  have small: "?Da < 100" "?Db < 100" "?Ma < 100" "?Mb < 100"
    using va vb date_from_day_range [of a] date_from_day_range [of b]
    by (auto simp: valid_ymd_def)
  have s: "pad2 ?Da @ ''/'' @ pad2 ?Ma @ ''/'' @ digits_of_nat (nat (year_of_era (year_from_day a)))
         = pad2 ?Db @ ''/'' @ pad2 ?Mb @ ''/'' @ digits_of_nat (nat (year_of_era (year_from_day b)))"
    using assms(3) by (simp add: gb_date_string_def)
  have "pad2 ?Da = pad2 ?Db"
    using arg_cong [OF s, of "take 2"] by simp
  then have d: "date_from_day a = date_from_day b"
    using small va vb by (simp add: pad2_inj valid_ymd_def eq_nat_nat_iff)
  have "pad2 ?Ma = pad2 ?Mb"
    using arg_cong [OF s, of "\<lambda>x. take 2 (drop 3 x)"] by simp
  then have m: "month_from_day a = month_from_day b"
    using small va vb by (simp add: pad2_inj valid_ymd_def eq_nat_nat_iff)
  have "digits_of_nat (nat (year_of_era (year_from_day a)))
      = digits_of_nat (nat (year_of_era (year_from_day b)))"
    using arg_cong [OF s, of "drop 6"] by simp
  then have "nat (year_of_era (year_from_day a)) = nat (year_of_era (year_from_day b))"
    by (simp only: digits_of_nat_inj)
  then have y: "year_from_day a = year_from_day b"
    using assms(1,2) unfolding year_of_era_def by simp
  have "a = make_day (year_from_day a) (month_from_day a) (date_from_day a)"
    by (simp only: make_day_of_day)
  also have "\<dots> = make_day (year_from_day b) (month_from_day b) (date_from_day b)"
    by (simp only: d m y)
  also have "\<dots> = b"
    by (simp only: make_day_of_day)
  finally show "a = b" .
qed

lemma locale_date_string_gb_eq_iff:
  assumes "1 \<le> year_from_day (js_day a)" and "1 \<le> year_from_day (js_day b)"
  shows "locale_date_string_gb (Some a) = locale_date_string_gb (Some b) \<longleftrightarrow> js_day a = js_day b"
  using gb_date_string_inj [OF assms] by (auto simp: locale_date_string_gb_def)

lemma gb_date_string_not_invalid: "gb_date_string d \<noteq> ''Invalid Date''"
proof
  assume "gb_date_string d = ''Invalid Date''"
  then have "hd (gb_date_string d) = CHR ''I''" by simp
  moreover have "hd (gb_date_string d) = digit_char (nat (date_from_day d) div 10)"
    by (simp add: gb_date_string_def pad2_def)
  moreover have "nat (date_from_day d) div 10 < 10"
    using date_from_day_range(2) [of d] by simp
  ultimately have "is_digit (CHR ''I'')"
    using digit_char_is_digit by metis
  then show False by (simp add: is_digit_def)
qed

end
