(* ===== verification/ISOString.thy ===== *)
theory ISOString
  imports DateAPI
begin

text \<open>
  \<^verbatim>\<open>Date.prototype.toISOString\<close> and the parser of the ECMAScript date-time string
  format (\<^verbatim>\<open>YYYY-MM-DDTHH:mm:ss.sssZ\<close>, with the six-digit signed years
  \<^verbatim>\<open>+YYYYYY\<close>/\<^verbatim>\<open>-YYYYYY\<close> outside 0..9999) that \<^verbatim>\<open>new Date(isoString)\<close> and
  date-fns' \<^verbatim>\<open>parse\<close> apply to the strings the sources pass around. The sources turn
  every collection date into such a string (\<^verbatim>\<open>getCollectionDate\<close>,
  \<^verbatim>\<open>collectedOnISOString\<close>) and read it back later; \<open>iso_parse_format\<close> proves
  that the reading gives back the time value, for every time value a \<^verbatim>\<open>Date\<close> can hold.
\<close>

section \<open>Printing\<close>

definition pad_digits :: "nat \<Rightarrow> nat \<Rightarrow> string" where
  "pad_digits w n = replicate (w - length (digits_of_nat n)) (CHR ''0'') @ digits_of_nat n"

definition iso_year_string :: "int \<Rightarrow> string" where
  "iso_year_string y =
     (if 0 \<le> y \<and> y \<le> 9999 then pad_digits 4 (nat y)
      else (if y < 0 then ''-'' else ''+'') @ pad_digits 6 (nat \<bar>y\<bar>))"

definition iso_format :: "time_value \<Rightarrow> string" where
  "iso_format t =
     (let dd = js_day t; tod = time_within_day t in
      iso_year_string (year_from_day dd) @ ''-'' @ pad2 (nat (month_from_day dd + 1)) @ ''-'' @
      pad2 (nat (date_from_day dd)) @ ''T'' @ pad2 (nat (tod div 3600000)) @ '':'' @
      pad2 (nat (tod div 60000 mod 60)) @ '':'' @ pad2 (nat (tod div 1000 mod 60)) @ ''.'' @
      pad_digits 3 (nat (tod mod 1000)) @ ''Z'')"

text \<open>\<^verbatim>\<open>d.toISOString()\<close> throws a \<^verbatim>\<open>RangeError\<close> on an invalid date.\<close>

definition to_iso_string :: "js_date \<Rightarrow> string js_result" where
  "to_iso_string d = (case d of None \<Rightarrow> Inl RangeError | Some t \<Rightarrow> Inr (iso_format t))"

section \<open>toString\<close>

text \<open>
  \<^verbatim>\<open>Date.prototype.toString\<close> (ECMAScript \<open>ToDateString\<close>): \<open>DateString\<close>,
  \<open>TimeString\<close> and \<open>TimeZoneString\<close> of the local time, which is UTC here; the zone
  name is implementation-defined, and V8 prints \<^verbatim>\<open>Coordinated Universal Time\<close>.
\<close>

definition week_day_names :: "string list" where
  "week_day_names = [''Sun'', ''Mon'', ''Tue'', ''Wed'', ''Thu'', ''Fri'', ''Sat'']"

definition month_names :: "string list" where
  "month_names = [''Jan'', ''Feb'', ''Mar'', ''Apr'', ''May'', ''Jun'', ''Jul'', ''Aug'', ''Sep'',
     ''Oct'', ''Nov'', ''Dec'']"

definition week_day :: "time_value \<Rightarrow> int" where
  "week_day t = (js_day t + 4) mod 7"

definition date_string :: "time_value \<Rightarrow> string" where
  "date_string tv =
     (let dd = js_day tv; yv = year_from_day dd in
      week_day_names ! nat (week_day tv) @ '' '' @ month_names ! nat (month_from_day dd) @ '' '' @
      pad2 (nat (date_from_day dd)) @ '' '' @ (if yv < 0 then ''-'' else []) @
      pad_digits 4 (nat \<bar>yv\<bar>))"

definition time_string :: "time_value \<Rightarrow> string" where
  "time_string tv =
     (let tod = time_within_day tv in
      pad2 (nat (tod div 3600000)) @ '':'' @ pad2 (nat (tod div 60000 mod 60)) @ '':'' @
      pad2 (nat (tod div 1000 mod 60)) @ '' GMT'')"

definition time_zone_string :: "time_value \<Rightarrow> string" where
  "time_zone_string tv = ''+0000 (Coordinated Universal Time)''"

definition to_date_string :: "js_date \<Rightarrow> string" where
  "to_date_string d =
     (case d of
       None \<Rightarrow> ''Invalid Date''
     | Some tv \<Rightarrow> date_string tv @ '' '' @ time_string tv @ time_zone_string tv)"

section \<open>Parsing\<close>

definition digit_field :: "string \<Rightarrow> nat \<Rightarrow> nat \<Rightarrow> nat option" where
  "digit_field s i w =
     (let f = take w (drop i s)
      in if length f = w \<and> list_all is_digit f then Some (nat_of_digits f) else None)"

definition parse_iso_year :: "string \<Rightarrow> (int \<times> string) option" where
  "parse_iso_year s =
     (case s of
       [] \<Rightarrow> None
     | c # r \<Rightarrow>
         if c = CHR ''+'' \<or> c = CHR ''-'' then
           (case digit_field r 0 6 of
             None \<Rightarrow> None
           | Some n \<Rightarrow>
               if c = CHR ''-'' \<and> n = 0 then None
               else Some (if c = CHR ''-'' then - int n else int n, drop 6 r))
         else
           (case digit_field s 0 4 of None \<Rightarrow> None | Some n \<Rightarrow> Some (int n, drop 4 s)))"

text \<open>
  After the year: \<^verbatim>\<open>-MM-DDTHH:mm:ss.sssZ\<close>. Out-of-range fields make the string
  invalid, as the specification says; 24:00:00.000 is the end of the day.
\<close>

definition parse_iso_rest :: "int \<Rightarrow> string \<Rightarrow> js_date" where
  "parse_iso_rest y r =
     (if length r = 20 \<and> r ! 0 = CHR ''-'' \<and> r ! 3 = CHR ''-'' \<and> r ! 6 = CHR ''T'' \<and>
         r ! 9 = CHR '':'' \<and> r ! 12 = CHR '':'' \<and> r ! 15 = CHR ''.'' \<and> r ! 19 = CHR ''Z''
      then
        (case (digit_field r 1 2, digit_field r 4 2, digit_field r 7 2, digit_field r 10 2,
               digit_field r 13 2, digit_field r 16 3) of
          (Some mo, Some d, Some h, Some mi, Some s, Some ms) \<Rightarrow>
            if 1 \<le> mo \<and> mo \<le> 12 \<and> 1 \<le> int d \<and> int d \<le> days_in_month y (int mo - 1) \<and>
               mi < 60 \<and> s < 60 \<and> (h < 24 \<or> (h = 24 \<and> mi = 0 \<and> s = 0 \<and> ms = 0))
            then time_clip (make_date (make_day y (int mo - 1) (int d))
                                      (make_time (int h) (int mi) (int s) (int ms)))
            else None
        | _ \<Rightarrow> None)
      else None)"

definition iso_parse :: "string \<Rightarrow> js_date" where
  "iso_parse s = (case parse_iso_year s of None \<Rightarrow> None | Some (y, r) \<Rightarrow> parse_iso_rest y r)"

section \<open>Lemmas on padded digits\<close>

lemma length_digits_of_nat_le:
  "n < 10 ^ w \<Longrightarrow> 0 < w \<Longrightarrow> length (digits_of_nat n) \<le> w"
proof (induction n arbitrary: w rule: digits_of_nat.induct)
  case (1 n)
  show ?case
  proof (cases "n < 10")
    case True
    with "1.prems" show ?thesis by (subst digits_of_nat.simps) simp
  next
    case False
    obtain v where w: "w = Suc v"
      using "1.prems"(2) by (cases w) auto
    have v: "0 < v"
    proof (rule ccontr)
      assume "\<not> 0 < v"
      then have "n < 10" using "1.prems"(1) w by simp
      with False show False by simp
    qed
    have "n div 10 < 10 ^ v" using "1.prems"(1) w by (simp add: div_less_iff_less_mult)
    then have "length (digits_of_nat (n div 10)) \<le> v"
      using "1.IH" False v by blast
    with False w show ?thesis by (subst digits_of_nat.simps) simp
  qed
qed

lemma length_pad_digits [digit_simps]:
  "n < 10 ^ w \<Longrightarrow> 0 < w \<Longrightarrow> length (pad_digits w n) = w"
  using length_digits_of_nat_le [of n w] by (simp add: pad_digits_def)

lemma nat_of_digits_zeros [simp]: "nat_of_digits (replicate k (CHR ''0'') @ s) = nat_of_digits s"
proof -
  have "foldl (\<lambda>acc c. 10 * acc + digit_val c) 0 (replicate k (CHR ''0'')) = 0"
    by (induction k) (simp_all add: digit_val_def)
  then show ?thesis by (simp add: nat_of_digits_def)
qed

lemma nat_of_digits_pad_digits [digit_simps, simp]: "nat_of_digits (pad_digits w n) = n"
  by (simp add: pad_digits_def)

lemma pad_digits_all_digits [digit_simps]: "list_all is_digit (pad_digits w n)"
  using digits_of_nat_all_digits [of n]
  by (auto simp: pad_digits_def list_all_iff is_digit_def)

lemma nat_of_digits_pad2 [digit_simps, simp]: "n < 100 \<Longrightarrow> nat_of_digits (pad2 n) = n"
  by (simp add: pad2_def nat_of_digits_def)

lemma pad2_all_digits [digit_simps]: "n < 100 \<Longrightarrow> list_all is_digit (pad2 n)"
  by (simp add: pad2_def digit_char_is_digit)

lemma digit_field_pad2 [digit_simps]:
  "n < 100 \<Longrightarrow> digit_field (pad2 n @ s) 0 2 = Some n"
  by (simp add: digit_field_def pad2_all_digits)

lemma digit_field_pad_digits [digit_simps]:
  "n < 10 ^ w \<Longrightarrow> 0 < w \<Longrightarrow> digit_field (pad_digits w n @ s) 0 w = Some n"
  by (simp add: digit_field_def length_pad_digits pad_digits_all_digits)

section \<open>The round trip\<close>

text \<open>A \<^verbatim>\<open>Date\<close> holds at most \<open>10^8\<close> days either side of the epoch: its year has
  fewer than six digits.\<close>

lemma year_from_day_range:
  assumes "\<bar>d\<bar> \<le> 100000000"
  shows "\<bar>year_from_day d\<bar> < 1000000"
proof -
  let ?Y = "year_from_day d"
  have s: "day_from_year ?Y \<le> d" "d < day_from_year (?Y + 1)"
    using year_from_day_spec [of d] by simp_all
  have "?Y < 1000000"
    using s(1) day_from_year_bounds(1) [of ?Y] assms unfolding lin_distribs by linarith
  moreover have "- 1000000 < ?Y"
    using s(2) day_from_year_bounds(2) [of "?Y + 1"] assms unfolding lin_distribs by linarith
  ultimately show ?thesis by linarith
qed

lemma js_day_range: "\<bar>t\<bar> \<le> 8640000000000000 \<Longrightarrow> \<bar>js_day t\<bar> \<le> 100000000"
  using int_div_bounds [of ms_per_day t]
  unfolding js_day_def ms_per_day_def by linarith

lemma digit_not_sign: "is_digit c \<Longrightarrow> c \<noteq> CHR ''+'' \<and> c \<noteq> CHR ''-''"
  by (auto simp: is_digit_def)

lemma parse_iso_year_string:
  assumes "\<bar>y\<bar> < 1000000"
  shows "parse_iso_year (iso_year_string y @ r) = Some (y, r)"
proof (cases "0 \<le> y \<and> y \<le> 9999")
  case True
  let ?p = "pad_digits 4 (nat y)"
  have len: "length ?p = 4" using True by (intro length_pad_digits) auto
  then obtain c cs where p: "?p = c # cs" by (cases ?p) auto
  have "is_digit c" using pad_digits_all_digits [of 4 "nat y"] p by simp
  then have c: "c \<noteq> CHR ''+'' \<and> c \<noteq> CHR ''-''" by (rule digit_not_sign)
  have f: "digit_field (?p @ r) 0 4 = Some (nat y)"
    using True by (intro digit_field_pad_digits) auto
  show ?thesis
    using True c f len unfolding iso_year_string_def parse_iso_year_def p by simp
next
  case False
  let ?n = "nat \<bar>y\<bar>"
  have n: "?n < 10 ^ 6" using assms by simp
  have f: "digit_field (pad_digits 6 ?n @ r) 0 6 = Some ?n"
    using n by (simp add: digit_field_pad_digits)
  have len: "length (pad_digits 6 ?n) = 6" using n by (simp add: length_pad_digits)
  show ?thesis
    using False f len unfolding iso_year_string_def parse_iso_year_def by auto
qed

lemma nat_of_digits_pair: "n < 100 \<Longrightarrow> nat_of_digits [digit_char (n div 10), digit_char (n mod 10)] = n"
  using nat_of_digits_pad2 [of n] by (simp only: pad2_def)

lemma parse_iso_rest_format:
  assumes "M < 100" "D < 100" "h < 100" "mi < 100" "s < 100" "ms < 1000"
  shows "parse_iso_rest y (''-'' @ pad2 M @ ''-'' @ pad2 D @ ''T'' @ pad2 h @ '':'' @ pad2 mi @
           '':'' @ pad2 s @ ''.'' @ pad_digits 3 ms @ ''Z'') =
    (if 1 \<le> M \<and> M \<le> 12 \<and> 1 \<le> int D \<and> int D \<le> days_in_month y (int M - 1) \<and>
        mi < 60 \<and> s < 60 \<and> (h < 24 \<or> (h = 24 \<and> mi = 0 \<and> s = 0 \<and> ms = 0))
     then time_clip (make_date (make_day y (int M - 1) (int D))
                               (make_time (int h) (int mi) (int s) (int ms)))
     else None)"
proof -
  have l3: "length (pad_digits 3 ms) = 3" using assms(6) by (simp add: length_pad_digits)
  have f3: "digit_field (pad_digits 3 ms @ ''Z'') 0 3 = Some ms"
    using assms(6) by (simp add: digit_field_pad_digits)
  show ?thesis
    using assms l3 f3
    by (simp add: parse_iso_rest_def digit_field_def pad2_def digit_char_is_digit nth_append
        nat_of_digits_pair)
qed

text \<open>Hours, minutes, seconds and milliseconds of a time of day recompose it.\<close>

lemma make_time_of_tod:
  fixes tod :: int
  assumes "0 \<le> tod"
  shows "make_time (tod div 3600000) (tod div 60000 mod 60) (tod div 1000 mod 60) (tod mod 1000) = tod"
proof -
  have a: "tod = 1000 * (tod div 1000) + tod mod 1000" by simp
  have b: "tod div 1000 = 60 * (tod div 60000) + tod div 1000 mod 60"
    using zdiv_zmult2_eq [of 60 tod 1000] by simp
  have c: "tod div 60000 = 60 * (tod div 3600000) + tod div 60000 mod 60"
    using zdiv_zmult2_eq [of 60 tod 60000] by simp
  show ?thesis
    unfolding make_time_def using a b c by linarith
qed

text \<open>The fields \<^verbatim>\<open>toISOString\<close> prints: a year of at most six digits, a valid month and
  day, a time of day; together they make the time value again.\<close>

lemma iso_format_fields:
  assumes "\<bar>t\<bar> \<le> 8640000000000000"
  obtains Y M D h mi s ms where
    "iso_format t = iso_year_string Y @ ''-'' @ pad2 M @ ''-'' @ pad2 D @ ''T'' @ pad2 h @ '':'' @
       pad2 mi @ '':'' @ pad2 s @ ''.'' @ pad_digits 3 ms @ ''Z''"
    "\<bar>Y\<bar> < 1000000" "1 \<le> M" "M \<le> 12" "1 \<le> D" "int D \<le> days_in_month Y (int M - 1)" "D \<le> 31"
    "h < 24" "mi < 60" "s < 60" "ms < 1000"
    "make_date (make_day Y (int M - 1) (int D)) (make_time (int h) (int mi) (int s) (int ms)) = t"
proof -
  define dd where "dd = js_day t"
  define tod where "tod = time_within_day t"
  define Y where "Y = year_from_day dd"
  define mo where "mo = month_from_day dd"
  define da where "da = date_from_day dd"
  define hh where "hh = tod div 3600000"
  define mm where "mm = tod div 60000 mod 60"
  define ss where "ss = tod div 1000 mod 60"
  define ms where "ms = tod mod 1000"
  have tod: "0 \<le> tod" "tod < 86400000"
    using time_within_day_bounds [of t] by (simp_all add: tod_def ms_per_day_def)
  have v: "valid_ymd Y mo da"
    unfolding Y_def mo_def da_def by (rule date_from_day_bounds)
  have r: "0 \<le> mo" "mo \<le> 11" "1 \<le> da" "da \<le> days_in_month Y mo"
    using v by (simp_all add: valid_ymd_def)
  have da31: "da \<le> 31" unfolding da_def by (rule date_from_day_range)
  have f: "0 \<le> hh" "hh < 24" "0 \<le> mm" "mm < 60" "0 \<le> ss" "ss < 60" "0 \<le> ms" "ms < 1000"
    unfolding hh_def mm_def ss_def ms_def using tod by simp_all
  have Yr: "\<bar>Y\<bar> < 1000000"
    unfolding Y_def dd_def by (rule year_from_day_range [OF js_day_range [OF assms]])
  have md: "make_day Y mo da = dd"
    unfolding Y_def mo_def da_def by (rule make_day_of_day)
  have mt: "make_time hh mm ss ms = tod"
    unfolding hh_def mm_def ss_def ms_def using tod(1) by (rule make_time_of_tod)
  have t: "make_date dd tod = t"
    unfolding dd_def tod_def by (rule make_date_day_time)
  have fmt: "iso_format t = iso_year_string Y @ ''-'' @ pad2 (nat (mo + 1)) @ ''-'' @ pad2 (nat da) @
      ''T'' @ pad2 (nat hh) @ '':'' @ pad2 (nat mm) @ '':'' @ pad2 (nat ss) @ ''.'' @
      pad_digits 3 (nat ms) @ ''Z''"
    unfolding iso_format_def Let_def dd_def [symmetric] tod_def [symmetric] Y_def [symmetric]
      mo_def [symmetric] da_def [symmetric] hh_def [symmetric] mm_def [symmetric]
      ss_def [symmetric] ms_def [symmetric] ..
  have val: "make_date (make_day Y (int (nat (mo + 1)) - 1) (int (nat da)))
      (make_time (int (nat hh)) (int (nat mm)) (int (nat ss)) (int (nat ms))) = t"
    using r f md mt t by simp
  show ?thesis
    using that [OF fmt Yr _ _ _ _ _ _ _ _ _ val] r da31 f
    by (simp add: nat_less_iff le_nat_iff nat_le_iff)
qed

theorem iso_parse_format:
  assumes "\<bar>t\<bar> \<le> 8640000000000000"
  shows "iso_parse (iso_format t) = Some t"
proof -
  obtain Y M D h mi s ms where fmt: "iso_format t = iso_year_string Y @ ''-'' @ pad2 M @ ''-'' @
       pad2 D @ ''T'' @ pad2 h @ '':'' @ pad2 mi @ '':'' @ pad2 s @ ''.'' @ pad_digits 3 ms @ ''Z''"
    and Yr: "\<bar>Y\<bar> < 1000000" and r: "1 \<le> M" "M \<le> 12" "1 \<le> D" "int D \<le> days_in_month Y (int M - 1)"
      "D \<le> 31" "h < 24" "mi < 60" "s < 60" "ms < 1000"
    and val: "make_date (make_day Y (int M - 1) (int D)) (make_time (int h) (int mi) (int s) (int ms)) = t"
    using assms by (rule iso_format_fields)
  have b: "M < 100" "D < 100" "h < 100" "mi < 100" "s < 100" "ms < 1000" using r by simp_all
  have cond: "1 \<le> M \<and> M \<le> 12 \<and> 1 \<le> int D \<and> int D \<le> days_in_month Y (int M - 1) \<and>
      mi < 60 \<and> s < 60 \<and> (h < 24 \<or> (h = 24 \<and> mi = 0 \<and> s = 0 \<and> ms = 0))"
    using r by simp
  have clip: "time_clip t = Some t" using assms by (rule time_clip_Some)
  have rest: "parse_iso_rest Y (''-'' @ pad2 M @ ''-'' @ pad2 D @ ''T'' @ pad2 h @ '':'' @ pad2 mi @
      '':'' @ pad2 s @ ''.'' @ pad_digits 3 ms @ ''Z'') = Some t"
    by (simp only: parse_iso_rest_format [OF b] if_P [OF cond] val clip)
  show ?thesis
    unfolding fmt iso_parse_def parse_iso_year_string [OF Yr] using rest by simp
qed

lemma to_iso_string_Some:
  "\<bar>t\<bar> \<le> 8640000000000000 \<Longrightarrow> to_iso_string (Some t) = Inr s \<Longrightarrow> iso_parse s = Some t"
  by (auto simp: to_iso_string_def iso_parse_format)

end
