(* ===== verification/DateString.thy ===== *)
theory DateString
  imports ISOString
begin

text \<open>
  The grammar-level model of \<^verbatim>\<open>new Date(string)\<close> on the strings the sources build,
  \<^verbatim>\<open>`${month} ${dayNumber}, ${year} 23:00:00`\<close>. It covers the grammar
  \<^verbatim>\<open><word> <digits>, <digits> <hh>:<mm>:<ss>\<close>: a month name recognised by its first
  three letters, case-insensitively (V8's keyword table), the two numbers combined by
  V8's \<open>DayComposer\<close> (a first number that is no day 1..31 is the year; years 0..49
  and 50..99 become 2000..2049 and 1950..1999), the time checked by its
  \<open>TimeComposer\<close> (24:00:00 allowed), and the result made by \<open>MakeDay\<close>,
  \<open>MakeTime\<close> and \<open>TimeClip\<close> in local time (UTC); every other string is refused.
  \<open>V8Legacy\<close> models V8's whole parser and proves it equal to this model on the
  grammar; the sources' code calls that parser.
\<close>

definition is_alpha :: "char \<Rightarrow> bool" where
  "is_alpha c \<longleftrightarrow>
     ((65::nat) \<le> of_char c \<and> (of_char c :: nat) \<le> 90) \<or> ((97::nat) \<le> of_char c \<and> (of_char c :: nat) \<le> 122)"

definition month_names :: "string list" where
  "month_names = [''jan'', ''feb'', ''mar'', ''apr'', ''may'', ''jun'', ''jul'', ''aug'', ''sep'',
     ''oct'', ''nov'', ''dec'']"

fun find_index :: "'a \<Rightarrow> 'a list \<Rightarrow> nat option" where
  "find_index x [] = None"
| "find_index x (y # ys) = (if x = y then Some 0 else map_option Suc (find_index x ys))"

text \<open>A month name: letters only, at least three, the first three naming the month.\<close>

definition month_of_word :: "string \<Rightarrow> int option" where
  "month_of_word w =
     (if 3 \<le> length w \<and> list_all is_alpha w
      then map_option int (find_index (map js_lower (take 3 w)) month_names) else None)"

definition digits_value :: "string \<Rightarrow> nat option" where
  "digits_value s = (if s \<noteq> [] \<and> list_all is_digit s then Some (nat_of_digits s) else None)"

definition v8_is_day :: "nat \<Rightarrow> bool" where
  "v8_is_day n \<longleftrightarrow> 1 \<le> n \<and> n \<le> 31"

text \<open>V8's \<open>DayComposer\<close> for a named month and two numbers.\<close>

definition v8_compose_day :: "int \<Rightarrow> nat \<Rightarrow> nat \<Rightarrow> (int \<times> int \<times> int) option" where
  "v8_compose_day m n1 n2 =
     (let (day, year) = (if v8_is_day n1 then (n1, n2) else (n2, n1));
          year' = (if year \<le> 49 then year + 2000 else if year \<le> 99 then year + 1900 else year)
      in if v8_is_day day then Some (int year', m, int day) else None)"

definition v8_valid_time :: "nat \<Rightarrow> nat \<Rightarrow> nat \<Rightarrow> bool" where
  "v8_valid_time h mi s \<longleftrightarrow> (h < 24 \<or> (h = 24 \<and> mi = 0 \<and> s = 0)) \<and> mi < 60 \<and> s < 60"

definition parse_hms :: "string \<Rightarrow> (nat \<times> nat \<times> nat) option" where
  "parse_hms tm =
     (case js_split (CHR '':'') tm of
       [a, b, c] \<Rightarrow>
         (case (digits_value a, digits_value b, digits_value c) of
           (Some h, Some mi, Some s) \<Rightarrow> Some (h, mi, s)
         | _ \<Rightarrow> None)
     | _ \<Rightarrow> None)"

text \<open>The number before the comma: digits, then exactly one comma.\<close>

definition parse_day_comma :: "string \<Rightarrow> nat option" where
  "parse_day_comma s = (if s \<noteq> [] \<and> last s = CHR '','' then digits_value (butlast s) else None)"

definition v8_parse_date_string :: "string \<Rightarrow> js_date" where
  "v8_parse_date_string s =
     (case js_split (CHR '' '') s of
       [w, dc, y, tm] \<Rightarrow>
         (case (month_of_word w, parse_day_comma dc, digits_value y, parse_hms tm) of
           (Some m, Some n1, Some n2, Some (h, mi, sec)) \<Rightarrow>
             (case v8_compose_day m n1 n2 of
               Some (yr, mo, d) \<Rightarrow>
                 if v8_valid_time h mi sec
                 then time_clip (make_date (make_day yr mo d) (make_time (int h) (int mi) (int sec) 0))
                 else None
             | None \<Rightarrow> None)
         | _ \<Rightarrow> None)
     | _ \<Rightarrow> None)"

section \<open>Lemmas\<close>

lemma digits_value_digits_of_nat [simp]: "digits_value (digits_of_nat n) = Some n"
  using digits_of_nat_all_digits [of n] digits_of_nat_nonempty [of n]
  by (simp add: digits_value_def list_all_iff)

lemma digits_value_Some:
  "digits_value s = Some n \<Longrightarrow> s \<noteq> [] \<and> (\<forall>c \<in> set s. is_digit c) \<and> nat_of_digits s = n"
  by (auto simp: digits_value_def list_all_iff split: if_splits)

lemma is_digit_not_space [simp]: "is_digit c \<Longrightarrow> c \<noteq> CHR '' ''"
  by (auto simp: is_digit_def)

lemma is_alpha_not_space [simp]: "is_alpha c \<Longrightarrow> c \<noteq> CHR '' ''"
  by (auto simp: is_alpha_def)

lemma digits_of_nat_no_space: "CHR '' '' \<notin> set (digits_of_nat n)"
  using digits_of_nat_all_digits [of n] is_digit_not_space by blast

lemma digits_of_nat_no_colon: "CHR '':'' \<notin> set (digits_of_nat n)"
  using digits_of_nat_all_digits [of n] by (auto simp: is_digit_def)

lemma digits_of_nat_no_comma: "CHR '','' \<notin> set (digits_of_nat n)"
  using digits_of_nat_all_digits [of n] by (auto simp: is_digit_def)

lemma month_of_word_no_space: "month_of_word w = Some m \<Longrightarrow> CHR '' '' \<notin> set w"
proof -
  assume "month_of_word w = Some m"
  then have "\<forall>c \<in> set w. is_alpha c"
    by (simp add: month_of_word_def list_all_iff split: if_splits)
  then show ?thesis using is_alpha_not_space by blast
qed

lemma month_of_word_range: "month_of_word w = Some m \<Longrightarrow> 0 \<le> m \<and> m \<le> 11"
proof -
  have "find_index x xs = Some i \<Longrightarrow> i < length xs" for x :: string and xs i
    by (induction xs arbitrary: i) (auto split: if_splits)
  then show "month_of_word w = Some m \<Longrightarrow> 0 \<le> m \<and> m \<le> 11"
    by (fastforce simp: month_of_word_def month_names_def split: if_splits)
qed

text \<open>The string the sources build, on a month name, a day of the month and a year.\<close>

lemma v8_parse_collection_string:
  assumes w: "month_of_word w = Some m" and v: "valid_ymd (int Y) m (int D)"
    and y: "100 \<le> Y" and clip: "\<bar>make_date (make_day (int Y) m (int D)) 82800000\<bar> \<le> 8640000000000000"
  shows "v8_parse_date_string (w @ '' '' @ digits_of_nat D @ '', '' @ digits_of_nat Y @ '' 23:00:00'') =
    Some (make_date (make_day (int Y) m (int D)) 82800000)"
proof -
  have d: "v8_is_day D"
    using v days_in_month_le_31 [of m "int Y"] by (simp add: valid_ymd_def v8_is_day_def)
  have sp: "js_split (CHR '' '') (w @ '' '' @ digits_of_nat D @ '', '' @ digits_of_nat Y @ '' 23:00:00'') =
      [w, digits_of_nat D @ '','', digits_of_nat Y, ''23:00:00'']"
  proof -
    have nw: "w \<noteq> []" using w by (auto simp: month_of_word_def split: if_splits)
    have s1: "CHR '' '' \<notin> set w" using w by (rule month_of_word_no_space)
    have s2: "CHR '' '' \<notin> set (digits_of_nat D @ '','')" using digits_of_nat_no_space by simp
    have s3: "CHR '' '' \<notin> set (digits_of_nat Y)" using digits_of_nat_no_space by simp
    have e: "w @ '' '' @ digits_of_nat D @ '', '' @ digits_of_nat Y @ '' 23:00:00'' =
        w @ CHR '' '' # ((digits_of_nat D @ '','') @ CHR '' '' # (digits_of_nat Y @ CHR '' '' # ''23:00:00''))"
      by simp
    have t: "js_split (CHR '' '') ''23:00:00'' = [''23:00:00'']" by simp
    have n2: "digits_of_nat D @ '','' \<noteq> []" by simp
    have n3: "digits_of_nat Y \<noteq> []" by (rule digits_of_nat_nonempty)
    show ?thesis
      by (simp only: e js_split_no_sep_words [OF s1 nw] js_split_no_sep_words [OF s2 n2]
          js_split_no_sep_words [OF s3 n3] t)
  qed
  have dc: "parse_day_comma (digits_of_nat D @ '','') = Some D"
    by (simp add: parse_day_comma_def)
  have hms: "parse_hms ''23:00:00'' = Some (23, 0, 0)"
    by (simp add: parse_hms_def digits_value_def nat_of_digits_def digit_val_def is_digit_def)
  have cd: "v8_compose_day m D Y = Some (int Y, m, int D)"
    using d y by (simp add: v8_compose_day_def)
  show ?thesis
    unfolding v8_parse_date_string_def sp
    using w dc hms cd clip
    by (simp add: v8_valid_time_def make_time_def time_clip_Some)
qed

text \<open>What a successful parse gives.\<close>

lemma v8_parse_date_string_SomeE:
  assumes "v8_parse_date_string s = Some t"
  obtains w dc y tm n1 n2 h mi sec m yr mo d where
    "js_split (CHR '' '') s = [w, dc, y, tm]" "month_of_word w = Some m"
    "parse_day_comma dc = Some n1" "digits_value y = Some n2" "parse_hms tm = Some (h, mi, sec)"
    "v8_compose_day m n1 n2 = Some (yr, mo, d)" "v8_valid_time h mi sec"
    "t = make_date (make_day yr mo d) (make_time (int h) (int mi) (int sec) 0)"
  using assms
  by (auto simp: v8_parse_date_string_def time_clip_def
      split: list.splits option.splits prod.splits if_splits intro: that)

lemma v8_parse_date_string_clip:
  "v8_parse_date_string s = Some t \<Longrightarrow> \<bar>t\<bar> \<le> 8640000000000000"
  by (auto simp: v8_parse_date_string_def time_clip_def
      split: list.splits option.splits prod.splits if_splits)

lemma v8_compose_day_Some:
  "v8_compose_day m n1 n2 = Some (yr, mo, d) \<Longrightarrow> mo = m \<and> 100 \<le> yr \<and> 1 \<le> d \<and> d \<le> 31"
  by (auto simp: v8_compose_day_def v8_is_day_def Let_def split: if_splits prod.splits)

lemma v8_time_of_day:
  assumes "v8_parse_date_string s = Some t" and "last (js_split (CHR '' '') s) = ''23:00:00''"
  shows "time_within_day t = 82800000"
proof -
  obtain w dc y tm h mi sec yr mo d where
    sp: "js_split (CHR '' '') s = [w, dc, y, tm]" and hms: "parse_hms tm = Some (h, mi, sec)"
    and t: "t = make_date (make_day yr mo d) (make_time (int h) (int mi) (int sec) 0)"
    using assms(1) by (rule v8_parse_date_string_SomeE)
  have "tm = ''23:00:00''" using assms(2) sp by simp
  then have "(h, mi, sec) = (23, 0, 0)"
    using hms by (simp add: parse_hms_def digits_value_def nat_of_digits_def digit_val_def is_digit_def)
  then show ?thesis
    using t by (simp add: time_within_day_make_date make_time_def ms_per_day_def)
qed

lemma v8_year:
  assumes "v8_parse_date_string s = Some t"
  shows "100 \<le> year_from_day (js_day t)"
proof -
  obtain w dc y tm n1 n2 h mi sec m yr mo d where
    mo: "month_of_word w = Some m" and cd: "v8_compose_day m n1 n2 = Some (yr, mo, d)"
    and t: "t = make_date (make_day yr mo d) (make_time (int h) (int mi) (int sec) 0)"
    using assms by (rule v8_parse_date_string_SomeE)
  have yr: "100 \<le> yr" and d: "1 \<le> d" and mm: "mo = m"
    using v8_compose_day_Some [OF cd] by simp_all
  have m: "0 \<le> mo" "mo \<le> 11" using month_of_word_range [OF mo] mm by simp_all
  have tod: "0 \<le> make_time (int h) (int mi) (int sec) 0"
    by (simp add: make_time_def)
  have "make_day yr mo d * ms_per_day \<le> t" using t tod by (simp add: make_date_def)
  then have "make_day yr mo d * ms_per_day div ms_per_day \<le> t div ms_per_day"
    by (rule zdiv_mono1) (simp add: ms_per_day_def)
  then have "make_day yr mo d \<le> js_day t"
    unfolding js_day_def by (simp add: ms_per_day_def)
  moreover have "day_from_year yr \<le> make_day yr mo d"
    using m d by (rule make_day_ge_year_start)
  ultimately have "yr \<le> year_from_day (js_day t)" by (simp add: year_from_day_ge)
  with yr show ?thesis by simp
qed

end
