(* ===== verification/V8Legacy.thy ===== *)
theory V8Legacy
  imports DateString "HOL-Library.Word"
begin

text \<open>
  V8's date-string parser, which \<^verbatim>\<open>new Date(string)\<close> runs on every string (V8's
  \<^verbatim>\<open>src/date/dateparser-inl.h\<close>, \<^verbatim>\<open>DateParser::Parse\<close>, and \<^verbatim>\<open>dateparser.cc\<close>).
  A tokenizer cuts the string into numbers (the value of their first nine digits and
  their length), the symbols \<^verbatim>\<open>: - + . )\<close>, words (looked up by their first three
  characters in a keyword table of month names, AM/PM, time-zone names and \<^verbatim>\<open>T\<close>),
  white space, and unknown characters; a parenthesised comment is one unknown token,
  and a NUL character ends the input. The parser first tries the ES5 ISO format on a
  prefix, then runs the legacy loop over the remaining tokens, filling a day composer
  (up to three numbers and a named month), a time composer (up to four numbers and an
  AM/PM offset) and a time-zone composer. Missing day components default to 1, so
  \<^verbatim>\<open>"Jul 9"\<close> is 9 July 2001. The host time zone is UTC.
\<close>

section \<open>Tokens\<close>

datatype v8_keyword = MonthName | TimeZoneName | TimeSeparator | AmPm | InvalidKeyword

datatype v8_token =
    TNumber nat nat
  | TSymbol char
  | TKeyword v8_keyword int nat
  | TWhiteSpace nat
  | TUnknown

text \<open>White space as V8's \<^verbatim>\<open>IsWhiteSpaceChar\<close> sees it on one-byte strings.\<close>

definition v8_white :: "char \<Rightarrow> bool" where
  "v8_white c \<longleftrightarrow> (9::nat) \<le> of_char c \<and> (of_char c :: nat) \<le> 13 \<or> of_char c = (32::nat) \<or>
     of_char c = (160::nat)"

text \<open>\<^verbatim>\<open>IsAsciiAlphaOrAbove\<close>: every character from \<^verbatim>\<open>'A'\<close> on.\<close>

definition v8_word_char :: "char \<Rightarrow> bool" where
  "v8_word_char c \<longleftrightarrow> (65::nat) \<le> of_char c \<and> \<not> v8_white c"

definition v8_symbol_char :: "char \<Rightarrow> bool" where
  "v8_symbol_char c \<longleftrightarrow> c \<in> {CHR '':'', CHR ''-'', CHR ''+'', CHR ''.'', CHR '')''}"

text \<open>\<^verbatim>\<open>ReadUnsignedNumeral\<close> keeps the first nine digits.\<close>

definition v8_numeral_value :: "string \<Rightarrow> nat" where
  "v8_numeral_value ds = nat_of_digits (take 9 ds)"

text \<open>\<^verbatim>\<open>AsciiAlphaToLower\<close>: \<open>c | 0x20\<close>, on any character.\<close>

definition v8_lower :: "char \<Rightarrow> char" where
  "v8_lower c =
     (let n = (of_char c :: nat) in if (n div 32) mod 2 = 1 then c else char_of (n + 32))"

definition v8_prefix :: "string \<Rightarrow> string" where
  "v8_prefix w = map v8_lower (take 3 w) @ replicate (3 - length w) (CHR 0x00)"

definition v8_keyword_table :: "(string \<times> v8_keyword \<times> int) list" where
  "v8_keyword_table =
     [(''jan'', MonthName, 1), (''feb'', MonthName, 2), (''mar'', MonthName, 3),
      (''apr'', MonthName, 4), (''may'', MonthName, 5), (''jun'', MonthName, 6),
      (''jul'', MonthName, 7), (''aug'', MonthName, 8), (''sep'', MonthName, 9),
      (''oct'', MonthName, 10), (''nov'', MonthName, 11), (''dec'', MonthName, 12),
      (''am'' @ [CHR 0x00], AmPm, 0), (''pm'' @ [CHR 0x00], AmPm, 12),
      (''ut'' @ [CHR 0x00], TimeZoneName, 0), (''utc'', TimeZoneName, 0),
      (''z'' @ [CHR 0x00, CHR 0x00], TimeZoneName, 0), (''gmt'', TimeZoneName, 0),
      (''cdt'', TimeZoneName, -5), (''cst'', TimeZoneName, -6), (''edt'', TimeZoneName, -4),
      (''est'', TimeZoneName, -5), (''mdt'', TimeZoneName, -6), (''mst'', TimeZoneName, -7),
      (''pdt'', TimeZoneName, -7), (''pst'', TimeZoneName, -8),
      (''t'' @ [CHR 0x00, CHR 0x00], TimeSeparator, 0)]"

text \<open>\<^verbatim>\<open>KeywordTable::Lookup\<close>: the first entry with the same prefix; a word longer than
  three characters matches month names only.\<close>

fun v8_lookup :: "string \<Rightarrow> nat \<Rightarrow> (string \<times> v8_keyword \<times> int) list \<Rightarrow> v8_keyword \<times> int" where
  "v8_lookup pre len [] = (InvalidKeyword, 0)"
| "v8_lookup pre len ((k, ty, v) # rest) =
     (if k = pre \<and> (len \<le> 3 \<or> ty = MonthName) then (ty, v) else v8_lookup pre len rest)"

definition v8_word_token :: "string \<Rightarrow> v8_token" where
  "v8_word_token w =
     (let (ty, v) = v8_lookup (v8_prefix w) (length w) v8_keyword_table in TKeyword ty v (length w))"

text \<open>\<^verbatim>\<open>SkipParentheses\<close> after the opening parenthesis: until the balance is zero or
  the input ends.\<close>

fun v8_skip_parens :: "nat \<Rightarrow> string \<Rightarrow> string" where
  "v8_skip_parens b [] = []"
| "v8_skip_parens b (c # cs) =
     (if b = 0 \<or> c = CHR 0x00 then c # cs
      else v8_skip_parens (if c = CHR '')'' then b - 1 else if c = CHR ''('' then b + 1 else b) cs)"

text \<open>\<^verbatim>\<open>DateStringTokenizer::Scan\<close>, run to the end of the input.\<close>

function (domintros) v8_tokens :: "string \<Rightarrow> v8_token list" where
  "v8_tokens [] = []"
| "v8_tokens (c # cs) =
     (if c = CHR 0x00 then []
      else if is_digit c then
        TNumber (v8_numeral_value (takeWhile is_digit (c # cs))) (length (takeWhile is_digit (c # cs))) #
        v8_tokens (dropWhile is_digit (c # cs))
      else if v8_symbol_char c then TSymbol c # v8_tokens cs
      else if v8_word_char c then
        v8_word_token (takeWhile v8_word_char (c # cs)) # v8_tokens (dropWhile v8_word_char (c # cs))
      else if v8_white c then
        TWhiteSpace (length (takeWhile v8_white (c # cs))) # v8_tokens (dropWhile v8_white (c # cs))
      else if c = CHR ''('' then TUnknown # v8_tokens (v8_skip_parens 1 cs)
      else TUnknown # v8_tokens cs)"
  by pat_completeness auto

lemma v8_skip_parens_length: "length (v8_skip_parens b s) \<le> length s"
  by (induction b s rule: v8_skip_parens.induct) auto

termination v8_tokens
  by (relation "measure length")
    (auto simp: le_imp_less_Suc length_dropWhile_le v8_skip_parens_length)

section \<open>Composers\<close>

text \<open>The parser's state: \<^verbatim>\<open>DayComposer\<close> (the numbers read so far, at most three, their
  count being \<^verbatim>\<open>index_\<close>; the named month; the ISO flag), \<^verbatim>\<open>TimeComposer\<close> (at most four
  numbers; the AM/PM hour offset), \<^verbatim>\<open>TimeZoneComposer\<close> (sign, hour, minute; \<open>None\<close> is
  \<^verbatim>\<open>kNone\<close>) and the loop's \<^verbatim>\<open>has_read_number\<close>.\<close>

record v8_parser =
  dcomp :: "int list"
  named_month :: "int option"
  iso_date :: bool
  tcomp :: "int list"
  hour_offset :: "int option"
  tz_sign :: "int option"
  tz_hour :: "int option"
  tz_minute :: "int option"
  read_number :: bool

definition v8_init :: v8_parser where
  "v8_init = \<lparr>dcomp = [], named_month = None, iso_date = False, tcomp = [], hour_offset = None,
     tz_sign = None, tz_hour = None, tz_minute = None, read_number = False\<rparr>"

definition v8_between :: "int \<Rightarrow> int \<Rightarrow> int \<Rightarrow> bool" where
  "v8_between x lo hi \<longleftrightarrow> lo \<le> x \<and> x \<le> hi"

definition is_month :: "int \<Rightarrow> bool" where "is_month x \<longleftrightarrow> v8_between x 1 12"
definition is_day :: "int \<Rightarrow> bool" where "is_day x \<longleftrightarrow> v8_between x 1 31"
definition is_hour :: "int \<Rightarrow> bool" where "is_hour x \<longleftrightarrow> v8_between x 0 23"
definition is_minute :: "int \<Rightarrow> bool" where "is_minute x \<longleftrightarrow> v8_between x 0 59"
definition is_second :: "int \<Rightarrow> bool" where "is_second x \<longleftrightarrow> v8_between x 0 59"
definition is_hour12 :: "int \<Rightarrow> bool" where "is_hour12 x \<longleftrightarrow> v8_between x 0 12"
definition is_millisecond :: "int \<Rightarrow> bool" where "is_millisecond x \<longleftrightarrow> v8_between x 0 999"

text \<open>\<^verbatim>\<open>DayComposer::Add\<close>, \<^verbatim>\<open>TimeComposer::Add\<close> and \<^verbatim>\<open>AddFinal\<close> fail when the composer
  is full. The \<open>_ign\<close> forms are the calls whose result the parser ignores.\<close>

definition day_add :: "int \<Rightarrow> v8_parser \<Rightarrow> v8_parser option" where
  "day_add n p = (if length (dcomp p) < 3 then Some (p\<lparr>dcomp := dcomp p @ [n]\<rparr>) else None)"

definition day_add_ign :: "int \<Rightarrow> v8_parser \<Rightarrow> v8_parser" where
  "day_add_ign n p = (case day_add n p of Some p' \<Rightarrow> p' | None \<Rightarrow> p)"

definition time_add :: "int \<Rightarrow> v8_parser \<Rightarrow> v8_parser option" where
  "time_add n p = (if length (tcomp p) < 4 then Some (p\<lparr>tcomp := tcomp p @ [n]\<rparr>) else None)"

definition time_add_ign :: "int \<Rightarrow> v8_parser \<Rightarrow> v8_parser" where
  "time_add_ign n p = (case time_add n p of Some p' \<Rightarrow> p' | None \<Rightarrow> p)"

definition time_add_final_ign :: "int \<Rightarrow> v8_parser \<Rightarrow> v8_parser" where
  "time_add_final_ign n p =
     (case time_add n p of
       Some p' \<Rightarrow> p'\<lparr>tcomp := tcomp p' @ replicate (4 - length (tcomp p')) 0\<rparr>
     | None \<Rightarrow> p)"

definition time_expecting :: "int \<Rightarrow> v8_parser \<Rightarrow> bool" where
  "time_expecting n p \<longleftrightarrow>
     length (tcomp p) = 1 \<and> is_minute n \<or> length (tcomp p) = 2 \<and> is_second n \<or>
     length (tcomp p) = 3 \<and> is_millisecond n"

text \<open>\<^verbatim>\<open>TimeZoneComposer::Set\<close>, \<^verbatim>\<open>IsExpecting\<close>, \<^verbatim>\<open>IsUTC\<close>, \<^verbatim>\<open>IsEmpty\<close>.\<close>

definition tz_set :: "int \<Rightarrow> v8_parser \<Rightarrow> v8_parser" where
  "tz_set v p = p\<lparr>tz_sign := Some (if v < 0 then -1 else 1), tz_hour := Some \<bar>v\<bar>, tz_minute := Some 0\<rparr>"

definition tz_expecting :: "int \<Rightarrow> v8_parser \<Rightarrow> bool" where
  "tz_expecting n p \<longleftrightarrow> tz_hour p \<noteq> None \<and> tz_minute p = None \<and> is_minute n"

definition tz_is_utc :: "v8_parser \<Rightarrow> bool" where
  "tz_is_utc p \<longleftrightarrow> tz_hour p = Some 0 \<and> tz_minute p = Some 0"

section \<open>Scanner helpers\<close>

text \<open>\<^verbatim>\<open>SkipSymbol\<close> (consumes the symbol when it is next), \<^verbatim>\<open>IsFixedLengthNumber\<close>
  followed by \<^verbatim>\<open>Next\<close>, and \<^verbatim>\<open>ReadMilliseconds\<close> (the first three significant digits).\<close>

definition skip_sym :: "char \<Rightarrow> v8_token list \<Rightarrow> v8_token list option" where
  "skip_sym c ts = (case ts of TSymbol d # r \<Rightarrow> if d = c then Some r else None | _ \<Rightarrow> None)"

definition skip_opt :: "char \<Rightarrow> v8_token list \<Rightarrow> v8_token list" where
  "skip_opt c ts = (case skip_sym c ts of Some r \<Rightarrow> r | None \<Rightarrow> ts)"

definition fixed_num :: "nat \<Rightarrow> v8_token list \<Rightarrow> (int \<times> v8_token list) option" where
  "fixed_num l ts = (case ts of TNumber n m # r \<Rightarrow> if m = l then Some (int n, r) else None | _ \<Rightarrow> None)"

definition peek_number :: "v8_token list \<Rightarrow> bool" where
  "peek_number ts = (case ts of TNumber _ _ # _ \<Rightarrow> True | _ \<Rightarrow> False)"

definition is_sign :: "char \<Rightarrow> bool" where
  "is_sign c \<longleftrightarrow> c = CHR ''+'' \<or> c = CHR ''-''"

definition read_ms :: "nat \<Rightarrow> nat \<Rightarrow> int" where
  "read_ms n len =
     int (if len = 1 then n * 100 else if len = 2 then n * 10
          else if len \<le> 3 then n else n div 10 ^ (min len 9 - 3))"

text \<open>What may follow a number that completes the time: the end, white space, \<^verbatim>\<open>Z\<close>
  or a sign (\<^verbatim>\<open>IsKeywordZ\<close>: the one-letter time-zone keyword).\<close>

definition final_follow :: "v8_token list \<Rightarrow> bool" where
  "final_follow ts =
     (case ts of
       [] \<Rightarrow> True
     | TWhiteSpace _ # _ \<Rightarrow> True
     | TKeyword ty v l # _ \<Rightarrow> ty = TimeZoneName \<and> v = 0 \<and> l = 1
     | TSymbol c # _ \<Rightarrow> is_sign c
     | _ \<Rightarrow> False)"

section \<open>The legacy loop\<close>

text \<open>A number: \<open>n::\<close> and \<open>n:\<close> are hours or minutes; \<open>n.\<close> with the time expecting
  \<open>n\<close> reads milliseconds (the dot is consumed even when the time does not expect
  \<open>n\<close>); otherwise \<open>n\<close> is a time-zone minute, completes the time (then the end, white
  space, \<^verbatim>\<open>Z\<close> or a sign must follow) or goes to the day composer, skipping a \<open>-\<close>.\<close>

definition v8_number :: "v8_parser \<Rightarrow> int \<Rightarrow> v8_token list \<Rightarrow> (v8_parser \<times> v8_token list) option" where
  "v8_number p n ts =
     (case skip_sym CHR '':'' ts of
       Some ts1 \<Rightarrow>
         (case skip_sym CHR '':'' ts1 of
           Some ts2 \<Rightarrow> if tcomp p \<noteq> [] then None else Some (time_add_ign 0 (time_add_ign n p), ts2)
         | None \<Rightarrow>
             (case time_add n p of
               None \<Rightarrow> None
             | Some p' \<Rightarrow> Some (p', skip_opt CHR ''.'' ts1)))
     | None \<Rightarrow>
         (let (dot, ts1) = (case skip_sym CHR ''.'' ts of Some r \<Rightarrow> (True, r) | None \<Rightarrow> (False, ts))
          in if dot \<and> time_expecting n p then
               (case ts1 of
                 TNumber m l # ts2 \<Rightarrow> Some (time_add_final_ign (read_ms m l) (time_add_ign n p), ts2)
               | _ \<Rightarrow> None)
             else if tz_expecting n p then Some (p\<lparr>tz_minute := Some n\<rparr>, ts1)
             else if time_expecting n p then
               (if final_follow ts1 then Some (time_add_final_ign n p, ts1) else None)
             else
               (case day_add n p of
                 None \<Rightarrow> None
               | Some p' \<Rightarrow> Some (p', skip_opt CHR ''-'' ts1))))"

text \<open>A word: AM/PM after a time, a month name (skipping a \<open>-\<close>), a time-zone name after
  a number; any other word is garbage, refused after a number or right before one.\<close>

definition v8_word :: "v8_parser \<Rightarrow> v8_keyword \<Rightarrow> int \<Rightarrow> v8_token list \<Rightarrow> (v8_parser \<times> v8_token list) option" where
  "v8_word p ty v ts =
     (if ty = AmPm \<and> tcomp p \<noteq> [] then Some (p\<lparr>hour_offset := Some v\<rparr>, ts)
      else if ty = MonthName then Some (p\<lparr>named_month := Some v\<rparr>, skip_opt CHR ''-'' ts)
      else if ty = TimeZoneName \<and> read_number p then Some (tz_set v p, ts)
      else if read_number p \<or> peek_number ts then None
      else Some (p, ts))"

text \<open>A sign after \<^verbatim>\<open>UTC\<close> or a time: an offset \<open>hh\<close>, \<open>hhmm\<close> or \<open>hh:\<close> (the minutes then
  read by the time-zone composer).\<close>

definition v8_offset :: "v8_parser \<Rightarrow> char \<Rightarrow> v8_token list \<Rightarrow> (v8_parser \<times> v8_token list) option" where
  "v8_offset p c ts =
     (let p1 = p\<lparr>tz_sign := Some (if c = CHR ''+'' then 1 else -1), read_number := True\<rparr>;
          (n, len, ts1) = (case ts of TNumber n len # r \<Rightarrow> (int n, len, r) | _ \<Rightarrow> (0, 0, ts))
      in if skip_sym CHR '':'' ts1 \<noteq> None then Some (p1\<lparr>tz_hour := Some n, tz_minute := None\<rparr>, ts1)
         else if len = 1 \<or> len = 2 then Some (p1\<lparr>tz_hour := Some n, tz_minute := Some 0\<rparr>, ts1)
         else if len = 3 \<or> len = 4 then
           Some (p1\<lparr>tz_hour := Some (n div 100), tz_minute := Some (n mod 100)\<rparr>, ts1)
         else None)"

text \<open>One turn of the loop of \<^verbatim>\<open>DateParser::Parse\<close>, on the token it has just read.\<close>

definition v8_step :: "v8_parser \<Rightarrow> v8_token \<Rightarrow> v8_token list \<Rightarrow> (v8_parser \<times> v8_token list) option" where
  "v8_step p t ts =
     (case t of
       TNumber n len \<Rightarrow> v8_number (p\<lparr>read_number := True\<rparr>) (int n) ts
     | TKeyword ty v len \<Rightarrow> v8_word p ty v ts
     | TSymbol c \<Rightarrow>
         if is_sign c \<and> (tz_is_utc p \<or> 0 < length (tcomp p)) then v8_offset p c ts
         else if (is_sign c \<or> c = CHR '')'') \<and> read_number p then None
         else Some (p, ts)
     | _ \<Rightarrow> Some (p, ts))"

lemma skip_sym_length: "skip_sym c ts = Some r \<Longrightarrow> length r < length ts"
  by (auto simp: skip_sym_def split: list.splits v8_token.splits if_splits)

lemma skip_opt_length: "length (skip_opt c ts) \<le> length ts"
  using skip_sym_length [of c ts] by (auto simp: skip_opt_def split: option.splits)

lemma v8_step_length: "v8_step p t ts = Some (p', ts') \<Longrightarrow> length ts' \<le> length ts"
  using skip_sym_length [of _ ts] skip_opt_length [of _ ts]
  by (auto simp: v8_step_def v8_number_def v8_word_def v8_offset_def Let_def skip_opt_def
      split: v8_token.splits option.splits if_splits list.splits prod.splits
      dest!: skip_sym_length)

function (domintros) v8_loop :: "v8_parser \<Rightarrow> v8_token list \<Rightarrow> v8_parser option" where
  "v8_loop p [] = Some p"
| "v8_loop p (t # ts) = (case v8_step p t ts of None \<Rightarrow> None | Some (p', ts') \<Rightarrow> v8_loop p' ts')"
  by pat_completeness auto

termination v8_loop
  by (relation "measure (\<lambda>(p, ts). length ts)") (auto dest: v8_step_length)

section \<open>The ES5 prefix\<close>

text \<open>\<^verbatim>\<open>ParseES5DateTime\<close>. It returns the tokens the legacy loop continues with
  (\<open>Some (p, ts)\<close>), or \<open>None\<close> for an invalid ISO string. A complete ISO string
  leaves no tokens and sets the ISO flag, with UTC when neither a time nor a zone was
  given. The three parts are the time-zone suffix, the time after \<^verbatim>\<open>T\<close>, and the
  date.\<close>

definition es5_finish :: "v8_parser \<Rightarrow> v8_parser" where
  "es5_finish p =
     (let p' = (if tz_hour p = None \<and> tcomp p = [] then tz_set 0 p else p) in p'\<lparr>iso_date := True\<rparr>)"

definition es5_zone :: "v8_parser \<Rightarrow> v8_token list \<Rightarrow> (v8_parser \<times> v8_token list) option" where
  "es5_zone p ts =
     (let r = (case ts of
          TKeyword ty v l # ts1 \<Rightarrow>
            if ty = TimeZoneName \<and> v = 0 \<and> l = 1 then Some (tz_set 0 p, ts1) else Some (p, ts)
        | TSymbol c # ts1 \<Rightarrow>
            if is_sign c then
              (let p1 = p\<lparr>tz_sign := Some (if c = CHR ''+'' then 1 else -1)\<rparr> in
               case fixed_num 4 ts1 of
                 Some (hm, ts2) \<Rightarrow>
                   if is_hour (hm div 100) \<and> is_minute (hm mod 100)
                   then Some (p1\<lparr>tz_hour := Some (hm div 100), tz_minute := Some (hm mod 100)\<rparr>, ts2)
                   else None
               | None \<Rightarrow>
                   (case fixed_num 2 ts1 of
                     None \<Rightarrow> None
                   | Some (hh, ts2) \<Rightarrow>
                       if \<not> is_hour hh then None
                       else (case skip_sym CHR '':'' ts2 of
                         None \<Rightarrow> None
                       | Some ts3 \<Rightarrow>
                           (case fixed_num 2 ts3 of
                             None \<Rightarrow> None
                           | Some (mm, ts4) \<Rightarrow>
                               if is_minute mm
                               then Some (p1\<lparr>tz_hour := Some hh, tz_minute := Some mm\<rparr>, ts4)
                               else None))))
            else Some (p, ts)
        | _ \<Rightarrow> Some (p, ts))
      in case r of
           None \<Rightarrow> None
         | Some (p', ts') \<Rightarrow> if ts' = [] then Some (es5_finish p', []) else None)"

definition es5_time :: "v8_parser \<Rightarrow> v8_token list \<Rightarrow> (v8_parser \<times> v8_token list) option" where
  "es5_time p ts =
     (case fixed_num 2 ts of
       None \<Rightarrow> None
     | Some (h, ts2) \<Rightarrow>
         if 24 < h then None
         else (let p1 = time_add_ign h p in
           case skip_sym CHR '':'' ts2 of
             None \<Rightarrow> None
           | Some ts3 \<Rightarrow>
               (case fixed_num 2 ts3 of
                 None \<Rightarrow> None
               | Some (mi, ts4) \<Rightarrow>
                   if is_minute mi \<and> \<not> (h = 24 \<and> 0 < mi) then
                     (let p2 = time_add_ign mi p1 in
                      case skip_sym CHR '':'' ts4 of
                        None \<Rightarrow> es5_zone p2 ts4
                      | Some ts5 \<Rightarrow>
                          (case fixed_num 2 ts5 of
                            None \<Rightarrow> None
                          | Some (sec, ts6) \<Rightarrow>
                              if is_second sec \<and> \<not> (h = 24 \<and> 0 < sec) then
                                (let p3 = time_add_ign sec p2 in
                                 case skip_sym CHR ''.'' ts6 of
                                   None \<Rightarrow> es5_zone p3 ts6
                                 | Some ts7 \<Rightarrow>
                                     (case ts7 of
                                       TNumber m l # ts8 \<Rightarrow>
                                         if h = 24 \<and> 0 < m then None
                                         else es5_zone (time_add_ign (read_ms m l) p3) ts8
                                     | _ \<Rightarrow> None))
                              else None))
                   else None)))"

text \<open>After the date: the time part after \<^verbatim>\<open>T\<close>, the end, or back to the legacy loop.\<close>

definition es5_after_date :: "v8_parser \<Rightarrow> v8_token list \<Rightarrow> (v8_parser \<times> v8_token list) option" where
  "es5_after_date p ts =
     (case ts of
       [] \<Rightarrow> Some (es5_finish p, [])
     | TKeyword TimeSeparator _ _ # ts1 \<Rightarrow> es5_time p ts1
     | _ \<Rightarrow> Some (p, ts))"

definition es5_month_day :: "v8_parser \<Rightarrow> v8_token list \<Rightarrow> (v8_parser \<times> v8_token list) option" where
  "es5_month_day p ts =
     (case skip_sym CHR ''-'' ts of
       None \<Rightarrow> es5_after_date p ts
     | Some ts1 \<Rightarrow>
         (case fixed_num 2 ts1 of
           Some (m, ts2) \<Rightarrow>
             if \<not> is_month m then Some (p, ts1)
             else (let p2 = day_add_ign m p in
               case skip_sym CHR ''-'' ts2 of
                 None \<Rightarrow> es5_after_date p2 ts2
               | Some ts3 \<Rightarrow>
                   (case fixed_num 2 ts3 of
                     Some (d, ts4) \<Rightarrow> if is_day d then es5_after_date (day_add_ign d p2) ts4 else Some (p2, ts3)
                   | None \<Rightarrow> Some (p2, ts3)))
         | None \<Rightarrow> Some (p, ts1)))"

definition v8_es5 :: "v8_parser \<Rightarrow> v8_token list \<Rightarrow> (v8_parser \<times> v8_token list) option" where
  "v8_es5 p ts =
     (case ts of
       TSymbol c # ts1 \<Rightarrow>
         if is_sign c then
           (case fixed_num 6 ts1 of
             None \<Rightarrow> Some (p, ts)
           | Some (y, ts2) \<Rightarrow>
               if c = CHR ''-'' \<and> y = 0 then Some (p, TSymbol c # ts2)
               else es5_month_day (day_add_ign (if c = CHR ''-'' then - y else y) p) ts2)
         else Some (p, ts)
     | _ \<Rightarrow>
         (case fixed_num 4 ts of
           Some (y, ts1) \<Rightarrow> es5_month_day (day_add_ign y p) ts1
         | None \<Rightarrow> Some (p, ts)))"

section \<open>Writing the result\<close>

text \<open>\<^verbatim>\<open>DayComposer::Write\<close>: at least one number; missing components are 1; with a named
  month the first number is the day when it can be one, else the year; without one,
  \<open>Y-M-D\<close> for ISO strings or a first number that is no day, \<open>M/D/Y\<close> otherwise; two-digit
  years of legacy strings are 1950..2049. (The source's \<^verbatim>\<open>index_ == 1\<close> branch is dead
  after the defaults are filled in.) The year must be a small integer (\<^verbatim>\<open>Smi::IsValid\<close>,
  32-bit on Node's 64-bit builds).\<close>

definition v8_day_write :: "v8_parser \<Rightarrow> (int \<times> int \<times> int) option" where
  "v8_day_write p =
     (if dcomp p = [] then None
      else
        (let c = dcomp p @ replicate (3 - length (dcomp p)) 1;
             (y, m, d) = (case named_month p of
                None \<Rightarrow> if \<not> iso_date p \<and> is_day (c ! 0) then (c ! 2, c ! 0, c ! 1) else (c ! 0, c ! 1, c ! 2)
              | Some nm \<Rightarrow> if \<not> is_day (c ! 0) then (c ! 0, nm, c ! 1) else (c ! 1, nm, c ! 0));
             y' = (if \<not> iso_date p \<and> v8_between y 0 49 then y + 2000
                   else if \<not> iso_date p \<and> v8_between y 50 99 then y + 1900 else y)
         in if v8_between y' (- 2147483648) 2147483647 \<and> is_month m \<and> is_day d then Some (y', m, d)
            else None))"

text \<open>\<^verbatim>\<open>TimeComposer::Write\<close>: missing components are 0; AM/PM takes an hour 0..12;
  24:00:00.000 is allowed.\<close>

definition v8_time_write :: "v8_parser \<Rightarrow> (int \<times> int \<times> int \<times> int) option" where
  "v8_time_write p =
     (let c = tcomp p @ replicate (4 - length (tcomp p)) 0;
          hr = (case hour_offset p of
                  None \<Rightarrow> Some (c ! 0)
                | Some off \<Rightarrow> if is_hour12 (c ! 0) then Some (c ! 0 mod 12 + off) else None)
      in case hr of
           None \<Rightarrow> None
         | Some h \<Rightarrow>
             if is_hour h \<and> is_minute (c ! 1) \<and> is_second (c ! 2) \<and> is_millisecond (c ! 3) \<or>
                h = 24 \<and> c ! 1 = 0 \<and> c ! 2 = 0 \<and> c ! 3 = 0
             then Some (h, c ! 1, c ! 2, c ! 3) else None)"

text \<open>\<^verbatim>\<open>TimeZoneComposer::Write\<close>: no sign means local time (\<open>Some None\<close>); otherwise
  the offset in seconds, computed in unsigned 32-bit arithmetic (\<open>32 word\<close>) and
  refused above the largest small integer \<open>2^31 - 1\<close>.\<close>

definition v8_tz_write :: "v8_parser \<Rightarrow> int option option" where
  "v8_tz_write p =
     (case tz_sign p of
       None \<Rightarrow> Some None
     | Some sg \<Rightarrow>
         (let h = (case tz_hour p of None \<Rightarrow> 0 | Some x \<Rightarrow> x);
              mi = (case tz_minute p of None \<Rightarrow> 0 | Some x \<Rightarrow> x);
              total = (word_of_int h * 3600 + word_of_int mi * 60 :: 32 word)
          in if 2147483647 < uint total then None else Some (Some (sg * uint total))))"

text \<open>\<^verbatim>\<open>DateParser::Parse\<close> and the rest of \<^verbatim>\<open>ParseDateTimeString\<close>: \<open>MakeDay\<close>,
  \<open>MakeTime\<close>, \<open>MakeDate\<close>, the offset (local time is UTC) and \<open>TimeClip\<close>.\<close>

definition v8_parse :: "string \<Rightarrow> js_date" where
  "v8_parse s =
     (case v8_es5 v8_init (v8_tokens s) of
       None \<Rightarrow> None
     | Some (p, ts) \<Rightarrow>
         (case v8_loop (p\<lparr>read_number := dcomp p \<noteq> []\<rparr>) ts of
           None \<Rightarrow> None
         | Some q \<Rightarrow>
             (case (v8_day_write q, v8_time_write q, v8_tz_write q) of
               (Some (y, m, d), Some (h, mi, sec, ms), Some off) \<Rightarrow>
                 (let date = make_date (make_day y (m - 1) d) (make_time h mi sec ms) in
                  case off of
                    None \<Rightarrow> time_clip date
                  | Some ofs \<Rightarrow> time_clip (date - ofs * 1000))
             | _ \<Rightarrow> None)))"

section \<open>Well-formed tokens\<close>

text \<open>What the tokenizer promises of each token: a number has at least one digit and a
  value below \<open>10^9\<close>; a symbol is one of the five; a keyword is an entry of the table or
  the invalid keyword, and is longer than three characters only as a month name or
  garbage; white space is not empty.\<close>

definition v8_token_ok :: "v8_token \<Rightarrow> bool" where
  "v8_token_ok t =
     (case t of
       TNumber v l \<Rightarrow> 0 < l \<and> v < 1000000000
     | TSymbol c \<Rightarrow> v8_symbol_char c
     | TKeyword ty v l \<Rightarrow>
         0 < l \<and> (ty, v) \<in> set (map snd v8_keyword_table @ [(InvalidKeyword, 0)]) \<and>
         (l \<le> 3 \<or> ty = MonthName \<or> ty = InvalidKeyword)
     | TWhiteSpace l \<Rightarrow> 0 < l
     | TUnknown \<Rightarrow> True)"

section \<open>Lemmas: the tokenizer\<close>

lemma is_digit_tok: "is_digit c \<Longrightarrow> c \<noteq> CHR 0x00 \<and> \<not> v8_symbol_char c \<and> \<not> v8_word_char c \<and> \<not> v8_white c"
  by (auto simp: is_digit_def v8_symbol_char_def v8_word_char_def v8_white_def)

lemma word_char_tok: "v8_word_char c \<Longrightarrow> c \<noteq> CHR 0x00 \<and> \<not> is_digit c \<and> \<not> v8_symbol_char c"
  by (auto simp: is_digit_def v8_symbol_char_def v8_word_char_def)

lemma v8_tokens_word:
  assumes "w \<noteq> []" "list_all v8_word_char w" "\<not> v8_word_char c"
  shows "v8_tokens (w @ c # r) = v8_word_token w # v8_tokens (c # r)"
proof (cases w)
  case (Cons a w')
  then have "v8_word_char a" using assms(2) by simp
  moreover have "takeWhile v8_word_char (w @ c # r) = w" "dropWhile v8_word_char (w @ c # r) = c # r"
    using assms(2,3) by (simp_all add: takeWhile_append2 dropWhile_append2 list_all_iff)
  ultimately show ?thesis using Cons word_char_tok [of a] by simp
qed (use assms in simp)

lemma v8_tokens_digits:
  assumes "ds \<noteq> []" "list_all is_digit ds" "\<not> is_digit c"
  shows "v8_tokens (ds @ c # r) = TNumber (v8_numeral_value ds) (length ds) # v8_tokens (c # r)"
proof (cases ds)
  case (Cons a ds')
  then have "is_digit a" using assms(2) by simp
  moreover have "takeWhile is_digit (ds @ c # r) = ds" "dropWhile is_digit (ds @ c # r) = c # r"
    using assms(2,3) by (simp_all add: takeWhile_append2 dropWhile_append2 list_all_iff)
  ultimately show ?thesis using Cons is_digit_tok [of a] by simp
qed (use assms in simp)

lemma v8_tokens_space:
  assumes "\<not> v8_white c"
  shows "v8_tokens (CHR '' '' # c # r) = TWhiteSpace 1 # v8_tokens (c # r)"
proof -
  have w: "v8_white (CHR '' '')" "\<not> v8_word_char (CHR '' '')" "\<not> v8_symbol_char (CHR '' '')"
    "\<not> is_digit (CHR '' '')"
    by (simp_all add: v8_white_def v8_word_char_def v8_symbol_char_def is_digit_def)
  then show ?thesis using assms by simp
qed

lemma v8_tokens_comma: "v8_tokens (CHR '','' # r) = TUnknown # v8_tokens r"
  by (simp add: v8_white_def v8_word_char_def v8_symbol_char_def is_digit_def)


lemma find_index_Some: "find_index x xs = Some i \<Longrightarrow> i < length xs \<and> xs ! i = x"
  by (induction xs arbitrary: i) (auto split: if_splits)

lemma v8_lookup_month:
  assumes "find_index x month_names = Some i"
  shows "v8_lookup x len v8_keyword_table = (MonthName, int i + 1)"
proof -
  have i: "i < 12" and x: "x = month_names ! i"
    using find_index_Some [OF assms] by (simp_all add: month_names_def)
  have "i = 0 \<or> i = 1 \<or> i = 2 \<or> i = 3 \<or> i = 4 \<or> i = 5 \<or> i = 6 \<or> i = 7 \<or> i = 8 \<or> i = 9 \<or>
    i = 10 \<or> i = 11" using i by arith
  then show ?thesis
    by (elim disjE) (simp_all add: x month_names_def v8_keyword_table_def)
qed

lemma v8_tokens_time: "v8_tokens '' 23:00:00'' =
  [TWhiteSpace 1, TNumber 23 2, TSymbol CHR '':'', TNumber 0 2, TSymbol CHR '':'', TNumber 0 2]"
  by (simp add: v8_white_def v8_word_char_def v8_symbol_char_def is_digit_def v8_numeral_value_def
      nat_of_digits_def digit_val_def)

lemma v8_lower_alpha: "is_alpha c \<Longrightarrow> v8_lower c = js_lower c"
proof -
  assume a: "is_alpha c"
  let ?n = "of_char c :: nat"
  show ?thesis
  proof (cases "?n \<le> 90")
    case True
    then have "?n div 32 = 2" using a by (intro div_nat_eqI) (simp_all add: is_alpha_def)
    then show ?thesis using a True by (simp add: v8_lower_def js_lower_def is_alpha_def)
  next
    case False
    then have "?n div 32 = 3" using a by (intro div_nat_eqI) (simp_all add: is_alpha_def)
    then show ?thesis using a False by (simp add: v8_lower_def js_lower_def is_alpha_def)
  qed
qed


lemma alpha_word_char: "is_alpha c \<Longrightarrow> v8_word_char c"
  by (auto simp: is_alpha_def v8_word_char_def v8_white_def)

lemma v8_word_token_month:
  assumes "month_of_word w = Some m"
  shows "v8_word_token w = TKeyword MonthName (m + 1) (length w)"
proof -
  obtain i where l: "3 \<le> length w" and a: "list_all is_alpha w"
    and f: "find_index (map js_lower (take 3 w)) month_names = Some i" and mi: "m = int i"
    using assms by (auto simp: month_of_word_def split: if_splits)
  have "map v8_lower (take 3 w) = map js_lower (take 3 w)"
    using a v8_lower_alpha by (auto simp: list_all_iff dest: in_set_takeD)
  then have "v8_prefix w = map js_lower (take 3 w)" using l by (simp add: v8_prefix_def)
  then show ?thesis using v8_lookup_month [OF f] mi by (simp add: v8_word_token_def)
qed

lemma v8_tokens_space_digits:
  "ds \<noteq> [] \<Longrightarrow> list_all is_digit ds \<Longrightarrow>
   v8_tokens (CHR '' '' # (ds @ r)) = TWhiteSpace 1 # v8_tokens (ds @ r)"
  proof -
    assume ne: "ds \<noteq> []" and dg: "list_all is_digit ds"
    obtain a t where ds: "ds = a # t" using ne by (cases ds) auto
    have "is_digit a" using dg ds by simp
    then have n: "\<not> v8_white a" using is_digit_tok by blast
    show ?thesis unfolding ds append_Cons by (rule v8_tokens_space [OF n])
  qed



lemma v8_lookup_ok:
  "v8_lookup pre len tbl \<in> set (map snd tbl @ [(InvalidKeyword, 0)]) \<and>
   (len \<le> 3 \<or> fst (v8_lookup pre len tbl) = MonthName \<or> fst (v8_lookup pre len tbl) = InvalidKeyword)"
  by (induction pre len tbl rule: v8_lookup.induct) auto

lemma nat_of_digits_bound: "list_all is_digit ds \<Longrightarrow> nat_of_digits ds < 10 ^ length ds"
proof (induction ds rule: rev_induct)
  case (snoc c ds)
  have n: "nat_of_digits ds < 10 ^ length ds" using snoc by simp
  have "is_digit c" using snoc.prems by simp
  then have d: "digit_val c < 10" by (simp add: digit_val_def is_digit_def; linarith)
  have "10 * nat_of_digits ds + digit_val c < 10 * (nat_of_digits ds + 1)" using d by simp
  also have "\<dots> \<le> 10 * 10 ^ length ds" using n by simp
  finally show ?case by simp
qed (simp add: nat_of_digits_def)

lemma v8_numeral_value_bound: "list_all is_digit ds \<Longrightarrow> v8_numeral_value ds < 1000000000"
proof -
  assume "list_all is_digit ds"
  then have "nat_of_digits (take 9 ds) < 10 ^ length (take 9 ds)"
    by (intro nat_of_digits_bound) (auto simp: list_all_iff dest: in_set_takeD)
  also have "\<dots> \<le> 10 ^ 9" by (intro power_increasing) simp_all
  finally show ?thesis by (simp add: v8_numeral_value_def)
qed


declare v8_tokens.simps [simp del]

text \<open>Every date the parser produces is a time value a \<^verbatim>\<open>Date\<close> can hold.\<close>

lemma v8_parse_clip: "v8_parse s = Some t \<Longrightarrow> \<bar>t\<bar> \<le> 8640000000000000"
  by (auto simp: v8_parse_def time_clip_def Let_def split: option.splits prod.splits if_splits)

section \<open>Lemmas: the loop on a collection string\<close>


lemma v8_step_month:
  "v8_step p (TKeyword MonthName v l) ts = Some (p\<lparr>named_month := Some v\<rparr>, skip_opt CHR ''-'' ts)"
  by (simp add: v8_step_def v8_word_def)

lemma v8_step_white: "v8_step p (TWhiteSpace k) ts = Some (p, ts)"
  by (simp add: v8_step_def)

lemma v8_step_unknown: "v8_step p TUnknown ts = Some (p, ts)"
  by (simp add: v8_step_def)

lemma v8_step_day:
  assumes "tcomp p = []" "tz_hour p = None" "skip_sym CHR '':'' ts = None" "skip_sym CHR ''.'' ts = None"
    "length (dcomp p) < 3"
  shows "v8_step p (TNumber n l) ts =
    Some (p\<lparr>read_number := True, dcomp := dcomp p @ [int n]\<rparr>, skip_opt CHR ''-'' ts)"
  using assms by (simp add: v8_step_def v8_number_def time_expecting_def tz_expecting_def day_add_def)



lemma v8_loop_time:
  assumes "tcomp p = []" "tz_hour p = None"
  shows "v8_loop p (v8_tokens '' 23:00:00'') = Some (p\<lparr>read_number := True, tcomp := [23, 0, 0, 0]\<rparr>)"
proof -
  have s1: "v8_step p (TNumber 23 2) [TSymbol CHR '':'', TNumber 0 2, TSymbol CHR '':'', TNumber 0 2] =
    Some (p\<lparr>read_number := True, tcomp := [23]\<rparr>, [TNumber 0 2, TSymbol CHR '':'', TNumber 0 2])"
    unfolding v8_step_def v8_number_def
    by (simp only: v8_token.case) (simp add: assms skip_sym_def skip_opt_def time_add_def)
  have s2: "v8_step (p\<lparr>read_number := True, tcomp := [23]\<rparr>) (TNumber 0 2) [TSymbol CHR '':'', TNumber 0 2] =
    Some (p\<lparr>read_number := True, tcomp := [23, 0]\<rparr>, [TNumber 0 2])"
    unfolding v8_step_def v8_number_def
    by (simp only: v8_token.case) (simp add: skip_sym_def skip_opt_def time_add_def)
  have s3: "v8_step (p\<lparr>read_number := True, tcomp := [23, 0]\<rparr>) (TNumber 0 2) [] =
    Some (p\<lparr>read_number := True, tcomp := [23, 0, 0, 0]\<rparr>, [])"
    unfolding v8_step_def v8_number_def
    by (simp only: v8_token.case)
      (simp add: assms skip_sym_def time_add_def tz_expecting_def time_expecting_def is_second_def
        is_minute_def v8_between_def final_follow_def time_add_final_ign_def)
  show ?thesis
    unfolding v8_tokens_time
    by (simp only: v8_loop.simps v8_step_white s1 s2 s3 option.case prod.case)
qed




lemma v8_loop_step: "v8_step p t ts = Some (p', ts') \<Longrightarrow> v8_loop p (t # ts) = v8_loop p' ts'"
  by simp

lemma skip_sym_time: "skip_sym c (v8_tokens '' 23:00:00'') = None"
  unfolding v8_tokens_time skip_sym_def by simp

lemma v8_collection_loop:
  "v8_loop (v8_init\<lparr>read_number := False\<rparr>)
     (TKeyword MonthName mv l # TWhiteSpace 1 # TNumber n1 l1 # TUnknown # TWhiteSpace 1 # TNumber n2 l2 #
      v8_tokens '' 23:00:00'') =
   Some (v8_init\<lparr>named_month := Some mv, read_number := True, dcomp := [int n1, int n2],
     tcomp := [23, 0, 0, 0]\<rparr>)"
proof -
  let ?p1 = "v8_init\<lparr>read_number := False, named_month := Some mv\<rparr>"
  let ?p2 = "?p1\<lparr>read_number := True, dcomp := [int n1]\<rparr>"
  let ?p3 = "?p2\<lparr>read_number := True, dcomp := [int n1, int n2]\<rparr>"
  let ?T = "v8_tokens '' 23:00:00''"
  have "v8_loop (v8_init\<lparr>read_number := False\<rparr>)
     (TKeyword MonthName mv l # TWhiteSpace 1 # TNumber n1 l1 # TUnknown # TWhiteSpace 1 # TNumber n2 l2 # ?T) =
     v8_loop ?p1 (TWhiteSpace 1 # TNumber n1 l1 # TUnknown # TWhiteSpace 1 # TNumber n2 l2 # ?T)"
    by (rule v8_loop_step) (simp add: v8_step_month skip_opt_def skip_sym_def)
  also have "\<dots> = v8_loop ?p1 (TNumber n1 l1 # TUnknown # TWhiteSpace 1 # TNumber n2 l2 # ?T)"
    by (rule v8_loop_step) (simp add: v8_step_white)
  also have "\<dots> = v8_loop ?p2 (TUnknown # TWhiteSpace 1 # TNumber n2 l2 # ?T)"
    by (rule v8_loop_step)
      (simp add: v8_step_day v8_init_def skip_opt_def skip_sym_def)
  also have "\<dots> = v8_loop ?p2 (TNumber n2 l2 # ?T)"
    by (simp only: v8_loop.simps v8_step_white v8_step_unknown option.case prod.case)
  also have "\<dots> = v8_loop ?p3 ?T"
    by (rule v8_loop_step)
      (simp add: v8_step_day v8_init_def skip_opt_def skip_sym_time)
  also have "\<dots> = Some (?p3\<lparr>read_number := True, tcomp := [23, 0, 0, 0]\<rparr>)"
    by (rule v8_loop_time) (simp_all add: v8_init_def)
  finally show ?thesis by simp
qed



lemma v8_numeral_value_short:
  "length ds \<le> 9 \<Longrightarrow> v8_numeral_value ds = nat_of_digits ds"
  by (simp add: v8_numeral_value_def)

lemma v8_day_write_named:
  assumes "0 \<le> m" "m \<le> 11" "n1 < 1000000000" "n2 < 1000000000"
  shows "v8_day_write (v8_init\<lparr>named_month := Some (m + 1), read_number := True,
      dcomp := [int n1, int n2], tcomp := [23, 0, 0, 0]\<rparr>) =
    map_option (\<lambda>(y, mo, d). (y, mo + 1, d)) (v8_compose_day m n1 n2)"
  using assms
  by (auto simp: v8_day_write_def v8_compose_day_def v8_init_def is_day_def is_month_def
      v8_between_def v8_is_day_def Let_def)

lemma v8_time_write_23:
  "hour_offset p = None \<Longrightarrow> v8_time_write (p\<lparr>tcomp := [23, 0, 0, 0]\<rparr>) = Some (23, 0, 0, 0)"
  by (simp add: v8_time_write_def is_hour_def is_minute_def is_second_def is_millisecond_def
      v8_between_def Let_def)



lemma v8_tokens_collection:
  assumes "month_of_word w = Some m" and "ds1 \<noteq> []" "list_all is_digit ds1"
    and "ds2 \<noteq> []" "list_all is_digit ds2"
  shows "v8_tokens (w @ '' '' @ ds1 @ '', '' @ ds2 @ '' 23:00:00'') =
    TKeyword MonthName (m + 1) (length w) # TWhiteSpace 1 # TNumber (v8_numeral_value ds1) (length ds1) #
     TUnknown # TWhiteSpace 1 # TNumber (v8_numeral_value ds2) (length ds2) # v8_tokens '' 23:00:00''"
proof -
  have l: "3 \<le> length w" "list_all is_alpha w"
    using assms(1) by (simp_all add: month_of_word_def split: if_splits)
  then have w: "w \<noteq> []" "list_all v8_word_char w" using alpha_word_char by (auto simp: list_all_iff)
  have sp: "\<not> v8_word_char (CHR '' '')" "\<not> is_digit (CHR '' '')" "\<not> is_digit (CHR '','')"
    by (simp_all add: v8_word_char_def v8_white_def is_digit_def)
  have e: "w @ '' '' @ ds1 @ '', '' @ ds2 @ '' 23:00:00'' =
      w @ CHR '' '' # (ds1 @ CHR '','' # CHR '' '' # (ds2 @ CHR '' '' # ''23:00:00''))"
    by simp
  show ?thesis
    unfolding e
    by (simp only: v8_tokens_word [OF w sp(1)] v8_tokens_space_digits [OF assms(2,3)]
        v8_tokens_digits [OF assms(2,3) sp(3)] v8_tokens_comma v8_tokens_space_digits [OF assms(4,5)]
        v8_tokens_digits [OF assms(4,5) sp(2)] v8_word_token_month [OF assms(1)]
        append_Cons append_Nil)
qed


lemma v8_parse_date_string_collection:
  assumes "month_of_word w = Some m" and "ds1 \<noteq> []" "list_all is_digit ds1"
    and "ds2 \<noteq> []" "list_all is_digit ds2"
  shows "v8_parse_date_string (w @ '' '' @ ds1 @ '', '' @ ds2 @ '' 23:00:00'') =
    (case v8_compose_day m (nat_of_digits ds1) (nat_of_digits ds2) of
       Some (yr, mo, d) \<Rightarrow> time_clip (make_date (make_day yr mo d) 82800000)
     | None \<Rightarrow> None)"
proof -
  have nd: "CHR '' '' \<notin> set ds" if "list_all is_digit ds" for ds
    using that by (auto simp: list_all_iff is_digit_def)
  have sp: "js_split (CHR '' '') (w @ '' '' @ ds1 @ '', '' @ ds2 @ '' 23:00:00'') =
      [w, ds1 @ '','', ds2, ''23:00:00'']"
  proof -
    have nw: "w \<noteq> []" using assms(1) by (auto simp: month_of_word_def split: if_splits)
    have s1: "CHR '' '' \<notin> set w" using assms(1) by (rule month_of_word_no_space)
    have s2: "CHR '' '' \<notin> set (ds1 @ '','')" using nd [OF assms(3)] by simp
    have s3: "CHR '' '' \<notin> set ds2" using nd [OF assms(5)] .
    have e: "w @ '' '' @ ds1 @ '', '' @ ds2 @ '' 23:00:00'' =
        w @ CHR '' '' # ((ds1 @ '','') @ CHR '' '' # (ds2 @ CHR '' '' # ''23:00:00''))"
      by simp
    have t: "js_split (CHR '' '') ''23:00:00'' = [''23:00:00'']" by simp
    have n2: "ds1 @ '','' \<noteq> []" by simp
    show ?thesis
      by (simp only: e js_split_no_sep_words [OF s1 nw] js_split_no_sep_words [OF s2 n2]
          js_split_no_sep_words [OF s3 assms(4)] t)
  qed
  have dv: "digits_value ds = Some (nat_of_digits ds)" if "ds \<noteq> []" "list_all is_digit ds" for ds
    using that by (simp add: digits_value_def)
  have dc: "parse_day_comma (ds1 @ '','') = Some (nat_of_digits ds1)"
    using dv [OF assms(2,3)] by (simp add: parse_day_comma_def)
  have hms: "parse_hms ''23:00:00'' = Some (23, 0, 0)"
    by (simp add: parse_hms_def digits_value_def nat_of_digits_def digit_val_def is_digit_def)
  show ?thesis
    unfolding v8_parse_date_string_def sp
    using assms(1) dc dv [OF assms(4,5)] hms
    by (simp add: v8_valid_time_def make_time_def split: option.split)
qed

lemma v8_es5_keyword: "v8_es5 p (TKeyword ty v l # ts) = Some (p, TKeyword ty v l # ts)"
  by (simp add: v8_es5_def fixed_num_def)

lemma v8_parse_collection:
  assumes "month_of_word w = Some m" and "ds1 \<noteq> []" "list_all is_digit ds1" "length ds1 \<le> 9"
    and "ds2 \<noteq> []" "list_all is_digit ds2" "length ds2 \<le> 9"
  shows "v8_parse (w @ '' '' @ ds1 @ '', '' @ ds2 @ '' 23:00:00'') =
    (case v8_compose_day m (nat_of_digits ds1) (nat_of_digits ds2) of
       Some (yr, mo, d) \<Rightarrow> time_clip (make_date (make_day yr mo d) 82800000)
     | None \<Rightarrow> None)"
proof -
  have b: "nat_of_digits ds1 < 1000000000" "nat_of_digits ds2 < 1000000000"
    using nat_of_digits_bound [OF assms(3)] nat_of_digits_bound [OF assms(6)] assms(4,7)
      power_increasing [of "length ds1" 9 "10::nat"] power_increasing [of "length ds2" 9 "10::nat"]
    by simp_all
  have r: "0 \<le> m" "m \<le> 11" using month_of_word_range [OF assms(1)] by simp_all
  let ?q = "v8_init\<lparr>named_month := Some (m + 1), read_number := True,
      dcomp := [int (nat_of_digits ds1), int (nat_of_digits ds2)], tcomp := [23, 0, 0, 0]\<rparr>"
  have tw: "v8_time_write ?q = Some (23, 0, 0, 0)"
    using v8_time_write_23 [of "v8_init\<lparr>named_month := Some (m + 1), read_number := True,
      dcomp := [int (nat_of_digits ds1), int (nat_of_digits ds2)]\<rparr>"] by (simp add: v8_init_def)
  have zw: "v8_tz_write ?q = Some None" by (simp add: v8_tz_write_def v8_init_def)
  have init: "v8_init\<lparr>read_number := dcomp v8_init \<noteq> []\<rparr> = v8_init\<lparr>read_number := False\<rparr>"
    by (simp add: v8_init_def)
  show ?thesis
    unfolding v8_parse_def v8_tokens_collection [OF assms(1,2,3,5,6)]
      v8_numeral_value_short [OF assms(4)] v8_numeral_value_short [OF assms(7)]
      v8_es5_keyword option.case prod.case init v8_collection_loop
    using v8_day_write_named [OF r b] tw zw
    by (auto simp: make_time_def split: option.split)
qed

section \<open>The parser on the specification's title layout\<close>

text \<open>A title laid out as \<^verbatim>\<open>"Collection: Tue 9 Jul 2018"\<close> reaches V8 as
  \<^verbatim>\<open>"9 , Jul 23:00:00"\<close>: one number, a named month and a time, and no year.\<close>

lemma v8_es5_short_number: "l \<noteq> 4 \<Longrightarrow> v8_es5 p (TNumber n l # ts) = Some (p, TNumber n l # ts)"
  by (simp add: v8_es5_def fixed_num_def)

lemma v8_tokens_space_word:
  assumes "w \<noteq> []" "list_all is_alpha w"
  shows "v8_tokens (CHR '' '' # (w @ r)) = TWhiteSpace 1 # v8_tokens (w @ r)"
proof -
  obtain a t where w: "w = a # t" using assms(1) by (cases w) auto
  have "\<not> v8_white a" using assms(2) w by (auto simp: is_alpha_def v8_white_def)
  then show ?thesis unfolding w append_Cons by (rule v8_tokens_space)
qed

lemma v8_tokens_layout:
  assumes "month_of_word w = Some m" and "ds \<noteq> []" "list_all is_digit ds"
  shows "v8_tokens (ds @ '' , '' @ w @ '' 23:00:00'') =
    TNumber (v8_numeral_value ds) (length ds) # TWhiteSpace 1 # TUnknown # TWhiteSpace 1 #
     TKeyword MonthName (m + 1) (length w) # v8_tokens '' 23:00:00''"
proof -
  have l: "3 \<le> length w" "list_all is_alpha w"
    using assms(1) by (simp_all add: month_of_word_def split: if_splits)
  then have w: "w \<noteq> []" "list_all v8_word_char w" using alpha_word_char by (auto simp: list_all_iff)
  have sp: "\<not> v8_word_char (CHR '' '')" "\<not> is_digit (CHR '' '')" "\<not> v8_white (CHR '','')"
    by (simp_all add: v8_word_char_def v8_white_def is_digit_def)
  have e: "ds @ '' , '' @ w @ '' 23:00:00'' =
      ds @ CHR '' '' # CHR '','' # CHR '' '' # (w @ CHR '' '' # ''23:00:00'')"
    by simp
  show ?thesis
    unfolding e
    by (simp only: v8_tokens_digits [OF assms(2,3) sp(2)] v8_tokens_space [OF sp(3)] v8_tokens_comma
        v8_tokens_space_word [OF w(1) l(2)] v8_tokens_word [OF w sp(1)] v8_word_token_month [OF assms(1)])
qed

lemma v8_layout_loop:
  "v8_loop (v8_init\<lparr>read_number := False\<rparr>)
     (TNumber n l # TWhiteSpace 1 # TUnknown # TWhiteSpace 1 # TKeyword MonthName mv k #
      v8_tokens '' 23:00:00'') =
   Some (v8_init\<lparr>read_number := True, dcomp := [int n], named_month := Some mv,
     tcomp := [23, 0, 0, 0]\<rparr>)"
proof -
  let ?p1 = "v8_init\<lparr>read_number := True, dcomp := [int n]\<rparr>"
  let ?p2 = "?p1\<lparr>named_month := Some mv\<rparr>"
  let ?T = "v8_tokens '' 23:00:00''"
  have "v8_loop (v8_init\<lparr>read_number := False\<rparr>)
      (TNumber n l # TWhiteSpace 1 # TUnknown # TWhiteSpace 1 # TKeyword MonthName mv k # ?T) =
    v8_loop ?p1 (TWhiteSpace 1 # TUnknown # TWhiteSpace 1 # TKeyword MonthName mv k # ?T)"
    by (rule v8_loop_step) (simp add: v8_step_day v8_init_def skip_opt_def skip_sym_def)
  also have "\<dots> = v8_loop ?p1 (TKeyword MonthName mv k # ?T)"
    by (simp only: v8_loop.simps v8_step_white v8_step_unknown option.case prod.case)
  also have "\<dots> = v8_loop ?p2 ?T"
    by (rule v8_loop_step) (simp add: v8_step_month skip_opt_def skip_sym_def v8_tokens_time)
  also have "\<dots> = Some (?p2\<lparr>read_number := True, tcomp := [23, 0, 0, 0]\<rparr>)"
    by (rule v8_loop_time) (simp_all add: v8_init_def)
  finally show ?thesis by simp
qed

text \<open>The missing year is 1, read as 2001: the layout's own year token never reaches V8.\<close>

lemma v8_parse_layout:
  assumes "month_of_word w = Some m" and "ds \<noteq> []" "list_all is_digit ds" "length ds \<le> 2"
    and "1 \<le> nat_of_digits ds" "nat_of_digits ds \<le> 31"
  shows "v8_parse (ds @ '' , '' @ w @ '' 23:00:00'') =
    time_clip (make_date (make_day 2001 m (int (nat_of_digits ds))) 82800000)"
proof -
  have v: "v8_numeral_value ds = nat_of_digits ds" using assms(4) by (simp add: v8_numeral_value_def)
  have l: "length ds \<noteq> 4" using assms(4) by simp
  have r: "0 \<le> m" "m \<le> 11" using month_of_word_range [OF assms(1)] by simp_all
  let ?q = "v8_init\<lparr>read_number := True, dcomp := [int (nat_of_digits ds)], named_month := Some (m + 1),
     tcomp := [23, 0, 0, 0]\<rparr>"
  have init: "v8_init\<lparr>read_number := dcomp v8_init \<noteq> []\<rparr> = v8_init\<lparr>read_number := False\<rparr>"
    by (simp add: v8_init_def)
  have dw: "v8_day_write ?q = Some (2001, m + 1, int (nat_of_digits ds))"
    using assms(5,6) r
    by (simp add: v8_day_write_def v8_init_def is_day_def is_month_def v8_between_def Let_def)
  have tw: "v8_time_write ?q = Some (23, 0, 0, 0)"
    by (simp add: v8_time_write_def v8_init_def is_hour_def is_minute_def is_second_def
        is_millisecond_def v8_between_def Let_def)
  have zw: "v8_tz_write ?q = Some None" by (simp add: v8_tz_write_def v8_init_def)
  show ?thesis
    unfolding v8_parse_def v8_tokens_layout [OF assms(1,2,3)] v v8_es5_short_number [OF l]
      option.case prod.case init v8_layout_loop
    using dw tw zw by (simp add: make_time_def)
qed

section \<open>The parser on the strings of toISOString\<close>

text \<open>V8 reads \<^verbatim>\<open>YYYY-MM-DDTHH:mm:ss.sssZ\<close> through its ES5 branch and gives back the
  time value \<^verbatim>\<open>toISOString\<close> printed.\<close>

lemma v8_tokens_symbol: "v8_symbol_char c \<Longrightarrow> v8_tokens (c # r) = TSymbol c # v8_tokens r"
  by (auto simp: v8_tokens.simps v8_symbol_char_def is_digit_def)

lemma v8_tokens_number:
  assumes "list_all is_digit ds" "ds \<noteq> []" "length ds \<le> 9" "\<not> is_digit c"
  shows "v8_tokens (ds @ c # r) = TNumber (nat_of_digits ds) (length ds) # v8_tokens (c # r)"
  using v8_tokens_digits [OF assms(2,1,4)] v8_numeral_value_short [OF assms(3)] by simp

lemma v8_tokens_pad2:
  "n < 100 \<Longrightarrow> \<not> is_digit c \<Longrightarrow> v8_tokens (pad2 n @ c # r) = TNumber n 2 # v8_tokens (c # r)"
  using v8_tokens_number [of "pad2 n" c r] pad2_all_digits [of n]
  by (simp add: pad2_def nat_of_digits_pair)

lemma v8_tokens_pad_digits:
  "n < 10 ^ w \<Longrightarrow> 0 < w \<Longrightarrow> w \<le> 9 \<Longrightarrow> \<not> is_digit c \<Longrightarrow>
   v8_tokens (pad_digits w n @ c # r) = TNumber n w # v8_tokens (c # r)"
proof -
  assume a: "n < 10 ^ w" "0 < w" "w \<le> 9" "\<not> is_digit c"
  have l: "length (pad_digits w n) = w" using a(1,2) by (rule length_pad_digits)
  have ne: "pad_digits w n \<noteq> []" using l a(2) by auto
  show ?thesis
    using v8_tokens_number [OF pad_digits_all_digits ne _ a(4), of r] l a(3) by simp
qed

lemma v8_tokens_T:
  "is_digit c \<Longrightarrow> v8_tokens (CHR ''T'' # c # r) = TKeyword TimeSeparator 0 1 # v8_tokens (c # r)"
proof -
  assume d: "is_digit c"
  have "\<not> v8_word_char c" using d is_digit_tok by blast
  moreover have "list_all v8_word_char ''T''" by (simp add: v8_word_char_def v8_white_def)
  ultimately have "v8_tokens (''T'' @ c # r) = v8_word_token ''T'' # v8_tokens (c # r)"
    by (intro v8_tokens_word) simp_all
  moreover have "v8_word_token ''T'' = TKeyword TimeSeparator 0 1"
    by code_simp
  ultimately show ?thesis by simp
qed

lemma v8_tokens_Z: "v8_tokens ''Z'' = [TKeyword TimeZoneName 0 1]"
  by code_simp

lemma v8_tokens_T_pad2:
  "h < 100 \<Longrightarrow> \<not> is_digit c \<Longrightarrow>
   v8_tokens (CHR ''T'' # pad2 h @ c # r) = TKeyword TimeSeparator 0 1 # TNumber h 2 # v8_tokens (c # r)"
proof -
  assume a: "h < 100" "\<not> is_digit c"
  have "is_digit (digit_char (h div 10))" using a(1) by (intro digit_char_is_digit) simp
  then have "v8_tokens (CHR ''T'' # pad2 h @ c # r) = TKeyword TimeSeparator 0 1 # v8_tokens (pad2 h @ c # r)"
    using v8_tokens_T [of "digit_char (h div 10)" "digit_char (h mod 10) # c # r"]
    by (simp add: pad2_def)
  then show ?thesis using v8_tokens_pad2 [OF a] by simp
qed

lemma iso_chars:
  "\<not> is_digit (CHR ''-'')" "\<not> is_digit (CHR '':'')" "\<not> is_digit (CHR ''.'')" "\<not> is_digit (CHR ''T'')"
  "\<not> is_digit (CHR ''Z'')"
  "v8_symbol_char (CHR ''-'')" "v8_symbol_char (CHR '':'')" "v8_symbol_char (CHR ''.'')"
  by (simp_all add: is_digit_def v8_symbol_char_def)

lemma v8_tokens_iso_rest:
  assumes "M < 100" "D < 100" "h < 100" "mi < 100" "s < 100" "ms < 1000"
  shows "v8_tokens (''-'' @ pad2 M @ ''-'' @ pad2 D @ ''T'' @ pad2 h @ '':'' @ pad2 mi @ '':'' @
      pad2 s @ ''.'' @ pad_digits 3 ms @ ''Z'') =
    [TSymbol CHR ''-'', TNumber M 2, TSymbol CHR ''-'', TNumber D 2, TKeyword TimeSeparator 0 1,
     TNumber h 2, TSymbol CHR '':'', TNumber mi 2, TSymbol CHR '':'', TNumber s 2, TSymbol CHR ''.'',
     TNumber ms 3, TKeyword TimeZoneName 0 1]"
proof -
  have e: "''-'' @ pad2 M @ ''-'' @ pad2 D @ ''T'' @ pad2 h @ '':'' @ pad2 mi @ '':'' @
      pad2 s @ ''.'' @ pad_digits 3 ms @ ''Z'' =
    CHR ''-'' # (pad2 M @ CHR ''-'' # (pad2 D @ CHR ''T'' # (pad2 h @ CHR '':'' # (pad2 mi @ CHR '':'' #
      (pad2 s @ CHR ''.'' # (pad_digits 3 ms @ ''Z''))))))"
    by simp
  have ms: "v8_tokens (pad_digits 3 ms @ ''Z'') = TNumber ms 3 # v8_tokens ''Z''"
    using v8_tokens_pad_digits [of ms 3 "CHR ''Z''" "[]"] assms(6) iso_chars(5) by simp
  show ?thesis
    unfolding e
    by (simp add: v8_tokens_symbol v8_tokens_pad2 v8_tokens_T_pad2 ms v8_tokens_Z iso_chars assms)
qed

lemma v8_tokens_iso_year:
  assumes "\<bar>y\<bar> < 1000000"
  shows "v8_tokens (iso_year_string y @ CHR ''-'' # r) =
    (if 0 \<le> y \<and> y \<le> 9999 then TNumber (nat y) 4 # v8_tokens (CHR ''-'' # r)
     else TSymbol (if y < 0 then CHR ''-'' else CHR ''+'') # TNumber (nat \<bar>y\<bar>) 6 # v8_tokens (CHR ''-'' # r))"
proof (cases "0 \<le> y \<and> y \<le> 9999")
  case True
  then have "nat y < 10 ^ 4" by (simp add: nat_less_iff)
  then show ?thesis
    using True v8_tokens_pad_digits [of "nat y" 4 "CHR ''-''" r] iso_chars(1)
    by (simp add: iso_year_string_def)
next
  case False
  have p: "v8_tokens (pad_digits 6 (nat \<bar>y\<bar>) @ CHR ''-'' # r) = TNumber (nat \<bar>y\<bar>) 6 # v8_tokens (CHR ''-'' # r)"
    using v8_tokens_pad_digits [of "nat \<bar>y\<bar>" 6 "CHR ''-''" r] iso_chars(1) assms by simp
  have sym: "v8_tokens (CHR ''-'' # r') = TSymbol CHR ''-'' # v8_tokens r'"
    "v8_tokens (CHR ''+'' # r') = TSymbol CHR ''+'' # v8_tokens r'" for r'
    by (simp_all add: v8_tokens_symbol v8_symbol_char_def)
  show ?thesis
  proof (cases "y < 0")
    case True
    then have "\<bar>y\<bar> = - y" by simp
    then show ?thesis using False True p by (simp add: iso_year_string_def sym)
  next
    case nn: False
    then have "\<bar>y\<bar> = y" by simp
    then show ?thesis using False nn p by (simp add: iso_year_string_def sym)
  qed
qed

lemma es5_zone_Z: "es5_zone q [TKeyword TimeZoneName 0 1] = Some (es5_finish (tz_set 0 q), [])"
  by (simp add: es5_zone_def)

lemma es5_time_iso:
  assumes "tcomp q = []" "h < 24" "mi < 60" "s < 60" "ms < 1000"
  shows "es5_time q [TNumber h 2, TSymbol CHR '':'', TNumber mi 2, TSymbol CHR '':'', TNumber s 2,
      TSymbol CHR ''.'', TNumber ms 3, TKeyword TimeZoneName 0 1] =
    Some (es5_finish (tz_set 0 (q\<lparr>tcomp := [int h, int mi, int s, int ms]\<rparr>)), [])"
  unfolding es5_time_def
  using assms
  by (simp add: fixed_num_def skip_sym_def time_add_ign_def time_add_def is_minute_def is_second_def
      v8_between_def read_ms_def es5_zone_def)

lemma es5_after_date_T: "es5_after_date q (TKeyword TimeSeparator 0 1 # ts) = es5_time q ts"
  by (simp add: es5_after_date_def)

lemma es5_month_day_iso:
  assumes "length (dcomp q) = 1" "1 \<le> M" "M \<le> 12" "1 \<le> D" "D \<le> 31"
  shows "es5_month_day q (TSymbol CHR ''-'' # TNumber M 2 # TSymbol CHR ''-'' # TNumber D 2 # ts) =
    es5_after_date (q\<lparr>dcomp := dcomp q @ [int M, int D]\<rparr>) ts"
  unfolding es5_month_day_def
  using assms
  by (simp add: fixed_num_def skip_sym_def day_add_ign_def day_add_def is_month_def is_day_def
      v8_between_def)

lemma v8_es5_year4:
  "v8_es5 v8_init (TNumber y 4 # ts) = es5_month_day (v8_init\<lparr>dcomp := [int y]\<rparr>) ts"
  by (simp add: v8_es5_def fixed_num_def day_add_ign_def day_add_def v8_init_def)

lemma v8_es5_year6:
  assumes "is_sign c" "\<not> (c = CHR ''-'' \<and> n = 0)"
  shows "v8_es5 v8_init (TSymbol c # TNumber n 6 # ts) =
    es5_month_day (v8_init\<lparr>dcomp := [if c = CHR ''-'' then - int n else int n]\<rparr>) ts"
  using assms by (auto simp: v8_es5_def fixed_num_def day_add_ign_def day_add_def v8_init_def)

lemma v8_es5_iso:
  assumes "\<bar>Y\<bar> < 1000000" "1 \<le> M" "M \<le> 12" "1 \<le> D" "D \<le> 31" "h < 24" "mi < 60" "s < 60" "ms < 1000"
  shows "v8_es5 v8_init (v8_tokens (iso_year_string Y @ ''-'' @ pad2 M @ ''-'' @ pad2 D @ ''T'' @ pad2 h @
      '':'' @ pad2 mi @ '':'' @ pad2 s @ ''.'' @ pad_digits 3 ms @ ''Z'')) =
    Some (es5_finish (tz_set 0 (v8_init\<lparr>dcomp := [Y, int M, int D],
      tcomp := [int h, int mi, int s, int ms]\<rparr>)), [])"
proof -
  let ?r = "pad2 M @ ''-'' @ pad2 D @ ''T'' @ pad2 h @ '':'' @ pad2 mi @ '':'' @ pad2 s @ ''.'' @
      pad_digits 3 ms @ ''Z''"
  let ?T = "[TKeyword TimeSeparator 0 1, TNumber h 2, TSymbol CHR '':'', TNumber mi 2, TSymbol CHR '':'',
     TNumber s 2, TSymbol CHR ''.'', TNumber ms 3, TKeyword TimeZoneName 0 1]"
  have rest: "v8_tokens (CHR ''-'' # ?r) =
      TSymbol CHR ''-'' # TNumber M 2 # TSymbol CHR ''-'' # TNumber D 2 # ?T"
    using v8_tokens_iso_rest [of M D h mi s ms] assms by simp
  have e: "iso_year_string Y @ ''-'' @ ?r = iso_year_string Y @ CHR ''-'' # ?r" by simp
  have md: "es5_month_day (v8_init\<lparr>dcomp := [Y]\<rparr>)
      (TSymbol CHR ''-'' # TNumber M 2 # TSymbol CHR ''-'' # TNumber D 2 # ?T) =
    Some (es5_finish (tz_set 0 (v8_init\<lparr>dcomp := [Y, int M, int D],
      tcomp := [int h, int mi, int s, int ms]\<rparr>)), [])"
  proof -
    have l: "length (dcomp (v8_init\<lparr>dcomp := [Y]\<rparr>)) = 1" by simp
    have tq: "tcomp (v8_init\<lparr>dcomp := [Y]\<rparr>\<lparr>dcomp := dcomp (v8_init\<lparr>dcomp := [Y]\<rparr>) @ [int M, int D]\<rparr>) = []"
      by (simp add: v8_init_def)
    show ?thesis
      by (simp only: es5_month_day_iso [OF l assms(2-5)] es5_after_date_T
          es5_time_iso [OF tq assms(6-9)]) (simp add: v8_init_def)
  qed
  show ?thesis
  proof (cases "0 \<le> Y \<and> Y \<le> 9999")
    case True
    then show ?thesis
      unfolding e v8_tokens_iso_year [OF assms(1)] rest
      using md by (simp add: v8_es5_year4)
  next
    case False
    have sg: "is_sign (if Y < 0 then CHR ''-'' else CHR ''+'')" by (simp add: is_sign_def)
    have nz: "\<not> ((if Y < 0 then CHR ''-'' else CHR ''+'') = CHR ''-'' \<and> nat \<bar>Y\<bar> = 0)" using False by auto
    have y: "(if (if Y < 0 then CHR ''-'' else CHR ''+'') = CHR ''-'' then - int (nat \<bar>Y\<bar>) else int (nat \<bar>Y\<bar>)) = Y"
      by auto
    show ?thesis
      unfolding e v8_tokens_iso_year [OF assms(1)] rest
      using md False by (simp only: if_False v8_es5_year6 [OF sg nz] y)
  qed
qed

lemma v8_parse_iso_shape:
  assumes "\<bar>Y\<bar> < 1000000" "1 \<le> M" "M \<le> 12" "1 \<le> D" "D \<le> 31" "h < 24" "mi < 60" "s < 60" "ms < 1000"
  shows "v8_parse (iso_year_string Y @ ''-'' @ pad2 M @ ''-'' @ pad2 D @ ''T'' @ pad2 h @
      '':'' @ pad2 mi @ '':'' @ pad2 s @ ''.'' @ pad_digits 3 ms @ ''Z'') =
    time_clip (make_date (make_day Y (int M - 1) (int D)) (make_time (int h) (int mi) (int s) (int ms)))"
proof -
  have b: "- 2147483648 \<le> Y" "Y \<le> 2147483647" using assms(1) by linarith+
  show ?thesis
    unfolding v8_parse_def v8_es5_iso [OF assms]
    using assms b
    by (simp add: v8_day_write_def v8_time_write_def v8_tz_write_def es5_finish_def
        tz_set_def v8_init_def Let_def is_month_def is_day_def is_hour_def is_minute_def is_second_def
        is_millisecond_def v8_between_def)
qed

lemma v8_parse_iso_format:
  assumes "\<bar>t\<bar> \<le> 8640000000000000"
  shows "v8_parse (iso_format t) = Some t"
proof -
  obtain Y M D h mi s ms where fmt: "iso_format t = iso_year_string Y @ ''-'' @ pad2 M @ ''-'' @
       pad2 D @ ''T'' @ pad2 h @ '':'' @ pad2 mi @ '':'' @ pad2 s @ ''.'' @ pad_digits 3 ms @ ''Z''"
    and Yr: "\<bar>Y\<bar> < 1000000" and r: "1 \<le> M" "M \<le> 12" "1 \<le> D" "int D \<le> days_in_month Y (int M - 1)"
      "D \<le> 31" "h < 24" "mi < 60" "s < 60" "ms < 1000"
    and val: "make_date (make_day Y (int M - 1) (int D)) (make_time (int h) (int mi) (int s) (int ms)) = t"
    using assms by (rule iso_format_fields)
  show ?thesis
    unfolding fmt v8_parse_iso_shape [OF Yr r(1,2,3,5-9)] val using assms by (rule time_clip_Some)
qed

section \<open>The parser on collection strings, termination, well-formed tokens\<close>

text \<open>On \<^verbatim>\<open><month name> <digits>, <digits> 23:00:00\<close> with numbers of at most nine
  digits, V8's parser agrees with the grammar-level model \<open>v8_parse_date_string\<close>.\<close>

lemma v8_parse_collection_equiv:
  assumes "month_of_word w = Some m" and "ds1 \<noteq> []" "list_all is_digit ds1" "length ds1 \<le> 9"
    and "ds2 \<noteq> []" "list_all is_digit ds2" "length ds2 \<le> 9"
  shows "v8_parse (w @ '' '' @ ds1 @ '', '' @ ds2 @ '' 23:00:00'') =
    v8_parse_date_string (w @ '' '' @ ds1 @ '', '' @ ds2 @ '' 23:00:00'')"
  using v8_parse_collection [OF assms] v8_parse_date_string_collection [OF assms(1,2,3,5,6)] by simp

text \<open>The tokenizer and the legacy loop are in the domains of their recursions on every
  input: each token consumes at least one character (a parenthesised comment at least its
  opening parenthesis), and each turn of the loop at least the token it reads.\<close>

lemma v8_parser_terminates: "v8_tokens_dom s \<and> v8_loop_dom (p, ts)"
proof
  show "v8_tokens_dom s"
  proof (induction s rule: length_induct)
    case (1 s)
    then show ?case
      by (cases s)
        (auto intro!: v8_tokens.domintros simp: le_imp_less_Suc length_dropWhile_le v8_skip_parens_length)
  qed
  show "v8_loop_dom (p, ts)"
  proof (induction ts arbitrary: p rule: length_induct)
    case (1 ts)
    then show ?case
      by (cases ts) (auto intro!: v8_loop.domintros dest!: v8_step_length)
  qed
qed

text \<open>Every token the tokenizer produces is well formed.\<close>

lemma v8_tokens_well_formed: "list_all v8_token_ok (v8_tokens s)"
proof (induction s rule: v8_tokens.induct)
  case 1
  then show ?case by (simp add: v8_tokens.simps)
next
  case (2 c cs)
  have num: "v8_token_ok (TNumber (v8_numeral_value (takeWhile is_digit (c # cs)))
      (length (takeWhile is_digit (c # cs))))" if "is_digit c"
  proof -
    have "list_all is_digit (takeWhile is_digit (c # cs))"
      by (auto simp: list_all_iff dest: set_takeWhileD)
    then show ?thesis
      using that v8_numeral_value_bound [of "takeWhile is_digit (c # cs)"] by (simp add: v8_token_ok_def)
  qed
  have word: "v8_token_ok (v8_word_token (takeWhile v8_word_char (c # cs)))" if "v8_word_char c"
  proof -
    let ?w = "takeWhile v8_word_char (c # cs)"
    obtain ty v where l: "v8_lookup (v8_prefix ?w) (length ?w) v8_keyword_table = (ty, v)"
      by (cases "v8_lookup (v8_prefix ?w) (length ?w) v8_keyword_table")
    have "(ty, v) \<in> set (map snd v8_keyword_table @ [(InvalidKeyword, 0)]) \<and>
        (length ?w \<le> 3 \<or> ty = MonthName \<or> ty = InvalidKeyword)"
      using v8_lookup_ok [of "v8_prefix ?w" "length ?w" v8_keyword_table] unfolding l fst_conv .
    moreover have "0 < length ?w" using that by simp
    moreover have "v8_word_token ?w = TKeyword ty v (length ?w)"
      by (simp only: v8_word_token_def l Let_def prod.case)
    ultimately show ?thesis by (simp only: v8_token_ok_def v8_token.case)
  qed
  have other: "v8_symbol_char c \<Longrightarrow> v8_token_ok (TSymbol c)"
    "v8_white c \<Longrightarrow> v8_token_ok (TWhiteSpace (length (takeWhile v8_white (c # cs))))"
    "v8_token_ok TUnknown"
    by (simp_all add: v8_token_ok_def)
  show ?case
    using 2 num word other by (simp add: v8_tokens.simps(2) [of c cs])
qed

end
