(* ===== verification/DueClassifier.thy ===== *)
theory DueClassifier
  imports V8Legacy
begin

text \<open>
  The "is this bin due?" decision, in both sources. \<^verbatim>\<open>binIsDue\<close>
  (\<^verbatim>\<open>src/index.js\<close>) takes the collection date as an ISO string and reads the clock;
  the Lambda handler (\<^verbatim>\<open>src/lambda/index.js\<close>) splits the same decision between
  \<^verbatim>\<open>getBinDates\<close>, which computes the record \<open>bin_dates\<close> (modelled in
  \<open>DateParser\<close>), and \<^verbatim>\<open>isDue\<close>, which reads it. The clock \<^verbatim>\<open>new Date()\<close> is the
  parameter \<open>now\<close>. The specification's rule (its section 4.2) is the abstract
  \<open>due_status\<close>; \<open>bin_is_due_refines\<close> proves that \<^verbatim>\<open>binIsDue\<close> implements it, and
  \<open>is_due_iff\<close> shows what the Lambda variant does instead.
\<close>

section \<open>The specification's rule\<close>

datatype due_on = DueToday | DueTomorrow | NotDue

text \<open>The daily cutoff, 21:11:00.000 local time on the day of \<open>now\<close>.\<close>

definition cutoff_time :: "time_value \<Rightarrow> time_value" where
  "cutoff_time now = make_date (js_day now) (make_time 21 11 0 0)"

definition due_status :: "time_value \<Rightarrow> time_value \<Rightarrow> due_on" where
  "due_status now c =
     (if js_day c = js_day now + 1 then DueTomorrow
      else if js_day c = js_day now \<and> \<not> cutoff_time now < now then DueToday
      else NotDue)"

section \<open>binIsDue (src/index.js)\<close>

text \<open>
  \<^verbatim>\<open>today\<close> is the clock, \<^verbatim>\<open>tomorrow = addDays(today, 1)\<close>, both compared as en-GB
  date strings with \<^verbatim>\<open>new Date(collectionISODate)\<close> (V8's parser, \<open>v8_parse\<close>).
\<close>

definition bin_is_due :: "time_value \<Rightarrow> string \<Rightarrow> bool" where
  "bin_is_due now collection_iso_date =
     (let today = Some now;
          tomorrow = add_days today 1;
          todays_date = locale_date_string_gb today;
          bin_collection_time_has_passed =
            is_after today (js_new_date (get_full_year now) (get_month now) (get_date now) 21 11 0 0);
          tomorrows_date = locale_date_string_gb tomorrow;
          collection_date = locale_date_string_gb (v8_parse collection_iso_date)
      in if tomorrows_date = collection_date then True
         else if todays_date = collection_date \<and> \<not> bin_collection_time_has_passed then True
         else False)"

section \<open>isDue (src/lambda/index.js)\<close>

text \<open>What \<^verbatim>\<open>getBinDates\<close> returns for one bin.\<close>

record bin_dates =
  bin_collection_time_has_passed :: bool
  collected_on :: string
  collected_on_iso_string :: string

text \<open>
  The closure variables of \<^verbatim>\<open>getDueBins\<close>: \<^verbatim>\<open>todaysDate\<close> and \<^verbatim>\<open>tomorrowsDate\<close>,
  computed once from the clock.
\<close>

definition todays_date :: "time_value \<Rightarrow> string" where
  "todays_date now = locale_date_string_gb (Some now)"

definition tomorrows_date :: "time_value \<Rightarrow> string" where
  "tomorrows_date now = locale_date_string_gb (add_days (Some now) 1)"

definition is_due :: "time_value \<Rightarrow> bin_dates \<Rightarrow> bool" where
  "is_due now dates =
     (if tomorrows_date now = collected_on dates then True
      else if todays_date now = collected_on dates \<and> \<not> bin_collection_time_has_passed dates then True
      else False)"

section \<open>Lemmas\<close>

lemma nonneg_time_year: "0 \<le> t \<Longrightarrow> 1970 \<le> year_from_day (js_day t)"
proof -
  assume "0 \<le> t"
  then have "0 \<le> js_day t"
    by (simp add: js_day_def ms_per_day_def pos_imp_zdiv_nonneg_iff)
  then have "day_from_year 1970 \<le> js_day t" by (simp add: day_from_year_def)
  moreover have "js_day t < day_from_year (year_from_day (js_day t) + 1)"
    using year_from_day_spec by blast
  ultimately have "day_from_year 1970 < day_from_year (year_from_day (js_day t) + 1)"
    by linarith
  then have "\<not> year_from_day (js_day t) + 1 \<le> 1970"
    using day_from_year_le_iff [of "year_from_day (js_day t) + 1" 1970] by linarith
  then show ?thesis by simp
qed

text \<open>\<^verbatim>\<open>new Date(y, m, d, 21, 11, 0, 0)\<close> from the clock's own components is the cutoff.\<close>

lemma cutoff_date:
  assumes "ordinary_time now"
  shows "js_new_date (get_full_year now) (get_month now) (get_date now) 21 11 0 0 =
    Some (cutoff_time now)"
proof -
  have y: "\<not> (0 \<le> get_full_year now \<and> get_full_year now \<le> 99)"
    using nonneg_time_year [of now] assms by (simp add: ordinary_time_def get_full_year_def)
  have md: "make_day (get_full_year now) (get_month now) (get_date now) = js_day now"
    by (simp add: get_full_year_def get_month_def get_date_def make_day_of_day)
  have lo: "0 \<le> js_day now"
    using assms by (simp add: ordinary_time_def js_day_def ms_per_day_def pos_imp_zdiv_nonneg_iff)
  have hi: "js_day now * ms_per_day \<le> now"
    using int_div_bounds(1) [of ms_per_day now] by (simp add: js_day_def ms_per_day_def mult.commute)
  have "\<bar>cutoff_time now\<bar> \<le> 8640000000000000"
    using assms lo hi
    by (simp add: cutoff_time_def make_date_def make_time_def ordinary_time_def ms_per_day_def)
  then show ?thesis
    unfolding js_new_date_def Let_def if_not_P [OF y] md
    by (simp add: cutoff_time_def time_clip_Some)
qed

lemma js_day_cutoff [simp]: "js_day (cutoff_time now) = js_day now"
  by (simp add: cutoff_time_def js_day_make_date make_time_def ms_per_day_def)

lemma tomorrow_string:
  assumes "ordinary_time now"
  shows "locale_date_string_gb (add_days (Some now) 1) = locale_date_string_gb (Some (now + ms_per_day))"
    and "js_day (now + ms_per_day) = js_day now + 1"
  using add_days_one_day [OF assms] by simp_all

text \<open>Both date strings of the clock compare with a collection instant by its day.\<close>

lemma gb_eq_days:
  assumes "ordinary_time now" and "1 \<le> year_from_day (js_day c)"
  shows "locale_date_string_gb (Some now) = locale_date_string_gb (Some c) \<longleftrightarrow> js_day c = js_day now"
    and "locale_date_string_gb (add_days (Some now) 1) = locale_date_string_gb (Some c) \<longleftrightarrow>
      js_day c = js_day now + 1"
proof -
  have n: "0 \<le> now" using assms(1) by (simp add: ordinary_time_def)
  have y0: "1 \<le> year_from_day (js_day now)" using nonneg_time_year [OF n] by simp
  have y1: "1 \<le> year_from_day (js_day (now + ms_per_day))"
    using nonneg_time_year [of "now + ms_per_day"] n by (simp add: ms_per_day_def)
  show "locale_date_string_gb (Some now) = locale_date_string_gb (Some c) \<longleftrightarrow> js_day c = js_day now"
    using locale_date_string_gb_eq_iff [OF y0 assms(2)] by auto
  show "locale_date_string_gb (add_days (Some now) 1) = locale_date_string_gb (Some c) \<longleftrightarrow>
      js_day c = js_day now + 1"
    using locale_date_string_gb_eq_iff [OF y1 assms(2)] tomorrow_string [OF assms(1)] by auto
qed

section \<open>What binIsDue decides\<close>

text \<open>
  C1. For a clock reading \<open>now\<close> (after 1970, two days inside the \<^verbatim>\<open>Date\<close> range) and a
  collection instant \<open>c\<close> of the common era, \<^verbatim>\<open>binIsDue(c.toISOString())\<close> is
  true exactly when the specification's rule says the bin is due: \<open>c\<close> falls
  tomorrow, or today while the 21:11 cutoff has not passed.
\<close>

theorem bin_is_due_refines:
  assumes "ordinary_time now" and "\<bar>c\<bar> \<le> 8640000000000000"
    and "1 \<le> year_from_day (js_day c)"
  shows "bin_is_due now (iso_format c) \<longleftrightarrow> due_status now c \<noteq> NotDue"
proof -
  have p: "v8_parse (iso_format c) = Some c" using assms(2) by (rule v8_parse_iso_format)
  have passed: "is_after (Some now)
      (js_new_date (get_full_year now) (get_month now) (get_date now) 21 11 0 0) \<longleftrightarrow>
      cutoff_time now < now"
    using cutoff_date [OF assms(1)] by (simp add: is_after_def)
  show ?thesis
    unfolding bin_is_due_def Let_def p passed gb_eq_days [OF assms(1,3)]
    by (auto simp: due_status_def)
qed

text \<open>
  The 2018-07-08 10:00 clock of the specification's scenario and a collection on
  2018-07-09 23:00: the bin is due (tomorrow).
\<close>

theorem bin_is_due_refines_witness:
  "ordinary_time 1531044000000 \<and> \<bar>1531177200000::int\<bar> \<le> 8640000000000000 \<and>
   1 \<le> year_from_day (js_day 1531177200000) \<and> bin_is_due 1531044000000 (iso_format 1531177200000)"
proof -
  have h: "ordinary_time 1531044000000" "\<bar>1531177200000::int\<bar> \<le> 8640000000000000"
    "1 \<le> year_from_day (js_day 1531177200000)"
    by (simp_all add: ordinary_time_def ms_per_day_def js_day_def year_from_day_def
        day_from_year_def Let_def)
  have "due_status 1531044000000 1531177200000 = DueTomorrow"
    by (simp add: due_status_def js_day_def ms_per_day_def)
  then show ?thesis using h bin_is_due_refines [OF h] by simp
qed

text \<open>The same decision for the Lambda's \<^verbatim>\<open>isDue\<close>, on the record of a collection
  instant \<open>c\<close>: it trusts the record's \<^verbatim>\<open>binCollectionTimeHasPassed\<close> flag.\<close>

lemma is_due_iff:
  assumes "ordinary_time now" and "1 \<le> year_from_day (js_day c)"
    and "collected_on dates = locale_date_string_gb (Some c)"
  shows "is_due now dates \<longleftrightarrow>
    js_day c = js_day now + 1 \<or> (js_day c = js_day now \<and> \<not> bin_collection_time_has_passed dates)"
  using gb_eq_days [OF assms(1,2)] assms(3)
  by (auto simp: is_due_def todays_date_def tomorrows_date_def)

end
