(* ===== verification/DateParser.thy ===== *)
theory DateParser
  imports DueClassifier
begin

text \<open>
  From a feed title such as \<^verbatim>\<open>Tue 9 Jul 2018\<close> to a collection date.
  \<^verbatim>\<open>getCollectionDate\<close> (\<^verbatim>\<open>src/index.js\<close>) returns the date's ISO string;
  \<^verbatim>\<open>getBinDates\<close> (\<^verbatim>\<open>src/lambda/index.js\<close>) reads the title out of an xml2js channel
  and returns the record \<open>bin_dates\<close> of \<open>DueClassifier\<close>. Both split the title on
  spaces, take the leading digits of token 1 as the day, tokens 2 and 3 as month and
  year, and hand \<^verbatim>\<open>`${month} ${dayNumber}, ${year} 23:00:00`\<close> (\<open>date_template\<close>) to
  V8's parser (\<open>v8_parse\<close>). A missing token 1 is a \<^verbatim>\<open>TypeError\<close>
  (\<^verbatim>\<open>undefined.match\<close>), an unparseable date a \<^verbatim>\<open>RangeError\<close> from
  \<^verbatim>\<open>toISOString\<close>. \<open>spec_title\<close> is the specification's shape of a title; on such
  titles V8 reads the date at 23:00 of the named day (C2, C3), while the layout of the
  specification's own example title loses its year (C28).
\<close>

section \<open>Feed data\<close>

text \<open>xml2js (the Lambda) turns every XML child into an array.\<close>

record xml2js_item =
  titles :: "string list"

record xml2js_channel =
  items :: "xml2js_item list"

text \<open>xml2json in object mode (index.js) gives a single item and title as plain values.\<close>

record xml2json_item =
  item_title :: "string option"

record xml2json_channel =
  channel_item :: "xml2json_item option"

section \<open>Parsing a title\<close>

text \<open>The template literal \<^verbatim>\<open>`${month} ${dayNumber}, ${year} 23:00:00`\<close>.\<close>

definition date_template :: "string \<Rightarrow> string \<Rightarrow> string \<Rightarrow> string" where
  "date_template month day_number year = month @ '' '' @ day_number @ '', '' @ year @ '' 23:00:00''"

text \<open>Lines shared by both sources: split, match the day, build the string, \<^verbatim>\<open>new Date\<close>
  (V8's parser, \<open>v8_parse\<close>).\<close>

definition parse_title_date :: "string \<Rightarrow> js_date js_result" where
  "parse_title_date title =
     (let date_parts = js_split (CHR '' '') title in
      case js_index date_parts 1 of
        None \<Rightarrow> Inl TypeError
      | Some part1 \<Rightarrow>
          (let day_number = leading_digits part1;
               month = js_template_str (js_index date_parts 2);
               year = js_template_str (js_index date_parts 3)
           in Inr (v8_parse (date_template month day_number year))))"

text \<open>\<^verbatim>\<open>getCollectionDate\<close>: the date as \<^verbatim>\<open>date.toISOString()\<close>.\<close>

definition get_collection_date :: "string \<Rightarrow> string js_result" where
  "get_collection_date collection_date =
     (case parse_title_date collection_date of
       Inl e \<Rightarrow> Inl e
     | Inr date \<Rightarrow> to_iso_string date)"

text \<open>
  \<^verbatim>\<open>getBinDates\<close>: \<^verbatim>\<open>bin.item[0].title[0]\<close>, then the date, the cutoff flag
  \<^verbatim>\<open>isAfter(binDate, today at 21:11)\<close>, the en-GB string and the ISO string, in the
  order of the object literal.
\<close>

definition get_bin_dates :: "time_value \<Rightarrow> xml2js_channel \<Rightarrow> bin_dates js_result" where
  "get_bin_dates now bin =
     (case js_index (items bin) 0 of
       None \<Rightarrow> Inl TypeError
     | Some it \<Rightarrow>
         (case js_index (titles it) 0 of
           None \<Rightarrow> Inl TypeError
         | Some title \<Rightarrow>
             (case parse_title_date title of
               Inl e \<Rightarrow> Inl e
             | Inr bin_date \<Rightarrow>
                 (let passed = is_after bin_date
                        (js_new_date (get_full_year now) (get_month now) (get_date now) 21 11 0 0)
                  in case to_iso_string bin_date of
                       Inl e \<Rightarrow> Inl e
                     | Inr iso_str \<Rightarrow>
                         Inr \<lparr>bin_collection_time_has_passed = passed,
                              collected_on = locale_date_string_gb bin_date,
                              collected_on_iso_string = iso_str\<rparr>))))"

section \<open>Well-formed titles\<close>

text \<open>
  The titles the feed is meant to carry: a first token, a day of the month with an
  optional non-digit suffix (\<^verbatim>\<open>9\<close>, \<^verbatim>\<open>9th\<close>), a month name and a year, then
  possibly more tokens. The collection instant is 23:00 on that day.
\<close>

definition collection_instant :: "int \<Rightarrow> int \<Rightarrow> int \<Rightarrow> time_value" where
  "collection_instant y m d = make_date (make_day y m d) 82800000"

definition well_formed_title :: "string \<Rightarrow> string \<Rightarrow> nat \<Rightarrow> string \<Rightarrow> string \<Rightarrow> nat \<Rightarrow> string list \<Rightarrow> bool" where
  "well_formed_title title first D sfx w Y rest_tokens \<longleftrightarrow>
     js_split (CHR '' '') title = first # (digits_of_nat D @ sfx) # w # digits_of_nat Y # rest_tokens \<and>
     \<not> (sfx \<noteq> [] \<and> is_digit (hd sfx))"

text \<open>
  The specification's input constraint on a title (its section 4.1): token 1 begins with
  the day of the month (at most two digits, any suffix), token 2 is a month name, token 3
  a four-digit year. \<open>channel_title\<close> is the title \<^verbatim>\<open>getBinDates\<close> reads,
  \<^verbatim>\<open>bin.item[0].title[0]\<close>; a channel without one fails with a \<^verbatim>\<open>TypeError\<close> anyway.
\<close>

definition spec_title :: "string \<Rightarrow> bool" where
  "spec_title title =
     (case js_split (CHR '' '') title of
       _ # t1 # t2 # t3 # _ \<Rightarrow>
         leading_digits t1 \<noteq> [] \<and> length (leading_digits t1) \<le> 2 \<and> month_of_word t2 \<noteq> None \<and>
         length t3 = 4 \<and> list_all is_digit t3
     | _ \<Rightarrow> False)"

definition channel_title :: "xml2js_channel \<Rightarrow> string option" where
  "channel_title bin = (case js_index (items bin) 0 of None \<Rightarrow> None | Some it \<Rightarrow> js_index (titles it) 0)"

definition spec_channel :: "xml2js_channel \<Rightarrow> bool" where
  "spec_channel bin = (case channel_title bin of None \<Rightarrow> True | Some title \<Rightarrow> spec_title title)"

section \<open>Lemmas\<close>

lemma parse_title_date_well_formed:
  assumes "well_formed_title title first D sfx w Y rest_tokens"
  shows "parse_title_date title =
    Inr (v8_parse (w @ '' '' @ digits_of_nat D @ '', '' @ digits_of_nat Y @ '' 23:00:00''))"
proof -
  have s: "js_split (CHR '' '') title = first # (digits_of_nat D @ sfx) # w # digits_of_nat Y # rest_tokens"
    and sfx: "\<not> (sfx \<noteq> [] \<and> is_digit (hd sfx))"
    using assms by (simp_all add: well_formed_title_def)
  have "leading_digits (digits_of_nat D @ sfx) = digits_of_nat D"
    using sfx by (rule leading_digits_digits_of_nat)
  then show ?thesis
    by (simp add: parse_title_date_def date_template_def s js_index_def js_template_str_def)
qed

lemma collection_instant_day [simp]: "js_day (collection_instant y m d) = make_day y m d"
  by (simp add: collection_instant_def js_day_make_date ms_per_day_def)

lemma parse_title_collection_instant:
  assumes "well_formed_title title first D sfx w Y rest_tokens" and "month_of_word w = Some m"
    and "valid_ymd (int Y) m (int D)" and "100 \<le> Y" and "Y < 1000000000"
    and "\<bar>collection_instant (int Y) m (int D)\<bar> \<le> 8640000000000000"
  shows "parse_title_date title = Inr (Some (collection_instant (int Y) m (int D)))"
proof -
  have d: "1 \<le> D" "D \<le> 31"
    using assms(3) days_in_month_le_31 [of m "int Y"] by (simp_all add: valid_ymd_def)
  have l: "length (digits_of_nat D) \<le> 9" "length (digits_of_nat Y) \<le> 9"
    using d(2) assms(5) by (simp_all add: length_digits_of_nat_le)
  have dg: "list_all is_digit (digits_of_nat n)" for n
    using digits_of_nat_all_digits [of n] by (simp add: list_all_iff)
  have cd: "v8_compose_day m D Y = Some (int Y, m, int D)"
    using d assms(4) by (simp add: v8_compose_day_def v8_is_day_def)
  show ?thesis
    using parse_title_date_well_formed [OF assms(1)]
      v8_parse_collection [OF assms(2) digits_of_nat_nonempty dg l(1) digits_of_nat_nonempty dg l(2)]
      cd assms(6)
    by (simp add: collection_instant_def time_clip_Some)
qed

text \<open>A title of the specified shape reaches V8 as a collection string, on which the
  parser agrees with the grammar-level model.\<close>

lemma parse_title_date_spec:
  assumes "spec_title title"
  obtains s where "parse_title_date title = Inr (v8_parse_date_string s)"
    and "last (js_split (CHR '' '') s) = ''23:00:00''"
proof -
  obtain t0 t1 t2 t3 rest where sp: "js_split (CHR '' '') title = t0 # t1 # t2 # t3 # rest"
    and c: "leading_digits t1 \<noteq> []" "length (leading_digits t1) \<le> 2" "month_of_word t2 \<noteq> None"
      "length t3 = 4" "list_all is_digit t3"
    using assms by (auto simp: spec_title_def split: list.splits)
  obtain m where m: "month_of_word t2 = Some m" using c(3) by blast
  let ?s = "t2 @ '' '' @ leading_digits t1 @ '', '' @ t3 @ '' 23:00:00''"
  have ld: "list_all is_digit (leading_digits t1)"
    using leading_digits_all_digits [of t1] by (simp add: list_all_iff)
  have t3: "t3 \<noteq> []" "length t3 \<le> 9" using c(4) by auto
  have p: "parse_title_date title = Inr (v8_parse ?s)"
    by (simp add: parse_title_date_def date_template_def sp js_index_def js_template_str_def)
  have e: "v8_parse ?s = v8_parse_date_string ?s"
    using v8_parse_collection [OF m c(1) ld _ t3(1) c(5) t3(2)]
      v8_parse_date_string_collection [OF m c(1) ld t3(1) c(5)] c(2)
    by simp
  have l: "last (js_split (CHR '' '') ?s) = ''23:00:00''"
    using js_split_last_sep [of "CHR '' ''" "t2 @ '' '' @ leading_digits t1 @ '', '' @ t3" "''23:00:00''"]
    by simp
  show ?thesis using that p e l by simp
qed

text \<open>Every date parsed from such a title lies at 23:00 of a day from the year 100 on.\<close>

lemma parse_title_date_Some:
  assumes "spec_title title" and "parse_title_date title = Inr (Some t)"
  shows "time_within_day t = 82800000" and "100 \<le> year_from_day (js_day t)"
proof -
  obtain s where p: "parse_title_date title = Inr (v8_parse_date_string s)"
    and l: "last (js_split (CHR '' '') s) = ''23:00:00''"
    using assms(1) by (rule parse_title_date_spec)
  have v: "v8_parse_date_string s = Some t" using p assms(2) by simp
  from v l show "time_within_day t = 82800000" by (rule v8_time_of_day)
  from v show "100 \<le> year_from_day (js_day t)" by (rule v8_year)
qed

lemma get_bin_dates_Inr:
  assumes "get_bin_dates now bin = Inr dates"
  obtains title t where "channel_title bin = Some title" and "parse_title_date title = Inr (Some t)"
    and "dates = \<lparr>bin_collection_time_has_passed =
        is_after (Some t) (js_new_date (get_full_year now) (get_month now) (get_date now) 21 11 0 0),
      collected_on = locale_date_string_gb (Some t), collected_on_iso_string = iso_format t\<rparr>"
  using assms
  by (auto simp: get_bin_dates_def channel_title_def to_iso_string_def Let_def
      split: option.splits sum.splits intro: that)

lemma parse_title_date_clip:
  "parse_title_date title = Inr (Some t) \<Longrightarrow> \<bar>t\<bar> \<le> 8640000000000000"
  by (auto simp: parse_title_date_def Let_def split: option.splits dest: v8_parse_clip)

text \<open>The collection instant behind a record of \<^verbatim>\<open>getBinDates\<close>.\<close>

lemma get_bin_dates_instant:
  assumes "ordinary_time now" and "get_bin_dates now bin = Inr dates" and "spec_channel bin"
  obtains t where "time_within_day t = 82800000" and "100 \<le> year_from_day (js_day t)"
    and "\<bar>t\<bar> \<le> 8640000000000000"
    and "collected_on dates = locale_date_string_gb (Some t)"
    and "collected_on_iso_string dates = iso_format t"
    and "bin_collection_time_has_passed dates \<longleftrightarrow> cutoff_time now < t"
proof -
  obtain title t where c: "channel_title bin = Some title" and p: "parse_title_date title = Inr (Some t)"
    and d: "dates = \<lparr>bin_collection_time_has_passed =
        is_after (Some t) (js_new_date (get_full_year now) (get_month now) (get_date now) 21 11 0 0),
      collected_on = locale_date_string_gb (Some t), collected_on_iso_string = iso_format t\<rparr>"
    using assms(2) by (rule get_bin_dates_Inr)
  show ?thesis
  proof
    show "time_within_day t = 82800000" "100 \<le> year_from_day (js_day t)"
      using parse_title_date_Some [OF _ p] assms(3) c by (simp_all add: spec_channel_def)
    show "\<bar>t\<bar> \<le> 8640000000000000" using p by (rule parse_title_date_clip)
    show "bin_collection_time_has_passed dates \<longleftrightarrow> cutoff_time now < t"
      using cutoff_date [OF assms(1)] by (simp add: d is_after_def)
  qed (simp_all add: d)
qed

text \<open>A collection at 23:00 on the clock's day is always after that day's cutoff.\<close>

lemma same_day_collection_after_cutoff:
  assumes "js_day t = js_day now" and "time_within_day t = 82800000"
  shows "cutoff_time now < t"
proof -
  have "t = make_date (js_day t) 82800000"
    using make_date_day_time [of t] assms(2) by simp
  then show ?thesis
    using assms(1) by (simp add: cutoff_time_def make_date_def make_time_def)
qed

text \<open>The specification's example title, evaluated.\<close>

lemma parse_title_example: "parse_title_date ''Tue 9 Jul 2018'' = Inr (Some 1531177200000)"
proof -
  have wf: "well_formed_title ''Tue 9 Jul 2018'' ''Tue'' 9 [] ''Jul'' 2018 []"
    by (simp add: well_formed_title_def digits_of_nat.simps digit_char_values)
  have m: "month_of_word ''Jul'' = Some 6"
    by (simp add: month_of_word_def month_names_def is_alpha_def js_lower_def char_of_def bit_0)
  have v: "valid_ymd (int 2018) 6 (int 9)"
    by (simp add: valid_ymd_def days_in_month_def leap_of_year_def days_in_year_def month_bounds_def)
  have c: "collection_instant (int 2018) 6 (int 9) = 1531177200000"
    by (simp add: collection_instant_def make_day_def make_date_def ms_per_day_def day_from_year_def
        leap_of_year_def days_in_year_def month_bounds_def)
  show ?thesis
    using parse_title_collection_instant [OF wf m v] c by simp
qed

lemma scenario_spec_channel: "spec_channel \<lparr>items = [\<lparr>titles = [''Tue 9 Jul 2018'']\<rparr>]\<rparr>"
  by code_simp

text \<open>A valid date of the years 100 to 275000 at 23:00 is a time value a \<^verbatim>\<open>Date\<close> can hold.\<close>

lemma collection_instant_clip:
  assumes "valid_ymd y m d" and "100 \<le> y" and "y \<le> 275000"
  shows "\<bar>collection_instant y m d\<bar> \<le> 8640000000000000"
proof -
  let ?md = "make_day y m d"
  have "year_from_day ?md = y" using assms(1) by (rule ymd_of_make_day)
  then have b: "day_from_year y \<le> ?md" "?md < day_from_year (y + 1)"
    using year_from_day_spec [of ?md] by simp_all
  have "day_from_year 100 \<le> day_from_year y" "day_from_year (y + 1) \<le> day_from_year 275001"
    using assms(2,3) by (simp_all add: day_from_year_le_iff)
  moreover have "day_from_year 100 = -683003" "day_from_year 275001 = 99722525"
    by (simp_all add: day_from_year_def)
  ultimately show ?thesis
    using b by (simp add: collection_instant_def make_date_def ms_per_day_def)
qed

section \<open>The Lambda never reports a bin on its collection day\<close>

text \<open>
  C2. On every record \<^verbatim>\<open>getBinDates\<close> returns for a channel whose title has the
  specified shape, the Lambda's \<^verbatim>\<open>isDue\<close> is true exactly
  when the collection falls tomorrow. The same-day branch
  \<^verbatim>\<open>todaysDate === collectedOn && !binCollectionTimeHasPassed\<close> never fires: the flag
  compares the collection instant (23:00 on its day) with 21:11, not the clock, so it is
  set for every same-day collection, at any hour of that day.
\<close>

theorem is_due_get_bin_dates:
  assumes "ordinary_time now" and "get_bin_dates now bin = Inr dates" and "spec_channel bin"
  shows "is_due now dates \<longleftrightarrow> tomorrows_date now = collected_on dates"
proof -
  obtain t where tod: "time_within_day t = 82800000" and yr: "100 \<le> year_from_day (js_day t)"
    and on: "collected_on dates = locale_date_string_gb (Some t)"
    and flag: "bin_collection_time_has_passed dates \<longleftrightarrow> cutoff_time now < t"
    using assms by (rule get_bin_dates_instant) blast+
  have "bin_collection_time_has_passed dates" if same: "todays_date now = collected_on dates"
  proof -
    have "js_day t = js_day now"
      using same gb_eq_days(1) [OF assms(1), of t] yr by (simp add: on todays_date_def)
    then show ?thesis using flag same_day_collection_after_cutoff tod by blast
  qed
  then show ?thesis by (auto simp: is_due_def)
qed

text \<open>
  On the collection day itself, 2018-07-09 at 10:00 (before the cutoff), the Lambda does
  not report the bin collected that day.
\<close>

theorem is_due_get_bin_dates_witness:
  "ordinary_time 1531130400000 \<and> spec_channel \<lparr>items = [\<lparr>titles = [''Tue 9 Jul 2018'']\<rparr>]\<rparr> \<and>
   get_bin_dates 1531130400000 \<lparr>items = [\<lparr>titles = [''Tue 9 Jul 2018'']\<rparr>]\<rparr> =
     Inr \<lparr>bin_collection_time_has_passed = is_after (Some 1531177200000)
            (js_new_date (get_full_year 1531130400000) (get_month 1531130400000)
              (get_date 1531130400000) 21 11 0 0),
          collected_on = locale_date_string_gb (Some 1531177200000),
          collected_on_iso_string = iso_format 1531177200000\<rparr> \<and>
   \<not> is_due 1531130400000
     \<lparr>bin_collection_time_has_passed = is_after (Some 1531177200000)
        (js_new_date (get_full_year 1531130400000) (get_month 1531130400000)
          (get_date 1531130400000) 21 11 0 0),
      collected_on = locale_date_string_gb (Some 1531177200000),
      collected_on_iso_string = iso_format 1531177200000\<rparr>"
proof -
  have o: "ordinary_time 1531130400000" by (simp add: ordinary_time_def ms_per_day_def)
  have g: "get_bin_dates 1531130400000 \<lparr>items = [\<lparr>titles = [''Tue 9 Jul 2018'']\<rparr>]\<rparr> =
     Inr \<lparr>bin_collection_time_has_passed = is_after (Some 1531177200000)
            (js_new_date (get_full_year 1531130400000) (get_month 1531130400000)
              (get_date 1531130400000) 21 11 0 0),
          collected_on = locale_date_string_gb (Some 1531177200000),
          collected_on_iso_string = iso_format 1531177200000\<rparr>"
    by (simp add: get_bin_dates_def js_index_def parse_title_example to_iso_string_def)
  have y: "1 \<le> year_from_day (js_day 1531177200000)"
    by (simp add: js_day_def ms_per_day_def year_from_day_def day_from_year_def Let_def)
  have "tomorrows_date 1531130400000 \<noteq> locale_date_string_gb (Some 1531177200000)"
    using gb_eq_days(2) [OF o y] by (simp add: tomorrows_date_def js_day_def ms_per_day_def)
  then show ?thesis
    using o g scenario_spec_channel is_due_get_bin_dates [OF o g scenario_spec_channel] by simp
qed

section \<open>Round trip of getCollectionDate\<close>

text \<open>
  C3. For a well-formed title whose date is valid (years 100 to 275000),
  \<^verbatim>\<open>getCollectionDate\<close> returns an ISO string, and reading that string back gives a
  date with the title's year, month and day of the month.
\<close>

theorem get_collection_date_roundtrip:
  assumes "well_formed_title title first D sfx w Y rest_tokens" and "month_of_word w = Some m"
    and "valid_ymd (int Y) m (int D)" and "100 \<le> Y" and "Y \<le> 275000"
  shows "\<exists>s t. get_collection_date title = Inr s \<and> iso_parse s = Some t \<and>
    get_full_year t = int Y \<and> get_month t = m \<and> get_date t = int D"
proof -
  let ?t = "collection_instant (int Y) m (int D)"
  have clip: "\<bar>?t\<bar> \<le> 8640000000000000"
    using assms(3,4,5) by (intro collection_instant_clip) simp_all
  have y: "Y < 1000000000" using assms(5) by simp
  have p: "parse_title_date title = Inr (Some ?t)"
    by (rule parse_title_collection_instant [OF assms(1,2,3,4) y clip])
  have g: "get_collection_date title = Inr (iso_format ?t)"
    by (simp add: get_collection_date_def p to_iso_string_def)
  have r: "iso_parse (iso_format ?t) = Some ?t" using clip by (rule iso_parse_format)
  have c: "get_full_year ?t = int Y" "get_month ?t = m" "get_date ?t = int D"
    using ymd_of_make_day [OF assms(3)]
    by (simp_all add: get_full_year_def get_month_def get_date_def)
  show ?thesis using g r c by blast
qed

theorem get_collection_date_roundtrip_witness:
  "well_formed_title ''Tue 9 Jul 2018'' ''Tue'' 9 [] ''Jul'' 2018 [] \<and> month_of_word ''Jul'' = Some 6 \<and>
   valid_ymd (int 2018) 6 (int 9) \<and> 100 \<le> (2018::nat) \<and> (2018::nat) \<le> 275000 \<and>
   (\<exists>s t. get_collection_date ''Tue 9 Jul 2018'' = Inr s \<and> iso_parse s = Some t \<and>
      get_full_year t = 2018 \<and> get_month t = 6 \<and> get_date t = 9)"
proof -
  have wf: "well_formed_title ''Tue 9 Jul 2018'' ''Tue'' 9 [] ''Jul'' 2018 []"
    by (simp add: well_formed_title_def digits_of_nat.simps digit_char_values)
  have m: "month_of_word ''Jul'' = Some 6"
    by (simp add: month_of_word_def month_names_def is_alpha_def js_lower_def char_of_def bit_0)
  have v: "valid_ymd (int 2018) 6 (int 9)"
    by (simp add: valid_ymd_def days_in_month_def leap_of_year_def days_in_year_def month_bounds_def)
  show ?thesis
    using wf m v get_collection_date_roundtrip [OF wf m v] by simp
qed

section \<open>Titles in the specification's example layout\<close>

text \<open>
  C28. The specification's example feed title, \<^verbatim>\<open>Collection: Tue 9 Jul 2018\<close>, has a
  label before the weekday, so the day, month and year sit at tokens 2 to 4. For every
  title laid out that way (a weekday with no leading digit, a day of one or two digits
  valid in its month, a month name), \<^verbatim>\<open>getCollectionDate\<close> builds
  \<^verbatim>\<open>"D , Mon 23:00:00"\<close>, V8 defaults the missing year to 2001, and the title is dated
  23:00 on that day of 2001 whatever its year token says; the
  \<^verbatim>\<open>MalformedDateError\<close> the specification asks for is never raised.
\<close>

theorem get_collection_date_spec_layout:
  assumes "js_split (CHR '' '') title = label # weekday # ds # w # rest"
    and "leading_digits weekday = []" and "month_of_word w = Some m"
    and "ds \<noteq> []" "list_all is_digit ds" "length ds \<le> 2"
    and "valid_ymd 2001 m (int (nat_of_digits ds))"
  shows "get_collection_date title =
    Inr (iso_format (collection_instant 2001 m (int (nat_of_digits ds))))"
proof -
  have r: "0 \<le> m" "m \<le> 11" using assms(7) by (simp_all add: valid_ymd_def)
  have d: "1 \<le> nat_of_digits ds" "nat_of_digits ds \<le> 31"
    using assms(7) days_in_month_le_31 [OF r, of 2001] by (simp_all add: valid_ymd_def)
  have p: "parse_title_date title = Inr (v8_parse (ds @ '' , '' @ w @ '' 23:00:00''))"
    using assms(1,2) by (simp add: parse_title_date_def date_template_def js_index_def js_template_str_def)
  have c: "time_clip (collection_instant 2001 m (int (nat_of_digits ds))) =
      Some (collection_instant 2001 m (int (nat_of_digits ds)))"
    by (rule time_clip_Some) (rule collection_instant_clip [OF assms(7)], simp_all)
  have "v8_parse (ds @ '' , '' @ w @ '' 23:00:00'') = Some (collection_instant 2001 m (int (nat_of_digits ds)))"
    using v8_parse_layout [OF assms(3,4,5,6) d] c by (simp add: collection_instant_def)
  then show ?thesis using p by (simp add: get_collection_date_def to_iso_string_def)
qed

theorem get_collection_date_spec_layout_witness:
  "js_split (CHR '' '') ''Collection: Tue 9 Jul 2018'' = [''Collection:'', ''Tue'', ''9'', ''Jul'', ''2018''] \<and>
   leading_digits ''Tue'' = [] \<and> month_of_word ''Jul'' = Some 6 \<and>
   ''9'' \<noteq> [] \<and> list_all is_digit ''9'' \<and> length ''9'' \<le> 2 \<and>
   valid_ymd 2001 6 (int (nat_of_digits ''9'')) \<and>
   get_collection_date ''Collection: Tue 9 Jul 2018'' =
     Inr (iso_format (collection_instant 2001 6 (int (nat_of_digits ''9''))))"
proof -
  have s: "js_split (CHR '' '') ''Collection: Tue 9 Jul 2018'' = [''Collection:'', ''Tue'', ''9'', ''Jul'', ''2018'']"
    by code_simp
  have l: "leading_digits ''Tue'' = []" by code_simp
  have m: "month_of_word ''Jul'' = Some 6"
    by (simp add: month_of_word_def month_names_def is_alpha_def js_lower_def char_of_def bit_0)
  have d: "list_all is_digit ''9''" by (simp add: is_digit_def)
  have v: "valid_ymd 2001 6 (int (nat_of_digits ''9''))" by code_simp
  show ?thesis
    using s l m d v get_collection_date_spec_layout [OF s l m _ d _ v] by simp
qed

end
