(* ===== verification/DueLabel.thy ===== *)
theory DueLabel
  imports DateParser
begin

text \<open>
  The "days until due" label. Both sources call date-fns 1.x
  \<^verbatim>\<open>distanceInWordsStrict(new Date(), collectionISODate, {unit: "d"})\<close>, which
  yields \<^verbatim>\<open>"1 day"\<close> or \<^verbatim>\<open>"N days"\<close>, and look at the number in front:
  \<^verbatim>\<open>getDaysUntilDue\<close> (\<^verbatim>\<open>src/index.js\<close>) splits on \<^verbatim>\<open>" days"\<close>,
  \<^verbatim>\<open>getDueDay\<close> (\<^verbatim>\<open>src/lambda/index.js\<close>) on a space. The first never answers
  \<^verbatim>\<open>"Tomorrow"\<close>; the second labels a bin due tomorrow as \<^verbatim>\<open>"today"\<close> once the clock
  has passed 23:00.
\<close>

section \<open>String splitting on a separator string\<close>

text \<open>\<^verbatim>\<open>s.split(sep)\<close> for a non-empty separator string: cut at each leftmost match.\<close>

fun js_split_str :: "string \<Rightarrow> string \<Rightarrow> string list" where
  "js_split_str sep [] = (if sep = [] then [] else [[]])"
| "js_split_str sep (c # cs) =
     (if sep = [] then [c] # js_split_str sep cs
      else if take (length sep) (c # cs) = sep
      then [] # js_split_str sep (drop (length sep) (c # cs))
      else (case js_split_str sep cs of w # ws \<Rightarrow> (c # w) # ws | [] \<Rightarrow> [[c]]))"

section \<open>date-fns distanceInWordsStrict with unit "d"\<close>

text \<open>
  The two dates are ordered (\<^verbatim>\<open>compareDesc\<close>), the later minus the earlier is cut to
  whole seconds, whole minutes (the time-zone offsets are equal in UTC) and whole days,
  each with \<^verbatim>\<open>Math.floor\<close>.
\<close>

definition distance_days :: "time_value \<Rightarrow> time_value \<Rightarrow> int" where
  "distance_days date_to_compare date =
     (let (date_left, date_right) =
            (if date_to_compare < date then (date_to_compare, date) else (date, date_to_compare));
          seconds = (date_right - date_left) div 1000;
          minutes = seconds div 60
      in minutes div 1440)"

text \<open>A number as \<^verbatim>\<open>String(n)\<close> renders it.\<close>

definition js_int_string :: "int \<Rightarrow> string" where
  "js_int_string n = (if n < 0 then ''-'' @ digits_of_nat (nat (- n)) else digits_of_nat (nat n))"

text \<open>The English locale's \<^verbatim>\<open>xDays\<close> entry: \<^verbatim>\<open>one: "1 day"\<close>,
  \<^verbatim>\<open>other: "{{count}} days"\<close>.\<close>

definition x_days :: "int \<Rightarrow> string" where
  "x_days n = (if n = 1 then ''1 day'' else js_int_string n @ '' days'')"

text \<open>An Invalid Date makes every count \<^verbatim>\<open>NaN\<close>.\<close>

definition distance_in_words_strict_days :: "js_date \<Rightarrow> js_date \<Rightarrow> string" where
  "distance_in_words_strict_days a b =
     (case (a, b) of (Some x, Some y) \<Rightarrow> x_days (distance_days x y) | _ \<Rightarrow> ''NaN days'')"

section \<open>getDaysUntilDue (src/index.js)\<close>

definition get_days_until_due :: "time_value \<Rightarrow> string \<Rightarrow> string" where
  "get_days_until_due now collection_iso_date =
     (let no_of_days = distance_in_words_strict_days (Some now) (iso_parse collection_iso_date)
      in if js_index (js_split_str '' days'' no_of_days) 0 = Some ''1'' then ''Tomorrow''
         else if js_index (js_split_str '' days'' no_of_days) 0 = Some ''0'' then ''Today''
         else no_of_days)"

section \<open>getDueDay (src/lambda/index.js)\<close>

definition get_due_day :: "time_value \<Rightarrow> string \<Rightarrow> string" where
  "get_due_day now collection_iso_date =
     (let no_of_days = distance_in_words_strict_days (Some now) (iso_parse collection_iso_date)
      in if js_index (js_split (CHR '' '') no_of_days) 0 = Some ''1'' then ''tomorrow''
         else if js_index (js_split (CHR '' '') no_of_days) 0 = Some ''0'' then ''today''
         else no_of_days)"

section \<open>Lemmas\<close>

lemma js_split_str_prefix:
  assumes "sep \<noteq> []" and "hd sep \<notin> set w"
  shows "js_split_str sep (w @ sep @ r) = w # js_split_str sep r"
  using assms(2)
proof (induction w)
  case Nil
  then show ?case using assms(1) by (cases sep) simp_all
next
  case (Cons c w)
  have "take (length sep) (c # w @ sep @ r) \<noteq> sep"
    using Cons.prems assms(1) by (cases sep) auto
  then show ?case using Cons assms(1) by simp
qed

lemma distance_days_eq: "distance_days a b = \<bar>b - a\<bar> div ms_per_day"
proof -
  have "x div 1000 div 60 div 1440 = x div ms_per_day" for x :: int
    by (simp add: zdiv_zmult2_eq [symmetric] ms_per_day_def)
  then show ?thesis by (simp add: distance_days_def abs_if)
qed

lemma distance_days_nonneg: "0 \<le> distance_days a b"
  by (simp add: distance_days_eq ms_per_day_def)

text \<open>The count in front of the words, as each source reads it.\<close>

lemma x_days_first_field:
  assumes "0 \<le> n"
  shows "js_index (js_split_str '' days'' (x_days n)) 0 =
           Some (if n = 1 then ''1 day'' else digits_of_nat (nat n))"
proof (cases "n = 1")
  case True
  then show ?thesis by (simp add: x_days_def js_index_def)
next
  case False
  have "hd '' days'' \<notin> set (digits_of_nat (nat n))" using digits_of_nat_no_space by simp
  then have "js_split_str '' days'' (digits_of_nat (nat n) @ '' days'') =
      digits_of_nat (nat n) # js_split_str '' days'' []"
    using js_split_str_prefix [of "'' days''" "digits_of_nat (nat n)" "[]"] by simp
  then show ?thesis using False assms by (simp add: x_days_def js_int_string_def js_index_def)
qed

lemma x_days_first_word:
  assumes "0 \<le> n"
  shows "js_index (js_split (CHR '' '') (x_days n)) 0 = Some (digits_of_nat (nat n))"
proof (cases "n = 1")
  case True
  then show ?thesis by (simp add: x_days_def js_index_def digits_of_nat.simps digit_char_values)
next
  case False
  have "js_split (CHR '' '') (digits_of_nat (nat n) @ CHR '' '' # ''days'') =
      digits_of_nat (nat n) # js_split (CHR '' '') ''days''"
    using js_split_no_sep_words [OF digits_of_nat_no_space digits_of_nat_nonempty] by simp
  then show ?thesis using False assms by (simp add: x_days_def js_int_string_def js_index_def)
qed

lemma digits_of_nat_one: "digits_of_nat n = ''1'' \<longleftrightarrow> n = 1"
  using digits_of_nat_inj [of n 1] by (simp add: digits_of_nat.simps digit_char_values)

lemma digits_of_nat_zero: "digits_of_nat n = ''0'' \<longleftrightarrow> n = 0"
  using digits_of_nat_inj [of n 0] by (simp add: digits_of_nat.simps digit_char_values)

text \<open>Whatever the two dates, the count in front of \<^verbatim>\<open>" days"\<close> is never \<^verbatim>\<open>"1"\<close>.\<close>

lemma days_first_field_not_one:
  "js_index (js_split_str '' days'' (distance_in_words_strict_days a b)) 0 \<noteq> Some ''1''"
proof (cases "\<exists>x y. a = Some x \<and> b = Some y")
  case True
  then obtain x y where ab: "a = Some x" "b = Some y" by blast
  have n: "0 \<le> distance_days x y" by (rule distance_days_nonneg)
  have "nat (distance_days x y) \<noteq> 1" if "distance_days x y \<noteq> 1" using that n by simp
  then show ?thesis
    using x_days_first_field [OF n] digits_of_nat_one
    by (simp add: ab distance_in_words_strict_days_def)
next
  case False
  then have "distance_in_words_strict_days a b = ''NaN days''"
    by (cases a; cases b) (simp_all add: distance_in_words_strict_days_def)
  then show ?thesis by (simp add: js_index_def)
qed

lemma distance_words_not_tomorrow: "distance_in_words_strict_days a b \<noteq> ''Tomorrow''"
proof -
  have "x_days n \<noteq> ''Tomorrow''" for n
  proof -
    have "CHR '' '' \<in> set (x_days n)" by (simp add: x_days_def)
    then show ?thesis by auto
  qed
  then show ?thesis
    by (simp add: distance_in_words_strict_days_def split: option.splits)
qed

text \<open>Day distances from the clock to a collection at 23:00.\<close>

lemma distance_days_tomorrow:
  assumes "js_day t = js_day now + 1" and "time_within_day t = 82800000"
  shows "distance_days now t = (if time_within_day now \<le> 82800000 then 1 else 0)"
proof -
  define D where "D = js_day now"
  define r where "r = time_within_day now"
  have now: "now = D * ms_per_day + r"
    using make_date_day_time [of now] by (simp add: D_def r_def make_date_def)
  have t: "t = (D + 1) * ms_per_day + 82800000"
    using make_date_day_time [of t] assms by (simp add: D_def make_date_def)
  have r: "0 \<le> r" "r < ms_per_day" using time_within_day_bounds [of now] by (simp_all add: r_def)
  have diff: "\<bar>t - now\<bar> = ms_per_day + (82800000 - r)"
    using r unfolding now t by (simp add: lin_distribs ms_per_day_def)
  have "\<bar>t - now\<bar> div ms_per_day = (if r \<le> 82800000 then 1 else 0)"
    unfolding diff using r by (intro int_div_eqI) (simp_all add: ms_per_day_def)
  then show ?thesis by (simp add: distance_days_eq r_def)
qed

lemma distance_days_same_day:
  assumes "js_day t = js_day now"
  shows "distance_days now t = 0"
proof -
  have "t = js_day now * ms_per_day + time_within_day t"
    "now = js_day now * ms_per_day + time_within_day now"
    using make_date_day_time [of t] make_date_day_time [of now] assms
    by (simp_all add: make_date_def)
  then have "\<bar>t - now\<bar> < ms_per_day"
    using time_within_day_bounds [of t] time_within_day_bounds [of now] by linarith
  then show ?thesis by (simp add: distance_days_eq)
qed

text \<open>A record the Lambda reports is a collection tomorrow at 23:00.\<close>

lemma due_bin_instant:
  assumes "ordinary_time now" and "get_bin_dates now bin = Inr dates" and "is_due now dates"
    and "spec_channel bin"
  obtains t where "js_day t = js_day now + 1" and "time_within_day t = 82800000"
    and "\<bar>t\<bar> \<le> 8640000000000000" and "collected_on_iso_string dates = iso_format t"
proof -
  obtain t where tod: "time_within_day t = 82800000" and yr: "100 \<le> year_from_day (js_day t)"
    and clip: "\<bar>t\<bar> \<le> 8640000000000000"
    and on: "collected_on dates = locale_date_string_gb (Some t)"
    and iso: "collected_on_iso_string dates = iso_format t"
    and flag: "bin_collection_time_has_passed dates \<longleftrightarrow> cutoff_time now < t"
    using assms(1,2,4) by (rule get_bin_dates_instant)
  have y1: "1 \<le> year_from_day (js_day t)" using yr by simp
  have "\<not> (js_day t = js_day now \<and> \<not> bin_collection_time_has_passed dates)"
    using flag same_day_collection_after_cutoff tod by blast
  then have "js_day t = js_day now + 1"
    using assms(3) gb_eq_days [OF assms(1) y1]
    by (auto simp: is_due_def todays_date_def tomorrows_date_def on)
  then show ?thesis using that tod clip iso by blast
qed

text \<open>The Lambda's label of a collection tomorrow at 23:00.\<close>

lemma get_due_day_tomorrow_instant:
  assumes "js_day t = js_day now + 1" and "time_within_day t = 82800000"
    and "\<bar>t\<bar> \<le> 8640000000000000"
  shows "get_due_day now (iso_format t) =
    (if time_within_day now \<le> 82800000 then ''tomorrow'' else ''today'')"
proof -
  have p: "iso_parse (iso_format t) = Some t" using assms(3) by (rule iso_parse_format)
  have n: "0 \<le> distance_days now t" by (rule distance_days_nonneg)
  show ?thesis
  proof (cases "time_within_day now \<le> 82800000")
    case True
    then have "distance_days now t = 1" using distance_days_tomorrow [OF assms(1,2)] by simp
    then show ?thesis
      using x_days_first_word [OF n] digits_of_nat_one [of 1] True
      by (simp add: get_due_day_def distance_in_words_strict_days_def p)
  next
    case False
    then have "distance_days now t = 0" using distance_days_tomorrow [OF assms(1,2)] by simp
    then show ?thesis
      using x_days_first_word [OF n] digits_of_nat_zero [of 0] False
      by (simp add: get_due_day_def distance_in_words_strict_days_def p)
  qed
qed

section \<open>getDaysUntilDue never says "Tomorrow"\<close>

text \<open>
  C4. Whatever the clock and the collection string, \<^verbatim>\<open>getDaysUntilDue\<close> never
  returns \<^verbatim>\<open>"Tomorrow"\<close>: date-fns writes a one-day distance as \<^verbatim>\<open>"1 day"\<close>, which
  \<^verbatim>\<open>split(" days")\<close> leaves whole, so the test against \<^verbatim>\<open>"1"\<close> always fails and
  no other result reads \<^verbatim>\<open>"Tomorrow"\<close> either.
\<close>

theorem get_days_until_due_never_tomorrow: "get_days_until_due now s \<noteq> ''Tomorrow''"
  using days_first_field_not_one [of "Some now" "iso_parse s"]
    distance_words_not_tomorrow [of "Some now" "iso_parse s"]
  by (simp add: get_days_until_due_def Let_def)

section \<open>The Lambda's label of a due bin\<close>

text \<open>
  C5. For every bin the Lambda reports as due, \<^verbatim>\<open>getDueDay\<close> labels it
  \<^verbatim>\<open>"tomorrow"\<close> while the clock's time of day is at most 23:00 and \<^verbatim>\<open>"today"\<close>
  after that, although the collection is tomorrow in both cases.
\<close>

theorem get_due_day_due_bin:
  assumes "ordinary_time now" and "get_bin_dates now bin = Inr dates" and "is_due now dates"
    and "spec_channel bin"
  shows "get_due_day now (collected_on_iso_string dates) =
    (if time_within_day now \<le> 82800000 then ''tomorrow'' else ''today'')"
proof -
  obtain t where d: "js_day t = js_day now + 1" and tod: "time_within_day t = 82800000"
    and clip: "\<bar>t\<bar> \<le> 8640000000000000" and iso: "collected_on_iso_string dates = iso_format t"
    using assms by (rule due_bin_instant)
  show ?thesis using get_due_day_tomorrow_instant [OF d tod clip] iso by simp
qed

text \<open>
  2018-07-08 at 23:30, the bin of the title \<^verbatim>\<open>Tue 9 Jul 2018\<close> is due and labelled
  \<^verbatim>\<open>"today"\<close>.
\<close>

theorem get_due_day_due_bin_witness:
  "ordinary_time 1531092600000 \<and> spec_channel \<lparr>items = [\<lparr>titles = [''Tue 9 Jul 2018'']\<rparr>]\<rparr> \<and>
   get_bin_dates 1531092600000 \<lparr>items = [\<lparr>titles = [''Tue 9 Jul 2018'']\<rparr>]\<rparr> =
     Inr \<lparr>bin_collection_time_has_passed = is_after (Some 1531177200000)
            (js_new_date (get_full_year 1531092600000) (get_month 1531092600000)
              (get_date 1531092600000) 21 11 0 0),
          collected_on = locale_date_string_gb (Some 1531177200000),
          collected_on_iso_string = iso_format 1531177200000\<rparr> \<and>
   is_due 1531092600000
     \<lparr>bin_collection_time_has_passed = is_after (Some 1531177200000)
        (js_new_date (get_full_year 1531092600000) (get_month 1531092600000)
          (get_date 1531092600000) 21 11 0 0),
      collected_on = locale_date_string_gb (Some 1531177200000),
      collected_on_iso_string = iso_format 1531177200000\<rparr> \<and>
   get_due_day 1531092600000 (iso_format 1531177200000) = ''today''"
proof -
  have o: "ordinary_time 1531092600000" by (simp add: ordinary_time_def ms_per_day_def)
  have g: "get_bin_dates 1531092600000 \<lparr>items = [\<lparr>titles = [''Tue 9 Jul 2018'']\<rparr>]\<rparr> =
     Inr \<lparr>bin_collection_time_has_passed = is_after (Some 1531177200000)
            (js_new_date (get_full_year 1531092600000) (get_month 1531092600000)
              (get_date 1531092600000) 21 11 0 0),
          collected_on = locale_date_string_gb (Some 1531177200000),
          collected_on_iso_string = iso_format 1531177200000\<rparr>"
    by (simp add: get_bin_dates_def js_index_def parse_title_example to_iso_string_def)
  have y: "1 \<le> year_from_day (js_day 1531177200000)"
    by (simp add: js_day_def ms_per_day_def year_from_day_def day_from_year_def Let_def)
  have "tomorrows_date 1531092600000 = locale_date_string_gb (Some 1531177200000)"
    using gb_eq_days(2) [OF o y] by (simp add: tomorrows_date_def js_day_def ms_per_day_def)
  then have d: "is_due 1531092600000
     \<lparr>bin_collection_time_has_passed = is_after (Some 1531177200000)
        (js_new_date (get_full_year 1531092600000) (get_month 1531092600000)
          (get_date 1531092600000) 21 11 0 0),
      collected_on = locale_date_string_gb (Some 1531177200000),
      collected_on_iso_string = iso_format 1531177200000\<rparr>"
    by (simp add: is_due_def)
  show ?thesis
    using o g d scenario_spec_channel get_due_day_due_bin [OF o g d scenario_spec_channel]
    by (simp add: time_within_day_def ms_per_day_def)
qed

end
