(* ===== verification/Message.thy ===== *)
theory Message
  imports Prelude
begin

text \<open>
  The notification sentence. \<^verbatim>\<open>createMessage\<close> (a closure of \<^verbatim>\<open>handleNewData\<close>,
  \<^verbatim>\<open>src/index.js\<close>) turns a list of bin names into "X and Y bins are being collected
  DAY."; \<^verbatim>\<open>buildMessageForDay\<close> and \<^verbatim>\<open>buildMessage\<close> (\<^verbatim>\<open>src/lambda/index.js\<close>) do
  the same on the due-bin records of \<^verbatim>\<open>getDueBins\<close> and join the two days. Both
  loops keep the first name, capitalised, and the last one only, so a third bin in the
  middle is dropped. The specification's sentence (its section 4.4) is
  \<open>spec_group_sentence\<close>; the code agrees with it on groups of one or two bins.
\<close>

section \<open>The due-bin record\<close>

text \<open>
  One element of \<^verbatim>\<open>dueBins\<close>: \<^verbatim>\<open>{title: mapIndexToBinType[index], dueOn: getDueDay(...)}\<close>.
  The title is \<^verbatim>\<open>undefined\<close> past the third channel.
\<close>

record due_bin =
  due_title :: "string option"
  due_on :: string

section \<open>createMessage (src/index.js)\<close>

text \<open>The \<^verbatim>\<open>bins.forEach((bin, index) => ...)\<close> loop over the message.\<close>

fun create_message_loop :: "nat \<Rightarrow> nat \<Rightarrow> string list \<Rightarrow> string \<Rightarrow> string" where
  "create_message_loop len i [] message = message"
| "create_message_loop len i (bin # bins) message =
     create_message_loop len (Suc i) bins
       (if i = 0 then capitalise_first bin
        else if i = len - 1 then message @ '' and '' @ bin
        else message)"

definition create_message :: "string list \<Rightarrow> string \<Rightarrow> string" where
  "create_message bins day =
     (if length bins = 0 then ''''
      else
        (let message = create_message_loop (length bins) 0 bins '''';
             message = message @ (if 1 < length bins then '' bins are '' else '' bin is '')
         in message @ ''being collected '' @ day @ ''.''))"

section \<open>buildMessageForDay and buildMessage (src/lambda/index.js)\<close>

text \<open>
  The same loop on records: \<^verbatim>\<open>bin.title.replace(...)\<close> on an undefined title is a
  \<^verbatim>\<open>TypeError\<close>, \<^verbatim>\<open>`${bin.title}`\<close> renders it as \<^verbatim>\<open>"undefined"\<close>.
\<close>

fun build_message_loop :: "nat \<Rightarrow> nat \<Rightarrow> due_bin list \<Rightarrow> string \<Rightarrow> string js_result" where
  "build_message_loop len i [] message = Inr message"
| "build_message_loop len i (bin # bins) message =
     (if i = 0 then
        (case due_title bin of
          None \<Rightarrow> Inl TypeError
        | Some t \<Rightarrow> build_message_loop len (Suc i) bins (capitalise_first t))
      else build_message_loop len (Suc i) bins
        (if i = len - 1 then message @ '' and '' @ js_template_str (due_title bin) else message))"

definition build_message_for_day :: "due_bin list \<Rightarrow> string \<Rightarrow> string js_result" where
  "build_message_for_day bins day =
     (case build_message_loop (length bins) 0 bins '''' of
       Inl e \<Rightarrow> Inl e
     | Inr message \<Rightarrow>
         (let message = message @ (if 1 < length bins then '' bins are '' else '' bin is '')
          in Inr (message @ ''being collected '' @ day @ ''.'')))"

text \<open>
  \<^verbatim>\<open>buildMessage\<close>: \<open>None\<close> is the \<^verbatim>\<open>undefined\<close> it returns when no bin is labelled
  \<^verbatim>\<open>"today"\<close> or \<^verbatim>\<open>"tomorrow"\<close>.
\<close>

definition build_message :: "due_bin list \<Rightarrow> string option js_result" where
  "build_message bins =
     (if length bins = 0 then Inr (Some ''No bins due'')
      else
        (let due_today = filter (\<lambda>bin. due_on bin = ''today'') bins;
             due_tomorrow = filter (\<lambda>bin. due_on bin = ''tomorrow'') bins
         in if 1 \<le> length due_today \<and> 1 \<le> length due_tomorrow then
              (case build_message_for_day due_today ''today'' of
                Inl e \<Rightarrow> Inl e
              | Inr part0 \<Rightarrow>
                  (case build_message_for_day due_tomorrow ''tomorrow'' of
                    Inl e \<Rightarrow> Inl e
                  | Inr part1 \<Rightarrow> Inr (Some (js_join ''. '' [part0, part1]))))
            else if 1 \<le> length due_today then
              (case build_message_for_day due_today ''today'' of
                Inl e \<Rightarrow> Inl e | Inr m \<Rightarrow> Inr (Some m))
            else if 1 \<le> length due_tomorrow then
              (case build_message_for_day due_tomorrow ''tomorrow'' of
                Inl e \<Rightarrow> Inl e | Inr m \<Rightarrow> Inr (Some m))
            else Inr None))"

section \<open>The specification's sentence\<close>

text \<open>
  Section 4.4: the first name capitalised, one name "B1 bin is", two names "B1 and B2
  bins are", more names "B1, B2, ..., and Bn bins are", then "being collected DAY.".
\<close>

definition spec_name_list :: "string list \<Rightarrow> string" where
  "spec_name_list names =
     (if length names \<le> 2 then js_join '' and '' names
      else js_join '', '' (butlast names) @ '', and '' @ last names)"

definition spec_group_sentence :: "string list \<Rightarrow> string \<Rightarrow> string" where
  "spec_group_sentence bins day =
     (case bins of
       [] \<Rightarrow> ''''
     | b # bs \<Rightarrow> spec_name_list (capitalise_first b # bs) @
         (if length bins = 1 then '' bin is '' else '' bins are '') @ ''being collected '' @ day @ ''.'')"

section \<open>Lemmas\<close>

text \<open>After the first element the loop only appends the last name.\<close>

lemma create_message_loop_tail:
  "0 < i \<Longrightarrow> i + length bins = len \<Longrightarrow>
   create_message_loop len i bins m = (if bins = [] then m else m @ '' and '' @ last bins)"
proof (induction bins arbitrary: i m)
  case Nil
  then show ?case by simp
next
  case (Cons b bins)
  show ?case
  proof (cases "bins = []")
    case True
    then show ?thesis using Cons.prems by simp
  next
    case False
    then have "i \<noteq> len - 1" using Cons.prems by (cases bins) auto
    then show ?thesis using Cons.prems Cons.IH [of "Suc i" m] False by simp
  qed
qed

lemma create_message_loop_first:
  "create_message_loop (length (b # bins)) 0 (b # bins) m =
   capitalise_first b @ (if bins = [] then [] else '' and '' @ last bins)"
  using create_message_loop_tail [of 1 bins "length (b # bins)" "capitalise_first b"] by simp

lemma build_message_loop_tail:
  "0 < i \<Longrightarrow> i + length bins = len \<Longrightarrow>
   build_message_loop len i bins m =
     Inr (if bins = [] then m else m @ '' and '' @ js_template_str (due_title (last bins)))"
proof (induction bins arbitrary: i m)
  case Nil
  then show ?case by simp
next
  case (Cons b bins)
  show ?case
  proof (cases "bins = []")
    case True
    then show ?thesis using Cons.prems by simp
  next
    case False
    then have "i \<noteq> len - 1" using Cons.prems by (cases bins) auto
    then show ?thesis using Cons.prems Cons.IH [of "Suc i" m] False by simp
  qed
qed

lemma create_message_Cons:
  "create_message (b # bins) day =
     capitalise_first b @ (if bins = [] then [] else '' and '' @ last bins) @
     (if bins = [] then '' bin is '' else '' bins are '') @ ''being collected '' @ day @ ''.''"
  using create_message_loop_first [of b bins "[]"] by (simp add: create_message_def)

lemma build_message_for_day_Cons:
  "build_message_for_day (b # bins) day =
     (case due_title b of
       None \<Rightarrow> Inl TypeError
     | Some t \<Rightarrow> Inr (capitalise_first t @
         (if bins = [] then [] else '' and '' @ js_template_str (due_title (last bins))) @
         (if bins = [] then '' bin is '' else '' bins are '') @ ''being collected '' @ day @ ''.''))"
  using build_message_loop_tail [of 1 bins "length (b # bins)" "capitalise_first (the (due_title b))"]
  by (cases "due_title b") (simp_all add: build_message_for_day_def)

lemma build_message_for_day_titles:
  assumes "bins \<noteq> []" and "\<forall>b \<in> set bins. due_title b \<noteq> None"
  shows "build_message_for_day bins day = Inr (create_message (map (the \<circ> due_title) bins) day)"
proof -
  obtain b rest where bins: "bins = b # rest" using assms(1) by (cases bins) auto
  obtain t where t: "due_title b = Some t" using assms(2) bins by auto
  have "js_template_str (due_title (last rest)) = the (due_title (last rest))" if "rest \<noteq> []"
    using assms(2) last_in_set [OF that] by (auto simp: bins js_template_str_def)
  then show ?thesis
    by (simp add: bins t build_message_for_day_Cons create_message_Cons last_map)
qed

lemma build_message_for_day_last:
  "build_message_for_day bins day = Inr m \<Longrightarrow> m \<noteq> [] \<and> last m = CHR ''.''"
  by (auto simp: build_message_for_day_def Let_def split: sum.splits)

lemma build_message_Some_last:
  "bins \<noteq> [] \<Longrightarrow> build_message bins = Inr (Some x) \<Longrightarrow> x \<noteq> [] \<and> last x = CHR ''.''"
  by (auto simp: build_message_def Let_def split: if_splits sum.splits
      dest: build_message_for_day_last)

text \<open>With defined titles and only the two labels, \<^verbatim>\<open>buildMessage\<close> returns a sentence.\<close>

lemma build_message_defined:
  assumes "bins \<noteq> []" and "\<forall>b \<in> set bins. due_title b \<noteq> None"
    and "\<forall>b \<in> set bins. due_on b = ''today'' \<or> due_on b = ''tomorrow''"
  shows "\<exists>m. build_message bins = Inr (Some m)"
proof -
  let ?td = "filter (\<lambda>bin. due_on bin = ''today'') bins"
  let ?tm = "filter (\<lambda>bin. due_on bin = ''tomorrow'') bins"
  have t: "\<forall>b \<in> set ?td. due_title b \<noteq> None" "\<forall>b \<in> set ?tm. due_title b \<noteq> None"
    using assms(2) by auto
  have "?td \<noteq> [] \<or> ?tm \<noteq> []"
    using assms(1,3) by (cases bins) (auto simp: filter_empty_conv)
  then show ?thesis
    using build_message_for_day_titles [OF _ t(1), of "''today''"]
      build_message_for_day_titles [OF _ t(2), of "''tomorrow''"] assms(1)
    by (auto simp: build_message_def Let_def Suc_le_eq)
qed

section \<open>createMessage against the specification\<close>

text \<open>
  C6. For a group of one or two bins, \<^verbatim>\<open>createMessage\<close> produces the specification's
  sentence: the first name capitalised, "and" between two names, "bin is" or
  "bins are", then "being collected DAY.".
\<close>

theorem create_message_refines_spec:
  assumes "0 < length bins" and "length bins \<le> 2"
  shows "create_message bins day = spec_group_sentence bins day"
proof -
  obtain b rest where bins: "bins = b # rest" using assms(1) by (cases bins) auto
  have "rest = [] \<or> (\<exists>c. rest = [c])" using assms(2) bins by (cases rest) auto
  then show ?thesis
    by (auto simp: bins create_message_Cons spec_group_sentence_def spec_name_list_def)
qed

text \<open>The specification's scenario: garden and recycling due today.\<close>

theorem create_message_refines_spec_witness:
  "0 < length [''garden'', ''recycling''] \<and> length [''garden'', ''recycling''] \<le> 2 \<and>
   create_message [''garden'', ''recycling''] ''today'' =
     spec_group_sentence [''garden'', ''recycling''] ''today'' \<and>
   spec_group_sentence [''garden'', ''recycling''] ''today'' =
     ''Garden and recycling bins are being collected today.''"
proof -
  have "create_message [''garden'', ''recycling''] ''today'' =
     spec_group_sentence [''garden'', ''recycling''] ''today''"
    by (rule create_message_refines_spec) simp_all
  moreover have "spec_group_sentence [''garden'', ''recycling''] ''today'' =
     ''Garden and recycling bins are being collected today.''"
    by (simp add: spec_group_sentence_def spec_name_list_def is_word_char_def is_digit_def
        js_upper_def char_of_def bit_0)
  ultimately show ?thesis by simp
qed

section \<open>The two implementations agree\<close>

text \<open>
  C7. On a non-empty group whose titles are all defined, the Lambda's
  \<^verbatim>\<open>buildMessageForDay\<close> returns exactly the sentence \<^verbatim>\<open>createMessage\<close> of
  \<^verbatim>\<open>src/index.js\<close> builds from the titles.
\<close>

theorem build_message_for_day_eq_create_message:
  assumes "bins \<noteq> []" and "\<forall>b \<in> set bins. due_title b \<noteq> None"
  shows "build_message_for_day bins day = Inr (create_message (map (the \<circ> due_title) bins) day)"
  using assms by (rule build_message_for_day_titles)

theorem build_message_for_day_eq_create_message_witness:
  "[\<lparr>due_title = Some ''waste'', due_on = ''tomorrow''\<rparr>] \<noteq> [] \<and>
   due_title \<lparr>due_title = Some ''waste'', due_on = ''tomorrow''\<rparr> \<noteq> None \<and>
   build_message_for_day [\<lparr>due_title = Some ''waste'', due_on = ''tomorrow''\<rparr>] ''tomorrow'' =
     Inr (create_message [''waste''] ''tomorrow'')"
  using build_message_for_day_eq_create_message
    [of "[\<lparr>due_title = Some ''waste'', due_on = ''tomorrow''\<rparr>]" "''tomorrow''"]
  by simp

section \<open>A middle bin is dropped\<close>

text \<open>
  C8. \<^verbatim>\<open>createMessage\<close> reads only the first and the last name: every bin between
  them is left out of the sentence, so three bins due on one day are announced as two.
\<close>

theorem create_message_drops_middle:
  "create_message (a # mid @ [z]) day = create_message [a, z] day"
  by (simp add: create_message_Cons)

section \<open>The "nothing due" sentinel\<close>

text \<open>
  C9. \<^verbatim>\<open>buildMessage\<close> returns the sentinel \<^verbatim>\<open>"No bins due"\<close> exactly when the list
  of due bins is empty; every other outcome is an error, \<^verbatim>\<open>undefined\<close> or a sentence
  ending in a full stop.
\<close>

theorem build_message_sentinel_iff:
  "build_message bins = Inr (Some ''No bins due'') \<longleftrightarrow> bins = []"
proof
  assume m: "build_message bins = Inr (Some ''No bins due'')"
  show "bins = []"
  proof (rule ccontr)
    assume "bins \<noteq> []"
    from build_message_Some_last [OF this m] show False by simp
  qed
next
  assume "bins = []"
  then show "build_message bins = Inr (Some ''No bins due'')" by (simp add: build_message_def)
qed

section \<open>Two days in one Lambda message\<close>

text \<open>
  C10. When some bins are due today and some tomorrow (all with defined titles),
  \<^verbatim>\<open>buildMessage\<close> joins the two sentences with \<^verbatim>\<open>". "\<close> although each already
  ends in a full stop, so the message contains \<^verbatim>\<open>"today.. "\<close>.
\<close>

theorem build_message_double_stop:
  assumes "\<exists>b \<in> set bins. due_on b = ''today''" and "\<exists>b \<in> set bins. due_on b = ''tomorrow''"
    and "\<forall>b \<in> set bins. due_title b \<noteq> None"
  shows "\<exists>p q. build_message bins = Inr (Some (p @ ''today.. '' @ q))"
proof -
  let ?td = "filter (\<lambda>bin. due_on bin = ''today'') bins"
  let ?tm = "filter (\<lambda>bin. due_on bin = ''tomorrow'') bins"
  have ne: "?td \<noteq> []" "?tm \<noteq> []" "bins \<noteq> []"
    using assms(1,2) by (auto simp: filter_empty_conv)
  have t: "\<forall>b \<in> set ?td. due_title b \<noteq> None" "\<forall>b \<in> set ?tm. due_title b \<noteq> None"
    using assms(3) by auto
  obtain b rest where td: "map (the \<circ> due_title) ?td = b # rest"
    using ne(1) by (cases ?td) auto
  define p where "p = capitalise_first b @ (if rest = [] then [] else '' and '' @ last rest) @
     (if rest = [] then '' bin is '' else '' bins are '') @ ''being collected ''"
  have today: "build_message_for_day ?td ''today'' = Inr (p @ ''today.'')"
    using build_message_for_day_titles [OF ne(1) t(1)] by (simp add: td create_message_Cons p_def)
  have "length ?td \<noteq> 0" "length ?tm \<noteq> 0" using ne by simp_all
  then have "build_message bins =
      Inr (Some (p @ ''today.. '' @ create_message (map (the \<circ> due_title) ?tm) ''tomorrow''))"
    using ne(3) today build_message_for_day_titles [OF ne(2) t(2)]
    by (simp add: build_message_def Let_def Suc_le_eq)
  then show ?thesis by blast
qed

theorem build_message_double_stop_witness:
  "due_on \<lparr>due_title = Some ''garden'', due_on = ''today''\<rparr> = ''today'' \<and>
   due_on \<lparr>due_title = Some ''waste'', due_on = ''tomorrow''\<rparr> = ''tomorrow'' \<and>
   due_title \<lparr>due_title = Some ''garden'', due_on = ''today''\<rparr> \<noteq> None \<and>
   due_title \<lparr>due_title = Some ''waste'', due_on = ''tomorrow''\<rparr> \<noteq> None \<and>
   (\<exists>p q. build_message [\<lparr>due_title = Some ''garden'', due_on = ''today''\<rparr>,
       \<lparr>due_title = Some ''waste'', due_on = ''tomorrow''\<rparr>] = Inr (Some (p @ ''today.. '' @ q)))"
  using build_message_double_stop [of "[\<lparr>due_title = Some ''garden'', due_on = ''today''\<rparr>,
       \<lparr>due_title = Some ''waste'', due_on = ''tomorrow''\<rparr>]"]
  by simp

text \<open>The message of that witness, evaluated.\<close>

lemma build_message_two_days_example:
  "build_message [\<lparr>due_title = Some ''garden'', due_on = ''today''\<rparr>,
       \<lparr>due_title = Some ''waste'', due_on = ''tomorrow''\<rparr>] =
   Inr (Some ''Garden bin is being collected today.. Waste bin is being collected tomorrow.'')"
  by (simp add: build_message_def build_message_for_day_Cons is_word_char_def is_digit_def
      js_upper_def char_of_def bit_0)

end
