(* ===== verification/Aggregator.thy ===== *)
theory Aggregator
  imports DueLabel Message "HOL-Library.Sublist"
begin

text \<open>
  From the converted feed to the per-bin results. In the Lambda
  (\<^verbatim>\<open>src/lambda/index.js\<close>) \<^verbatim>\<open>getDueBins\<close> walks \<^verbatim>\<open>data.rss.channel\<close>, runs
  \<^verbatim>\<open>getBinDates\<close> and \<^verbatim>\<open>isDue\<close> on each channel and keeps the due ones as
  \<open>due_bin\<close> records titled by \<^verbatim>\<open>mapIndexToBinType\<close>; \<^verbatim>\<open>formatData\<close> wraps it
  and turns any exception into \<^verbatim>\<open>Error("Error formatting data")\<close>. In
  \<^verbatim>\<open>src/index.js\<close> \<^verbatim>\<open>formatData\<close> reads three fixed channels (garden, waste,
  recycling) and records \<^verbatim>\<open>isDue\<close>, \<^verbatim>\<open>daysUntilDue\<close> and the collection date for
  each. The converted feed is the list of channels; the clock is \<open>now\<close>, one reading
  for the whole run.
\<close>

section \<open>getDueBins and formatData (src/lambda/index.js)\<close>

definition map_index_to_bin_type :: "nat \<Rightarrow> string option" where
  "map_index_to_bin_type i =
     (if i = 0 then Some ''waste'' else if i = 1 then Some ''garden''
      else if i = 2 then Some ''recycling'' else None)"

text \<open>The record pushed for the channel at \<open>index\<close>.\<close>

definition due_entry :: "time_value \<Rightarrow> nat \<Rightarrow> bin_dates \<Rightarrow> due_bin" where
  "due_entry now index dates =
     \<lparr>due_title = map_index_to_bin_type index, due_on = get_due_day now (collected_on_iso_string dates)\<rparr>"

text \<open>\<^verbatim>\<open>data.rss.channel.forEach((bin, index) => ...)\<close>; an exception leaves the loop.\<close>

fun get_due_bins_loop ::
  "time_value \<Rightarrow> nat \<Rightarrow> xml2js_channel list \<Rightarrow> due_bin list \<Rightarrow> due_bin list js_result" where
  "get_due_bins_loop now index [] due_bins = Inr due_bins"
| "get_due_bins_loop now index (bin # bins) due_bins =
     (case get_bin_dates now bin of
       Inl e \<Rightarrow> Inl e
     | Inr dates \<Rightarrow>
         if \<not> is_due now dates then get_due_bins_loop now (Suc index) bins due_bins
         else get_due_bins_loop now (Suc index) bins (due_bins @ [due_entry now index dates]))"

definition get_due_bins :: "time_value \<Rightarrow> xml2js_channel list \<Rightarrow> due_bin list js_result" where
  "get_due_bins now channels = get_due_bins_loop now 0 channels []"

text \<open>\<^verbatim>\<open>updatedOn: new Date().toString()\<close> is evaluated before \<^verbatim>\<open>getDueBins\<close> and never
  throws.\<close>

record formatted_data =
  updated_on :: string
  due_bins :: "due_bin list"

definition format_data_lambda :: "time_value \<Rightarrow> xml2js_channel list \<Rightarrow> formatted_data js_result" where
  "format_data_lambda now data =
     (case get_due_bins now data of
       Inl e \<Rightarrow> Inl (JsError ''Error formatting data'')
     | Inr bins \<Rightarrow> Inr \<lparr>updated_on = to_date_string (Some now), due_bins = bins\<rparr>)"

section \<open>formatData (src/index.js)\<close>

record bin_status =
  bs_is_due :: bool
  bs_days_until_due :: string
  bs_collection_date :: string
  bs_has_been_put_out :: bool

record bins_status =
  garden :: bin_status
  waste :: bin_status
  recycling :: bin_status

text \<open>
  \<^verbatim>\<open>getCollectionDate(json.rss.channel[i].item.title)\<close>: a missing channel or item
  is a \<^verbatim>\<open>TypeError\<close> on reading \<^verbatim>\<open>.item\<close> or \<^verbatim>\<open>.title\<close>, a missing title one on
  \<^verbatim>\<open>undefined.split\<close>.
\<close>

definition channel_collection_date :: "xml2json_channel list \<Rightarrow> nat \<Rightarrow> string js_result" where
  "channel_collection_date channels i =
     (case js_index channels i of
       None \<Rightarrow> Inl TypeError
     | Some ch \<Rightarrow>
         (case channel_item ch of
           None \<Rightarrow> Inl TypeError
         | Some it \<Rightarrow>
             (case item_title it of
               None \<Rightarrow> Inl TypeError
             | Some title \<Rightarrow> get_collection_date title)))"

definition bin_status_of :: "time_value \<Rightarrow> string \<Rightarrow> bin_status" where
  "bin_status_of now collection_date =
     \<lparr>bs_is_due = bin_is_due now collection_date,
      bs_days_until_due = get_days_until_due now collection_date,
      bs_collection_date = collection_date, bs_has_been_put_out = False\<rparr>"

definition format_data_index :: "time_value \<Rightarrow> xml2json_channel list \<Rightarrow> bins_status js_result" where
  "format_data_index now channels =
     (case channel_collection_date channels 0 of
       Inl e \<Rightarrow> Inl e
     | Inr g \<Rightarrow>
         (case channel_collection_date channels 1 of
           Inl e \<Rightarrow> Inl e
         | Inr w \<Rightarrow>
             (case channel_collection_date channels 2 of
               Inl e \<Rightarrow> Inl e
             | Inr r \<Rightarrow>
                 Inr \<lparr>garden = bin_status_of now g, waste = bin_status_of now w,
                      recycling = bin_status_of now r\<rparr>)))"

section \<open>The loop as a map and a filter\<close>

text \<open>All results of a list of computations, or the first error.\<close>

fun js_all :: "'a js_result list \<Rightarrow> 'a list js_result" where
  "js_all [] = Inr []"
| "js_all (r # rs) =
     (case r of
       Inl e \<Rightarrow> Inl e
     | Inr x \<Rightarrow> (case js_all rs of Inl e \<Rightarrow> Inl e | Inr xs \<Rightarrow> Inr (x # xs)))"

section \<open>Lemmas\<close>

lemma get_due_bins_loop_eq:
  "get_due_bins_loop now i chans acc =
     (case js_all (map (get_bin_dates now) chans) of
       Inl e \<Rightarrow> Inl e
     | Inr ds \<Rightarrow>
         Inr (acc @ map (\<lambda>(i, d). due_entry now i d) (filter (\<lambda>(i, d). is_due now d) (enumerate i ds))))"
  by (induction chans arbitrary: i acc) (auto split: sum.splits)

lemma js_all_Inl: "Inl e \<in> set rs \<Longrightarrow> \<exists>e'. js_all rs = Inl e'"
  by (induction rs) (auto split: sum.splits)

lemma js_all_Inr: "js_all rs = Inr xs \<Longrightarrow> rs = map Inr xs"
  by (induction rs arbitrary: xs) (auto split: sum.splits)

lemma bin_types_prefix:
  "n \<le> 3 \<Longrightarrow> subseq (map map_index_to_bin_type [0..<n]) [Some ''waste'', Some ''garden'', Some ''recycling'']"
proof -
  assume "n \<le> 3"
  then have "n = 0 \<or> n = 1 \<or> n = 2 \<or> n = 3" by arith
  then show ?thesis by (auto simp: map_index_to_bin_type_def upt_rec)
qed

text \<open>Every bin the Lambda reports is labelled today or tomorrow.\<close>

lemma due_entry_label:
  assumes "ordinary_time now" and "get_bin_dates now bin = Inr dates" and "is_due now dates"
    and "spec_channel bin"
  shows "due_on (due_entry now i dates) = ''today'' \<or> due_on (due_entry now i dates) = ''tomorrow''"
proof -
  obtain t where d: "js_day t = js_day now + 1" and tod: "time_within_day t = 82800000"
    and clip: "\<bar>t\<bar> \<le> 8640000000000000" and iso: "collected_on_iso_string dates = iso_format t"
    using assms by (rule due_bin_instant)
  show ?thesis using get_due_day_tomorrow_instant [OF d tod clip] by (simp add: due_entry_def iso)
qed

text \<open>What a successful \<^verbatim>\<open>getDueBins\<close> is made of.\<close>

lemma get_due_bins_Inr:
  assumes "get_due_bins now channels = Inr bins"
  obtains ds where "map (get_bin_dates now) channels = map Inr ds"
    and "bins = map (\<lambda>(i, d). due_entry now i d) (filter (\<lambda>(i, d). is_due now d) (enumerate 0 ds))"
proof -
  obtain ds where ds: "js_all (map (get_bin_dates now) channels) = Inr ds"
    and bins: "bins = map (\<lambda>(i, d). due_entry now i d) (filter (\<lambda>(i, d). is_due now d) (enumerate 0 ds))"
    using assms get_due_bins_loop_eq [of now 0 channels "[]"]
    by (cases "js_all (map (get_bin_dates now) channels)") (simp_all add: get_due_bins_def)
  show ?thesis using that [OF js_all_Inr [OF ds] bins] .
qed

lemma get_due_bins_labels:
  assumes "ordinary_time now" and "get_due_bins now channels = Inr bins"
    and "list_all spec_channel channels" and "b \<in> set bins"
  shows "due_on b = ''today'' \<or> due_on b = ''tomorrow''"
proof -
  obtain ds where m: "map (get_bin_dates now) channels = map Inr ds"
    and bins: "bins = map (\<lambda>(i, d). due_entry now i d) (filter (\<lambda>(i, d). is_due now d) (enumerate 0 ds))"
    using assms(2) by (rule get_due_bins_Inr)
  obtain i d where id: "(i, d) \<in> set (enumerate 0 ds)" "is_due now d" "b = due_entry now i d"
    using assms(4) unfolding bins by auto
  then have "Inr d \<in> set (map (get_bin_dates now) channels)"
    unfolding m by (auto simp: in_set_enumerate_eq)
  then obtain bin where "bin \<in> set channels" "get_bin_dates now bin = Inr d" by auto
  moreover then have "spec_channel bin" using assms(3) by (simp add: list_all_iff)
  ultimately show ?thesis using due_entry_label [OF assms(1)] id by blast
qed

lemma get_due_bins_titles:
  assumes "length channels \<le> 3" and "get_due_bins now channels = Inr bins" and "b \<in> set bins"
  shows "due_title b \<noteq> None"
proof -
  obtain ds where m: "map (get_bin_dates now) channels = map Inr ds"
    and bins: "bins = map (\<lambda>(i, d). due_entry now i d) (filter (\<lambda>(i, d). is_due now d) (enumerate 0 ds))"
    using assms(2) by (rule get_due_bins_Inr)
  have "length ds = length channels" using m by (metis length_map)
  moreover obtain i d where "(i, d) \<in> set (enumerate 0 ds)" "b = due_entry now i d"
    using assms(3) unfolding bins by auto
  ultimately have "i < 3" "b = due_entry now i d"
    using assms(1) by (auto simp: in_set_enumerate_eq)
  then show ?thesis by (auto simp: due_entry_def map_index_to_bin_type_def)
qed

text \<open>
  The specification's scenario: one channel titled \<^verbatim>\<open>Tue 9 Jul 2018\<close>, read on
  2018-07-08 at 10:00, gives the waste bin due tomorrow.
\<close>

lemma scenario_get_due_bins:
  "get_due_bins 1531044000000 [\<lparr>items = [\<lparr>titles = [''Tue 9 Jul 2018'']\<rparr>]\<rparr>] =
     Inr [\<lparr>due_title = Some ''waste'', due_on = ''tomorrow''\<rparr>]"
proof -
  let ?R = "\<lparr>bin_collection_time_has_passed = is_after (Some 1531177200000)
            (js_new_date (get_full_year 1531044000000) (get_month 1531044000000)
              (get_date 1531044000000) 21 11 0 0),
          collected_on = locale_date_string_gb (Some 1531177200000),
          collected_on_iso_string = iso_format 1531177200000\<rparr>"
  have g: "get_bin_dates 1531044000000 \<lparr>items = [\<lparr>titles = [''Tue 9 Jul 2018'']\<rparr>]\<rparr> = Inr ?R"
    by (simp add: get_bin_dates_def js_index_def parse_title_example to_iso_string_def)
  have o: "ordinary_time 1531044000000" by (simp add: ordinary_time_def ms_per_day_def)
  have y: "1 \<le> year_from_day (js_day 1531177200000)"
    by (simp add: js_day_def ms_per_day_def year_from_day_def day_from_year_def Let_def)
  have dd: "js_day 1531177200000 = js_day 1531044000000 + 1"
    by (simp add: js_day_def ms_per_day_def)
  have "tomorrows_date 1531044000000 = locale_date_string_gb (Some 1531177200000)"
    using gb_eq_days(2) [OF o y] dd by (simp add: tomorrows_date_def)
  then have d: "is_due 1531044000000 ?R" by (simp add: is_due_def)
  have "get_due_day 1531044000000 (iso_format 1531177200000) = ''tomorrow''"
    using get_due_day_tomorrow_instant [OF dd]
    by (simp add: time_within_day_def ms_per_day_def)
  then show ?thesis
    by (simp add: get_due_bins_def g d due_entry_def map_index_to_bin_type_def)
qed


section \<open>One bad channel fails the whole run\<close>

text \<open>
  C11. If \<^verbatim>\<open>getBinDates\<close> throws on any one channel, the Lambda's \<^verbatim>\<open>formatData\<close>
  throws \<^verbatim>\<open>Error("Error formatting data")\<close>: the other channels are not reported.
\<close>

theorem format_data_lambda_one_bad_channel:
  assumes "k < length channels" and "get_bin_dates now (channels ! k) = Inl e"
  shows "format_data_lambda now channels = Inl (JsError ''Error formatting data'')"
proof -
  have "Inl e \<in> set (map (get_bin_dates now) channels)"
    using assms nth_mem [of k "map (get_bin_dates now) channels"] by simp
  then obtain e' where "js_all (map (get_bin_dates now) channels) = Inl e'"
    using js_all_Inl by blast
  then show ?thesis
    using get_due_bins_loop_eq [of now 0 channels "[]"]
    by (simp add: format_data_lambda_def get_due_bins_def)
qed

theorem format_data_lambda_one_bad_channel_witness:
  "0 < length [\<lparr>items = []\<rparr>, \<lparr>items = [\<lparr>titles = [''Tue 9 Jul 2018'']\<rparr>]\<rparr>] \<and>
   get_bin_dates 1531044000000 ([\<lparr>items = []\<rparr>, \<lparr>items = [\<lparr>titles = [''Tue 9 Jul 2018'']\<rparr>]\<rparr>] ! 0) =
     Inl TypeError \<and>
   format_data_lambda 1531044000000 [\<lparr>items = []\<rparr>, \<lparr>items = [\<lparr>titles = [''Tue 9 Jul 2018'']\<rparr>]\<rparr>] =
     Inl (JsError ''Error formatting data'')"
proof -
  have h: "get_bin_dates 1531044000000 ([\<lparr>items = []\<rparr>, \<lparr>items = [\<lparr>titles = [''Tue 9 Jul 2018'']\<rparr>]\<rparr>] ! 0) =
     Inl TypeError"
    by (simp add: get_bin_dates_def js_index_def)
  show ?thesis using h format_data_lambda_one_bad_channel [OF _ h] by simp
qed

section \<open>The due-bin list\<close>

text \<open>
  C12. For a feed of at most three channels, the list \<^verbatim>\<open>getDueBins\<close> returns names its
  bins in the enumeration order waste, garden, recycling, each at most once, and labels
  every bin \<^verbatim>\<open>"today"\<close> or \<^verbatim>\<open>"tomorrow"\<close>.
\<close>

theorem get_due_bins_list:
  assumes "ordinary_time now" and "length channels \<le> 3" and "get_due_bins now channels = Inr bins"
    and "list_all spec_channel channels"
  shows "subseq (map due_title bins) [Some ''waste'', Some ''garden'', Some ''recycling''] \<and>
    (\<forall>b \<in> set bins. due_on b = ''today'' \<or> due_on b = ''tomorrow'')"
proof -
  let ?P = "\<lambda>(i, d). is_due now d"
  obtain ds where m: "map (get_bin_dates now) channels = map Inr ds"
    and bins: "bins = map (\<lambda>(i, d). due_entry now i d) (filter ?P (enumerate 0 ds))"
    using assms(3) by (rule get_due_bins_Inr)
  have len: "length ds = length channels" using m by (metis length_map)
  have t: "map due_title bins = map map_index_to_bin_type (map fst (filter ?P (enumerate 0 ds)))"
    unfolding bins by (induction "filter ?P (enumerate 0 ds)") (auto simp: due_entry_def)
  have "subseq (map fst (filter ?P (enumerate 0 ds))) [0..<length ds]"
    using subseq_map [OF subseq_filter_left [of ?P "enumerate 0 ds"], of fst]
    by (simp only: map_fst_enumerate add_0)
  then have "subseq (map due_title bins) (map map_index_to_bin_type [0..<length ds])"
    unfolding t by (rule subseq_map)
  then have "subseq (map due_title bins) [Some ''waste'', Some ''garden'', Some ''recycling'']"
    using bin_types_prefix [of "length ds"] assms(2) len by (auto intro: subseq_order.trans)
  then show ?thesis using get_due_bins_labels [OF assms(1,3,4)] by blast
qed

theorem get_due_bins_list_witness:
  "ordinary_time 1531044000000 \<and> length [\<lparr>items = [\<lparr>titles = [''Tue 9 Jul 2018'']\<rparr>]\<rparr>] \<le> 3 \<and>
   list_all spec_channel [\<lparr>items = [\<lparr>titles = [''Tue 9 Jul 2018'']\<rparr>]\<rparr>] \<and>
   get_due_bins 1531044000000 [\<lparr>items = [\<lparr>titles = [''Tue 9 Jul 2018'']\<rparr>]\<rparr>] =
     Inr [\<lparr>due_title = Some ''waste'', due_on = ''tomorrow''\<rparr>] \<and>
   subseq (map due_title [\<lparr>due_title = Some ''waste'', due_on = ''tomorrow''\<rparr>])
     [Some ''waste'', Some ''garden'', Some ''recycling'']"
proof -
  have o: "ordinary_time 1531044000000" by (simp add: ordinary_time_def ms_per_day_def)
  have l: "length [\<lparr>items = [\<lparr>titles = [''Tue 9 Jul 2018'']\<rparr>]\<rparr>] \<le> 3" by simp
  have sp: "list_all spec_channel [\<lparr>items = [\<lparr>titles = [''Tue 9 Jul 2018'']\<rparr>]\<rparr>]"
    using scenario_spec_channel by simp
  show ?thesis
    using o l sp scenario_get_due_bins get_due_bins_list [OF o l scenario_get_due_bins sp] by simp
qed

end
