(* ===== verification/Pipeline.thy ===== *)
theory Pipeline
  imports Aggregator
begin

text \<open>
  The orchestration of both sources, with every external call an explicit input and
  every observable action an element of a trace of \<open>effect\<close>s. The HTTP collaborator
  answers the \<open>i\<close>-th request with \<open>fetches i\<close> (\<open>None\<close>: the promise rejects), the
  webhook call with a given outcome; the awaited XML conversion is the function
  \<open>convert\<close> (\<open>Inl\<close>: the reason it rejects with; \<open>Conversion\<close> derives it from
  \<^verbatim>\<open>convertXMLtoJSON\<close>). In \<^verbatim>\<open>src/index.js\<close> the scheduled job runs
  \<^verbatim>\<open>buildResponseData\<close>, which calls \<^verbatim>\<open>handleNewData\<close>, and then calls
  \<^verbatim>\<open>handleNewData\<close> again; in \<^verbatim>\<open>src/lambda/index.js\<close> the handler runs
  \<^verbatim>\<open>getData\<close>, \<^verbatim>\<open>formatData\<close>, \<^verbatim>\<open>buildMessage\<close> and \<^verbatim>\<open>sendWebhook\<close> and reports
  through \<^verbatim>\<open>callback\<close>.
\<close>

section \<open>Effects and collaborators\<close>

datatype effect =
    HttpGet string
  | HttpPost string string
  | ConsoleLog string
  | ConsoleWarn string
  | ConsoleError string

text \<open>A settled \<^verbatim>\<open>fetch\<close> response: \<^verbatim>\<open>ok\<close>, \<^verbatim>\<open>status\<close>, \<^verbatim>\<open>statusText\<close> and the body.\<close>

record http_response =
  resp_ok :: bool
  resp_status :: nat
  resp_status_text :: string
  resp_body :: string

definition is_post :: "effect \<Rightarrow> bool" where
  "is_post e = (case e of HttpPost _ _ \<Rightarrow> True | _ \<Rightarrow> False)"

definition is_get :: "effect \<Rightarrow> bool" where
  "is_get e = (case e of HttpGet _ \<Rightarrow> True | _ \<Rightarrow> False)"

text \<open>How \<^verbatim>\<open>console.log(error)\<close> shows an error.\<close>

definition error_string :: "js_error \<Rightarrow> string" where
  "error_string e =
     (case e of TypeError \<Rightarrow> ''TypeError'' | RangeError \<Rightarrow> ''RangeError: Invalid time value''
      | JsError s \<Rightarrow> ''Error: '' @ s)"

section \<open>handleNewData and webhookRequest (src/index.js)\<close>

text \<open>\<^verbatim>\<open>webhookRequest\<close>: \<^verbatim>\<open>fetch(webhookKey, {method: "POST", ...})\<close>; an undefined key
  makes \<^verbatim>\<open>fetch\<close> reject before any request.\<close>

definition webhook_request ::
  "string option \<Rightarrow> http_response option \<Rightarrow> string \<Rightarrow> effect list \<times> unit js_result" where
  "webhook_request webhook_key outcome value1 =
     (case webhook_key of
       None \<Rightarrow> ([], Inl TypeError)
     | Some url \<Rightarrow>
         (case outcome of
           None \<Rightarrow> ([HttpPost url value1], Inl (JsError ''request to webhook failed''))
         | Some r \<Rightarrow>
             if \<not> resp_ok r then ([HttpPost url value1, ConsoleError ''Error sending webhook''], Inr ())
             else ([HttpPost url value1, ConsoleLog (resp_body r)], Inr ())))"

text \<open>\<^verbatim>\<open>Object.entries(data.bins)\<close>, in the order of the object literal.\<close>

definition bin_entries :: "bins_status \<Rightarrow> (string \<times> bin_status) list" where
  "bin_entries data = [(''garden'', garden data), (''waste'', waste data), (''recycling'', recycling data)]"

text \<open>The \<^verbatim>\<open>forEach\<close> that pushes names into \<^verbatim>\<open>todaysBins\<close> and \<^verbatim>\<open>tomorrowsBins\<close>
  and warns about any other label; the result is (today, tomorrow, warnings).\<close>

fun sort_bins :: "(string \<times> bin_status) list \<Rightarrow> string list \<times> string list \<times> effect list" where
  "sort_bins [] = ([], [], [])"
| "sort_bins ((name, st) # rest) =
     (let (todays_bins, tomorrows_bins, warnings) = sort_bins rest;
          label = map js_lower (bs_days_until_due st)
      in if \<not> bs_is_due st then (todays_bins, tomorrows_bins, warnings)
         else if label = ''today'' then (name # todays_bins, tomorrows_bins, warnings)
         else if label = ''tomorrow'' then (todays_bins, name # tomorrows_bins, warnings)
         else (todays_bins, tomorrows_bins,
               ConsoleWarn (''Unrecognised days until bin due string: '' @ label) # warnings))"

definition index_message :: "string list \<Rightarrow> string list \<Rightarrow> string" where
  "index_message todays_bins tomorrows_bins =
     (if 0 < length todays_bins \<and> 0 < length tomorrows_bins
      then create_message todays_bins ''today'' @ '' '' @ create_message tomorrows_bins ''tomorrow''
      else create_message todays_bins ''today'' @ create_message tomorrows_bins ''tomorrow'')"

definition handle_new_data :: "string option \<Rightarrow> http_response option \<Rightarrow> bins_status \<Rightarrow> effect list" where
  "handle_new_data webhook_key outcome data =
     (if \<not> bs_is_due (garden data) \<and> \<not> bs_is_due (waste data) \<and> \<not> bs_is_due (recycling data)
      then [ConsoleLog ''No bins are being collected today or tomorrow'']
      else
        (let (todays_bins, tomorrows_bins, warnings) = sort_bins (bin_entries data);
             message = index_message todays_bins tomorrows_bins;
             (effs, r) = webhook_request webhook_key outcome message
         in warnings @ [ConsoleLog message] @ effs @
            (case r of Inl e \<Rightarrow> [ConsoleError (error_string e)] | Inr _ \<Rightarrow> [])))"

section \<open>buildResponseData and the scheduled job (src/index.js)\<close>

record response_data =
  rd_updated_on :: string
  rd_bins :: bins_status

text \<open>The feed arrives converted; \<^verbatim>\<open>fetch\<close> and \<^verbatim>\<open>XMLparser.toJson\<close> are not modelled.\<close>

definition build_response_data ::
  "string option \<Rightarrow> http_response option \<Rightarrow> time_value \<Rightarrow> xml2json_channel list \<Rightarrow>
   effect list \<times> response_data js_result" where
  "build_response_data webhook_key outcome now channels =
     (case format_data_index now channels of
       Inl e \<Rightarrow> ([], Inl e)
     | Inr formatted \<Rightarrow>
         (let new_response = \<lparr>rd_updated_on = iso_format now, rd_bins = formatted\<rparr>
          in (ConsoleLog ''Fetched new data:'' # handle_new_data webhook_key outcome formatted,
              Inr new_response)))"

text \<open>\<^verbatim>\<open>schedule.scheduleJob('0 6,18 * * *', ...)\<close>: one run, with the outcomes of the
  two webhook calls it may make.\<close>

definition scheduled_job ::
  "string option \<Rightarrow> http_response option \<Rightarrow> http_response option \<Rightarrow> time_value \<Rightarrow>
   xml2json_channel list \<Rightarrow> effect list" where
  "scheduled_job webhook_key outcome1 outcome2 now channels =
     ConsoleLog (''Checking bin data at '' @ iso_format now) #
     (case build_response_data webhook_key outcome1 now channels of
       (effs, Inl e) \<Rightarrow> effs @ [ConsoleLog (error_string e)]
     | (effs, Inr data) \<Rightarrow> effs @ handle_new_data webhook_key outcome2 (rd_bins data))"

section \<open>getData, sendWebhook and the handler (src/lambda/index.js)\<close>

definition data_url :: string where
  "data_url = ''http://www.newport.gov.uk/model/ncc/services/myNewportService.cfc?method=getPropertyData&uprn=100100692236&group=Waste+Collection''"

text \<open>
  The two retries \<^verbatim>\<open>if (!response.ok) response = await fetch(dataURL)\<close>: \<open>k\<close> retries
  left, \<open>i\<close> requests made so far; the result is the number of requests and the final
  response (a rejected retry rejects \<^verbatim>\<open>getData\<close>).
\<close>

fun refetch ::
  "nat \<Rightarrow> nat \<Rightarrow> (nat \<Rightarrow> http_response option) \<Rightarrow> http_response \<Rightarrow> nat \<times> http_response js_result" where
  "refetch 0 i fetches response = (i, Inr response)"
| "refetch (Suc k) i fetches response =
     (if resp_ok response then (i, Inr response)
      else (case fetches i of
             None \<Rightarrow> (Suc i, Inl (JsError ''request to Newport failed''))
           | Some r \<Rightarrow> refetch k (Suc i) fetches r))"

text \<open>
  \<^verbatim>\<open>response.text()\<close> (node-fetch 2, \<^verbatim>\<open>Body.consumeBody\<close>): the first call reads the
  body and marks it used; a call on a used body rejects with
  \<^verbatim>\<open>TypeError: body used already\<close>. The flag is the response's \<^verbatim>\<open>bodyUsed\<close>.
\<close>

definition response_text :: "http_response \<Rightarrow> bool \<Rightarrow> string js_result \<times> bool" where
  "response_text r body_used =
     (if body_used then (Inl TypeError, True) else (Inr (resp_body r), True))"

text \<open>
  The \<^verbatim>\<open>try\<close> of \<^verbatim>\<open>getData\<close> (lines 46 to 49) and its \<^verbatim>\<open>catch\<close> (lines 49 to 55)
  read the same response: \<^verbatim>\<open>xml = await response.text(); json = await
  convertXMLtoJSON(xml)\<close>. \<open>convert\<close> is the awaited conversion: the document, or the
  reason its promise rejects with.
\<close>

definition read_and_convert ::
  "(string \<Rightarrow> xml2js_channel list js_result) \<Rightarrow> http_response \<Rightarrow> bool \<Rightarrow>
   xml2js_channel list js_result \<times> bool" where
  "read_and_convert convert r body_used =
     (case response_text r body_used of
       (Inl e, used) \<Rightarrow> (Inl e, used)
     | (Inr xml, used) \<Rightarrow> (convert xml, used))"

definition get_data ::
  "(nat \<Rightarrow> http_response option) \<Rightarrow> (string \<Rightarrow> xml2js_channel list js_result) \<Rightarrow>
   effect list \<times> xml2js_channel list js_result" where
  "get_data fetches convert =
     (case fetches 0 of
       None \<Rightarrow> ([HttpGet data_url], Inl (JsError ''request to Newport failed''))
     | Some response \<Rightarrow>
         (case refetch 2 1 fetches response of
           (n, Inl e) \<Rightarrow> (replicate n (HttpGet data_url), Inl e)
         | (n, Inr r) \<Rightarrow>
             (let gets = replicate n (HttpGet data_url)
              in if \<not> resp_ok r then
                   (gets, Inl (JsError (digits_of_nat (resp_status r) @ '': '' @ resp_status_text r @
                      '' '' @ [CHR 0x0A] @ ''Error when trying fetch Newport Council data'')))
                 else
                   (case read_and_convert convert r False of
                     (Inr json, used) \<Rightarrow> (gets, Inr json)
                   | (Inl error, used) \<Rightarrow>
                       (gets @ [ConsoleError ''Error parsing response data'',
                                ConsoleLog ''Trying to fetch data again''],
                        fst (read_and_convert convert r used))))))"

text \<open>\<^verbatim>\<open>sendWebhook\<close>: the logged body is \<^verbatim>\<open>JSON.stringify({value1: message})\<close> (the message needs no escaping).\<close>

definition send_webhook ::
  "string \<Rightarrow> string option \<Rightarrow> http_response option \<Rightarrow> effect list \<times> unit js_result" where
  "send_webhook message webhook_key outcome =
     (let logged = [ConsoleLog (''{'' @ [CHR 0x22] @ ''value1'' @ [CHR 0x22] @ '':'' @ [CHR 0x22] @
                                message @ [CHR 0x22] @ ''}'')]
      in case webhook_key of
           None \<Rightarrow> (logged, Inl TypeError)
         | Some url \<Rightarrow>
             (case outcome of
               None \<Rightarrow> (logged @ [HttpPost url message], Inl (JsError ''request to webhook failed''))
             | Some r \<Rightarrow>
                 if \<not> resp_ok r then
                   (logged @ [HttpPost url message],
                    Inl (JsError (digits_of_nat (resp_status r) @ '': '' @ resp_status_text r @
                      '' '' @ [CHR 0x0A] @ ''Error sending webhook request'')))
                 else (logged @ [HttpPost url message], Inr ())))"

datatype callback = CallbackOk string | CallbackError js_error

definition handler ::
  "string option \<Rightarrow> (nat \<Rightarrow> http_response option) \<Rightarrow> (string \<Rightarrow> xml2js_channel list js_result) \<Rightarrow>
   http_response option \<Rightarrow> time_value \<Rightarrow> effect list \<times> callback" where
  "handler webhook_key fetches convert outcome now =
     (let effs0 = (if webhook_key = None
                   then [ConsoleWarn ''No WEBHOOK_URL provided, unable to send IFTTT webhook POST'']
                   else []) @ [ConsoleLog (''Webhook key: '' @ js_template_str webhook_key)];
          (effs1, data) = get_data fetches convert
      in case data of
           Inl e \<Rightarrow> (effs0 @ effs1, CallbackError e)
         | Inr json \<Rightarrow>
             (case format_data_lambda now json of
               Inl e \<Rightarrow> (effs0 @ effs1 @ [ConsoleError ''Error formatting data''], CallbackError e)
             | Inr formatted \<Rightarrow>
                 if due_bins formatted = [] then (effs0 @ effs1, CallbackOk ''No bins due today or tomorrow'')
                 else
                   (case build_message (due_bins formatted) of
                     Inl e \<Rightarrow> (effs0 @ effs1 @ [ConsoleLog ''Due bin/s: ''], CallbackError e)
                   | Inr m \<Rightarrow>
                       (let success_msg = ''Bin Bot alert: '' @ js_template_str m;
                            (effs2, r) = send_webhook success_msg webhook_key outcome
                        in (effs0 @ effs1 @ [ConsoleLog ''Due bin/s: ''] @ effs2,
                            case r of Inl e \<Rightarrow> CallbackError e | Inr _ \<Rightarrow> CallbackOk success_msg)))))"

section \<open>Lemmas\<close>

lemma refetch_count: "refetch k i fetches r = (n, x) \<Longrightarrow> i \<le> n \<and> n \<le> i + k"
  by (induction k arbitrary: i r) (fastforce split: if_splits option.splits)+

text \<open>The \<^verbatim>\<open>try\<close> reads the fresh body; the \<^verbatim>\<open>catch\<close> finds it consumed.\<close>

lemma read_and_convert_fresh [simp]:
  "read_and_convert convert r False = (convert (resp_body r), True)"
  by (simp add: read_and_convert_def response_text_def)

lemma read_and_convert_used [simp]:
  "read_and_convert convert r True = (Inl TypeError, True)"
  by (simp add: read_and_convert_def response_text_def)

lemma get_data_no_post: "filter is_post (fst (get_data fetches convert)) = []"
  by (auto simp: get_data_def is_post_def Let_def split: option.splits prod.splits sum.splits)

lemma send_webhook_posts:
  "filter is_post (fst (send_webhook message webhook_key outcome)) =
     (case webhook_key of None \<Rightarrow> [] | Some url \<Rightarrow> [HttpPost url message])"
  by (auto simp: send_webhook_def is_post_def Let_def split: option.splits)

text \<open>The posts of a handler run are those of \<^verbatim>\<open>sendWebhook\<close>, if it is reached.\<close>

lemma handler_posts:
  "filter is_post (fst (handler webhook_key fetches convert outcome now)) =
     (case snd (get_data fetches convert) of
       Inl e \<Rightarrow> []
     | Inr json \<Rightarrow>
         (case format_data_lambda now json of
           Inl e \<Rightarrow> []
         | Inr formatted \<Rightarrow>
             if due_bins formatted = [] then []
             else
               (case build_message (due_bins formatted) of
                 Inl e \<Rightarrow> []
               | Inr m \<Rightarrow> filter is_post (fst (send_webhook (''Bin Bot alert: '' @ js_template_str m)
                           webhook_key outcome)))))"
  using get_data_no_post [of fetches convert]
  by (auto simp: handler_def Let_def is_post_def split: prod.splits sum.splits)

lemma webhook_request_posts:
  "filter is_post (fst (webhook_request webhook_key outcome value1)) =
     (case webhook_key of None \<Rightarrow> [] | Some url \<Rightarrow> [HttpPost url value1])"
  by (auto simp: webhook_request_def is_post_def split: option.splits)

lemma sort_bins_no_post: "filter is_post (snd (snd (sort_bins xs))) = []"
  by (induction xs rule: sort_bins.induct) (auto simp: Let_def is_post_def split: prod.splits)

lemma handle_new_data_posts:
  "filter is_post (handle_new_data webhook_key outcome data) =
     (if \<not> bs_is_due (garden data) \<and> \<not> bs_is_due (waste data) \<and> \<not> bs_is_due (recycling data) then []
      else case webhook_key of
        None \<Rightarrow> []
      | Some url \<Rightarrow> [HttpPost url (index_message (fst (sort_bins (bin_entries data)))
                                  (fst (snd (sort_bins (bin_entries data)))))])"
proof -
  obtain td tm ws where sb: "sort_bins (bin_entries data) = (td, tm, ws)"
    by (cases "sort_bins (bin_entries data)") auto
  obtain effs r where wr: "webhook_request webhook_key outcome (index_message td tm) = (effs, r)"
    by fastforce
  have e: "filter is_post effs = (case webhook_key of None \<Rightarrow> [] | Some url \<Rightarrow> [HttpPost url (index_message td tm)])"
    using webhook_request_posts [of webhook_key outcome "index_message td tm"] wr by simp
  have w: "filter is_post ws = []" using sort_bins_no_post [of "bin_entries data"] sb by simp
  show ?thesis
    unfolding sb fst_conv snd_conv
    using e w sb wr by (auto simp: handle_new_data_def is_post_def split: sum.splits)
qed

text \<open>Every label \<^verbatim>\<open>getDaysUntilDue\<close> produces, lower-cased, differs from \<^verbatim>\<open>"tomorrow"\<close>.\<close>

lemma distance_words_space: "CHR '' '' \<in> set (distance_in_words_strict_days a b)"
  by (auto simp: distance_in_words_strict_days_def x_days_def split: option.splits)

lemma get_days_until_due_lower: "map js_lower (get_days_until_due now s) \<noteq> ''tomorrow''"
proof -
  let ?w = "distance_in_words_strict_days (Some now) (iso_parse s)"
  have sp: "CHR '' '' \<in> set (map js_lower ?w)"
    using distance_words_space [of "Some now" "iso_parse s"]
    by (force simp: js_lower_def)
  have "get_days_until_due now s = ''Today'' \<or> get_days_until_due now s = ?w"
    using days_first_field_not_one [of "Some now" "iso_parse s"]
    by (simp add: get_days_until_due_def Let_def)
  then show ?thesis
  proof
    assume "get_days_until_due now s = ''Today''"
    then show ?thesis by (simp add: js_lower_def char_of_def bit_0)
  next
    assume "get_days_until_due now s = ?w"
    then show ?thesis using sp by auto
  qed
qed

lemma sort_bins_no_tomorrow:
  "(\<forall>(n, st) \<in> set xs. map js_lower (bs_days_until_due st) \<noteq> ''tomorrow'') \<Longrightarrow>
   fst (snd (sort_bins xs)) = []"
  by (induction xs rule: sort_bins.induct) (auto simp: Let_def split: prod.splits)

lemma format_data_index_Inr:
  assumes "format_data_index now channels = Inr data"
  obtains g w r where "data = \<lparr>garden = bin_status_of now g, waste = bin_status_of now w,
    recycling = bin_status_of now r\<rparr>"
  using assms by (auto simp: format_data_index_def split: sum.splits intro: that)

section \<open>The Lambda notifies at most once\<close>

text \<open>
  C13. Whatever the collaborators answer, one run of the Lambda handler posts to the
  webhook at most once.
\<close>

theorem handler_at_most_one_post:
  "length (filter is_post (fst (handler webhook_key fetches convert outcome now))) \<le> 1"
  unfolding handler_posts
  by (auto simp: send_webhook_posts split: sum.splits option.splits)

text \<open>
  C14. When the feed is fetched and converted and no bin is due, the handler posts
  nothing and answers \<^verbatim>\<open>"No bins due today or tomorrow"\<close>.
\<close>

theorem handler_nothing_due:
  assumes "get_data fetches convert = (effs, Inr json)" and "format_data_lambda now json = Inr formatted"
    and "due_bins formatted = []"
  shows "filter is_post (fst (handler webhook_key fetches convert outcome now)) = [] \<and>
    snd (handler webhook_key fetches convert outcome now) = CallbackOk ''No bins due today or tomorrow''"
  using assms handler_posts [of webhook_key fetches convert outcome now]
  by (simp add: handler_def Let_def)

theorem handler_nothing_due_witness:
  "get_data (\<lambda>i. Some \<lparr>resp_ok = True, resp_status = 200, resp_status_text = ''OK'', resp_body = ''<rss/>''\<rparr>)
     (\<lambda>xml. Inr []) = ([HttpGet data_url], Inr []) \<and>
   format_data_lambda 1531044000000 [] = Inr \<lparr>updated_on = to_date_string (Some 1531044000000), due_bins = []\<rparr> \<and>
   due_bins \<lparr>updated_on = to_date_string (Some 1531044000000), due_bins = []\<rparr> = [] \<and>
   filter is_post (fst (handler (Some ''https://maker.ifttt.com/hook'')
     (\<lambda>i. Some \<lparr>resp_ok = True, resp_status = 200, resp_status_text = ''OK'', resp_body = ''<rss/>''\<rparr>)
     (\<lambda>xml. Inr []) None 1531044000000)) = [] \<and>
   snd (handler (Some ''https://maker.ifttt.com/hook'')
     (\<lambda>i. Some \<lparr>resp_ok = True, resp_status = 200, resp_status_text = ''OK'', resp_body = ''<rss/>''\<rparr>)
     (\<lambda>xml. Inr []) None 1531044000000) = CallbackOk ''No bins due today or tomorrow''"
proof -
  have g: "get_data (\<lambda>i. Some \<lparr>resp_ok = True, resp_status = 200, resp_status_text = ''OK'', resp_body = ''<rss/>''\<rparr>)
     (\<lambda>xml. Inr []) = ([HttpGet data_url], Inr [])"
    by (simp add: get_data_def numeral_2_eq_2)
  have f: "format_data_lambda 1531044000000 [] = Inr \<lparr>updated_on = to_date_string (Some 1531044000000), due_bins = []\<rparr>"
    by (simp add: format_data_lambda_def get_due_bins_def)
  show ?thesis using g f handler_nothing_due [OF g f] by simp
qed

section \<open>The Lambda's notification\<close>

text \<open>
  The specification's scenario, run through the Lambda: one channel titled
  \<^verbatim>\<open>Tue 9 Jul 2018\<close>, read on 2018-07-08 at 10:00, gives the waste bin due tomorrow.
\<close>

lemma scenario_format_data_lambda:
  "format_data_lambda 1531044000000 [\<lparr>items = [\<lparr>titles = [''Tue 9 Jul 2018'']\<rparr>]\<rparr>] =
     Inr \<lparr>updated_on = to_date_string (Some 1531044000000),
          due_bins = [\<lparr>due_title = Some ''waste'', due_on = ''tomorrow''\<rparr>]\<rparr>"
  by (simp add: format_data_lambda_def scenario_get_due_bins)

lemma scenario_message:
  "build_message [\<lparr>due_title = Some ''waste'', due_on = ''tomorrow''\<rparr>] =
     Inr (Some ''Waste bin is being collected tomorrow.'')"
  by (simp add: build_message_def build_message_for_day_Cons is_word_char_def is_digit_def
      js_upper_def char_of_def bit_0)

text \<open>
  C15. With a webhook key set, a feed of at most three channels and at least one bin
  due, the handler posts exactly once, and the message is \<^verbatim>\<open>"Bin Bot alert: "\<close>
  followed by the sentence \<^verbatim>\<open>buildMessage\<close> composes (never \<^verbatim>\<open>undefined\<close>).
\<close>

theorem handler_posts_sentence:
  assumes "ordinary_time now" and "get_data fetches convert = (effs, Inr json)"
    and "length json \<le> 3" and "format_data_lambda now json = Inr formatted"
    and "due_bins formatted \<noteq> []" and "webhook_key = Some url" and "list_all spec_channel json"
  shows "\<exists>m. build_message (due_bins formatted) = Inr (Some m) \<and>
    filter is_post (fst (handler webhook_key fetches convert outcome now)) =
      [HttpPost url (''Bin Bot alert: '' @ m)]"
proof -
  have gd: "get_due_bins now json = Inr (due_bins formatted)"
    using assms(4) by (auto simp: format_data_lambda_def split: sum.splits)
  obtain m where m: "build_message (due_bins formatted) = Inr (Some m)"
    using build_message_defined [OF assms(5)] get_due_bins_titles [OF assms(3) gd]
      get_due_bins_labels [OF assms(1) gd assms(7)] by blast
  have "filter is_post (fst (handler webhook_key fetches convert outcome now)) =
      [HttpPost url (''Bin Bot alert: '' @ m)]"
    using assms(2,4,5,6) m handler_posts [of webhook_key fetches convert outcome now]
    by (simp add: send_webhook_posts js_template_str_def)
  then show ?thesis using m by blast
qed

theorem handler_posts_sentence_witness:
  "ordinary_time 1531044000000 \<and> list_all spec_channel [\<lparr>items = [\<lparr>titles = [''Tue 9 Jul 2018'']\<rparr>]\<rparr>] \<and>
   get_data (\<lambda>i. Some \<lparr>resp_ok = True, resp_status = 200, resp_status_text = ''OK'', resp_body = ''<rss/>''\<rparr>)
     (\<lambda>xml. Inr [\<lparr>items = [\<lparr>titles = [''Tue 9 Jul 2018'']\<rparr>]\<rparr>]) =
     ([HttpGet data_url], Inr [\<lparr>items = [\<lparr>titles = [''Tue 9 Jul 2018'']\<rparr>]\<rparr>]) \<and>
   length [\<lparr>items = [\<lparr>titles = [''Tue 9 Jul 2018'']\<rparr>]\<rparr>] \<le> 3 \<and>
   format_data_lambda 1531044000000 [\<lparr>items = [\<lparr>titles = [''Tue 9 Jul 2018'']\<rparr>]\<rparr>] =
     Inr \<lparr>updated_on = to_date_string (Some 1531044000000),
          due_bins = [\<lparr>due_title = Some ''waste'', due_on = ''tomorrow''\<rparr>]\<rparr> \<and>
   [\<lparr>due_title = Some ''waste'', due_on = ''tomorrow''\<rparr>] \<noteq> [] \<and>
   filter is_post (fst (handler (Some ''https://maker.ifttt.com/hook'')
     (\<lambda>i. Some \<lparr>resp_ok = True, resp_status = 200, resp_status_text = ''OK'', resp_body = ''<rss/>''\<rparr>)
     (\<lambda>xml. Inr [\<lparr>items = [\<lparr>titles = [''Tue 9 Jul 2018'']\<rparr>]\<rparr>]) None 1531044000000)) =
     [HttpPost ''https://maker.ifttt.com/hook'' ''Bin Bot alert: Waste bin is being collected tomorrow.'']"
proof -
  have o: "ordinary_time 1531044000000" by (simp add: ordinary_time_def ms_per_day_def)
  have g: "get_data (\<lambda>i. Some \<lparr>resp_ok = True, resp_status = 200, resp_status_text = ''OK'', resp_body = ''<rss/>''\<rparr>)
     (\<lambda>xml. Inr [\<lparr>items = [\<lparr>titles = [''Tue 9 Jul 2018'']\<rparr>]\<rparr>]) =
     ([HttpGet data_url], Inr [\<lparr>items = [\<lparr>titles = [''Tue 9 Jul 2018'']\<rparr>]\<rparr>])"
    by (simp add: get_data_def numeral_2_eq_2)
  have l: "length [\<lparr>items = [\<lparr>titles = [''Tue 9 Jul 2018'']\<rparr>]\<rparr>] \<le> 3" by simp
  have sp: "list_all spec_channel [\<lparr>items = [\<lparr>titles = [''Tue 9 Jul 2018'']\<rparr>]\<rparr>]"
    using scenario_spec_channel by simp
  have ne: "due_bins \<lparr>updated_on = to_date_string (Some 1531044000000),
          due_bins = [\<lparr>due_title = Some ''waste'', due_on = ''tomorrow''\<rparr>]\<rparr> \<noteq> []" by simp
  show ?thesis
    using handler_posts_sentence [where webhook_key = "Some ''https://maker.ifttt.com/hook''"
        and url = "''https://maker.ifttt.com/hook''" and outcome = None,
        OF o g l scenario_format_data_lambda ne refl sp]
      o g scenario_format_data_lambda scenario_message scenario_spec_channel
    by simp
qed


section \<open>index.js: the scheduled job\<close>

text \<open>
  The specification's scenario read by \<^verbatim>\<open>src/index.js\<close>: three channels titled
  \<^verbatim>\<open>Tue 9 Jul 2018\<close>, read on 2018-07-08 at 10:00. Every bin is due, and labelled
  \<^verbatim>\<open>"1 day"\<close>.
\<close>

lemma scenario_bin_status:
  "bs_is_due (bin_status_of 1531044000000 (iso_format 1531177200000)) \<and>
   bs_days_until_due (bin_status_of 1531044000000 (iso_format 1531177200000)) = ''1 day''"
proof -
  have o: "ordinary_time 1531044000000" by (simp add: ordinary_time_def ms_per_day_def)
  have y: "1 \<le> year_from_day (js_day 1531177200000)"
    by (simp add: js_day_def ms_per_day_def year_from_day_def day_from_year_def Let_def)
  have dd: "js_day 1531177200000 = js_day 1531044000000 + 1"
    by (simp add: js_day_def ms_per_day_def)
  have tod: "time_within_day 1531177200000 = 82800000"
    by (simp add: time_within_day_def ms_per_day_def)
  have p: "v8_parse (iso_format 1531177200000) = Some 1531177200000"
    by (rule v8_parse_iso_format) simp
  have p': "iso_parse (iso_format 1531177200000) = Some 1531177200000"
    by (rule iso_parse_format) simp
  have "locale_date_string_gb (add_days (Some 1531044000000) 1) = locale_date_string_gb (Some 1531177200000)"
    using gb_eq_days(2) [OF o y] dd by simp
  then have due: "bin_is_due 1531044000000 (iso_format 1531177200000)"
    by (simp add: bin_is_due_def Let_def p)
  have "distance_days 1531044000000 1531177200000 = 1"
    using distance_days_tomorrow [OF dd tod] by (simp add: time_within_day_def ms_per_day_def)
  then have "get_days_until_due 1531044000000 (iso_format 1531177200000) = ''1 day''"
    by (simp add: get_days_until_due_def distance_in_words_strict_days_def p' x_days_def js_index_def)
  then show ?thesis using due by (simp add: bin_status_of_def)
qed

lemma scenario_format_data_index:
  "format_data_index 1531044000000
     (replicate 3 \<lparr>channel_item = Some \<lparr>item_title = Some ''Tue 9 Jul 2018''\<rparr>\<rparr>) =
   Inr \<lparr>garden = bin_status_of 1531044000000 (iso_format 1531177200000),
        waste = bin_status_of 1531044000000 (iso_format 1531177200000),
        recycling = bin_status_of 1531044000000 (iso_format 1531177200000)\<rparr>"
proof -
  have "get_collection_date ''Tue 9 Jul 2018'' = Inr (iso_format 1531177200000)"
    by (simp add: get_collection_date_def parse_title_example to_iso_string_def)
  then show ?thesis
    by (simp add: format_data_index_def channel_collection_date_def js_index_def numeral_3_eq_3)
qed

text \<open>
  C16. In \<^verbatim>\<open>src/index.js\<close> the group of bins due tomorrow is always empty: no label
  \<^verbatim>\<open>getDaysUntilDue\<close> produces reads \<^verbatim>\<open>"tomorrow"\<close> once lower-cased, so
  \<^verbatim>\<open>handleNewData\<close> never pushes a bin into \<^verbatim>\<open>tomorrowsBins\<close>.
\<close>

theorem format_data_index_no_tomorrow_group:
  assumes "format_data_index now channels = Inr data"
  shows "fst (snd (sort_bins (bin_entries data))) = []"
proof -
  obtain g w r where d: "data = \<lparr>garden = bin_status_of now g, waste = bin_status_of now w,
      recycling = bin_status_of now r\<rparr>"
    using assms by (rule format_data_index_Inr)
  show ?thesis
    by (rule sort_bins_no_tomorrow)
      (simp add: d bin_entries_def bin_status_of_def get_days_until_due_lower)
qed

theorem format_data_index_no_tomorrow_group_witness:
  "format_data_index 1531044000000
     (replicate 3 \<lparr>channel_item = Some \<lparr>item_title = Some ''Tue 9 Jul 2018''\<rparr>\<rparr>) =
   Inr \<lparr>garden = bin_status_of 1531044000000 (iso_format 1531177200000),
        waste = bin_status_of 1531044000000 (iso_format 1531177200000),
        recycling = bin_status_of 1531044000000 (iso_format 1531177200000)\<rparr> \<and>
   fst (snd (sort_bins (bin_entries \<lparr>garden = bin_status_of 1531044000000 (iso_format 1531177200000),
        waste = bin_status_of 1531044000000 (iso_format 1531177200000),
        recycling = bin_status_of 1531044000000 (iso_format 1531177200000)\<rparr>))) = []"
  using scenario_format_data_index format_data_index_no_tomorrow_group [OF scenario_format_data_index]
  by simp

text \<open>
  C17. A run of the scheduled job of \<^verbatim>\<open>src/index.js\<close> in which some bin is due posts
  the same message to the webhook twice: \<^verbatim>\<open>buildResponseData\<close> calls
  \<^verbatim>\<open>handleNewData\<close>, and the job calls it again on the returned data.
\<close>

theorem scheduled_job_posts_twice:
  assumes "format_data_index now channels = Inr data"
    and "bs_is_due (garden data) \<or> bs_is_due (waste data) \<or> bs_is_due (recycling data)"
    and "webhook_key = Some url"
  shows "filter is_post (scheduled_job webhook_key outcome1 outcome2 now channels) =
    [HttpPost url (index_message (fst (sort_bins (bin_entries data))) (fst (snd (sort_bins (bin_entries data))))),
     HttpPost url (index_message (fst (sort_bins (bin_entries data))) (fst (snd (sort_bins (bin_entries data)))))]"
  using assms handle_new_data_posts [of webhook_key outcome1 data]
    handle_new_data_posts [of webhook_key outcome2 data]
  by (auto simp: scheduled_job_def build_response_data_def is_post_def)

theorem scheduled_job_posts_twice_witness:
  "format_data_index 1531044000000
     (replicate 3 \<lparr>channel_item = Some \<lparr>item_title = Some ''Tue 9 Jul 2018''\<rparr>\<rparr>) =
   Inr \<lparr>garden = bin_status_of 1531044000000 (iso_format 1531177200000),
        waste = bin_status_of 1531044000000 (iso_format 1531177200000),
        recycling = bin_status_of 1531044000000 (iso_format 1531177200000)\<rparr> \<and>
   bs_is_due (bin_status_of 1531044000000 (iso_format 1531177200000)) \<and>
   length (filter is_post (scheduled_job (Some ''https://maker.ifttt.com/hook'') None None 1531044000000
     (replicate 3 \<lparr>channel_item = Some \<lparr>item_title = Some ''Tue 9 Jul 2018''\<rparr>\<rparr>))) = 2"
  using scenario_format_data_index scenario_bin_status
    scheduled_job_posts_twice [OF scenario_format_data_index, of "Some ''https://maker.ifttt.com/hook''"
      "''https://maker.ifttt.com/hook''" None None]
  by simp

text \<open>
  C18. When every bin due is labelled something other than \<^verbatim>\<open>"today"\<close> (a bin due
  tomorrow is labelled \<^verbatim>\<open>"1 day"\<close> before 23:00), \<^verbatim>\<open>handleNewData\<close> of
  \<^verbatim>\<open>src/index.js\<close> warns about each one and posts the empty message to the webhook.
\<close>

theorem handle_new_data_empty_message:
  assumes "format_data_index now channels = Inr data"
    and "bs_is_due (garden data) \<or> bs_is_due (waste data) \<or> bs_is_due (recycling data)"
    and "\<forall>st \<in> set [garden data, waste data, recycling data].
           bs_is_due st \<longrightarrow> map js_lower (bs_days_until_due st) \<noteq> ''today''"
    and "webhook_key = Some url"
  shows "filter is_post (handle_new_data webhook_key outcome data) = [HttpPost url '''']"
proof -
  have td: "fst (sort_bins (bin_entries data)) = []"
    using assms(3) by (simp add: bin_entries_def Let_def split: prod.splits)
  obtain g w r where d: "data = \<lparr>garden = bin_status_of now g, waste = bin_status_of now w,
      recycling = bin_status_of now r\<rparr>"
    using assms(1) by (rule format_data_index_Inr)
  have tm: "fst (snd (sort_bins (bin_entries data))) = []"
    by (rule sort_bins_no_tomorrow)
      (simp add: d bin_entries_def bin_status_of_def get_days_until_due_lower)
  show ?thesis
    using assms(2,4) td tm handle_new_data_posts [of webhook_key outcome data]
    by (simp add: index_message_def create_message_def)
qed

theorem handle_new_data_empty_message_witness:
  "format_data_index 1531044000000
     (replicate 3 \<lparr>channel_item = Some \<lparr>item_title = Some ''Tue 9 Jul 2018''\<rparr>\<rparr>) =
   Inr \<lparr>garden = bin_status_of 1531044000000 (iso_format 1531177200000),
        waste = bin_status_of 1531044000000 (iso_format 1531177200000),
        recycling = bin_status_of 1531044000000 (iso_format 1531177200000)\<rparr> \<and>
   bs_is_due (bin_status_of 1531044000000 (iso_format 1531177200000)) \<and>
   map js_lower (bs_days_until_due (bin_status_of 1531044000000 (iso_format 1531177200000))) \<noteq> ''today'' \<and>
   filter is_post (handle_new_data (Some ''https://maker.ifttt.com/hook'') None
     \<lparr>garden = bin_status_of 1531044000000 (iso_format 1531177200000),
      waste = bin_status_of 1531044000000 (iso_format 1531177200000),
      recycling = bin_status_of 1531044000000 (iso_format 1531177200000)\<rparr>) =
   [HttpPost ''https://maker.ifttt.com/hook'' '''']"
proof -
  have l: "map js_lower (bs_days_until_due (bin_status_of 1531044000000 (iso_format 1531177200000))) \<noteq> ''today''"
    using scenario_bin_status by (simp add: js_lower_def)
  show ?thesis
    using scenario_format_data_index scenario_bin_status l
      handle_new_data_empty_message [OF scenario_format_data_index, of "Some ''https://maker.ifttt.com/hook''"
        "''https://maker.ifttt.com/hook''" None]
    by simp
qed

section \<open>getData\<close>

text \<open>
  C19. A response that arrives but does not convert always makes \<^verbatim>\<open>getData\<close> fail with
  a \<^verbatim>\<open>TypeError\<close>, whatever the conversion's reason: the retry in the \<^verbatim>\<open>catch\<close>
  calls \<^verbatim>\<open>response.text()\<close> again on the response whose body the \<^verbatim>\<open>try\<close> has
  consumed, so the conversion is never retried and no new request is made.
\<close>

theorem get_data_parse_failure:
  assumes "fetches 0 = Some r" and "resp_ok r" and "convert (resp_body r) = Inl e"
  shows "get_data fetches convert =
    ([HttpGet data_url, ConsoleError ''Error parsing response data'',
      ConsoleLog ''Trying to fetch data again''], Inl TypeError)"
  using assms by (simp add: get_data_def numeral_2_eq_2 read_and_convert_def response_text_def)

theorem get_data_parse_failure_witness:
  "(\<lambda>i::nat. Some \<lparr>resp_ok = True, resp_status = 200, resp_status_text = ''OK'', resp_body = ''<rss''\<rparr>) 0 =
     Some \<lparr>resp_ok = True, resp_status = 200, resp_status_text = ''OK'', resp_body = ''<rss''\<rparr> \<and>
   resp_ok \<lparr>resp_ok = True, resp_status = 200, resp_status_text = ''OK'', resp_body = ''<rss''\<rparr> \<and>
   (\<lambda>xml::string. (Inl (JsError ''Unclosed root tag'') :: xml2js_channel list js_result))
     (resp_body \<lparr>resp_ok = True, resp_status = 200, resp_status_text = ''OK'', resp_body = ''<rss''\<rparr>) =
     Inl (JsError ''Unclosed root tag'') \<and>
   snd (get_data (\<lambda>i. Some \<lparr>resp_ok = True, resp_status = 200, resp_status_text = ''OK'', resp_body = ''<rss''\<rparr>)
     (\<lambda>xml. Inl (JsError ''Unclosed root tag''))) = Inl TypeError"
  using get_data_parse_failure
    [of "\<lambda>i. Some \<lparr>resp_ok = True, resp_status = 200, resp_status_text = ''OK'', resp_body = ''<rss''\<rparr>"
        "\<lparr>resp_ok = True, resp_status = 200, resp_status_text = ''OK'', resp_body = ''<rss''\<rparr>"
        "\<lambda>xml. Inl (JsError ''Unclosed root tag'')" "JsError ''Unclosed root tag''"]
  by simp

text \<open>
  C20. One run of \<^verbatim>\<open>getData\<close> sends at least one and at most three requests to the
  council's service: the first and at most two retries.
\<close>

theorem get_data_request_bounds:
  "1 \<le> length (filter is_get (fst (get_data fetches convert))) \<and>
   length (filter is_get (fst (get_data fetches convert))) \<le> 3"
proof (cases "fetches 0")
  case None
  then show ?thesis by (simp add: get_data_def is_get_def)
next
  case (Some r)
  obtain n x where rf: "refetch 2 1 fetches r = (n, x)" by fastforce
  then have "1 \<le> n \<and> n \<le> 3" using refetch_count by fastforce
  moreover have "filter is_get (replicate n (HttpGet data_url)) = replicate n (HttpGet data_url)"
    by (simp add: is_get_def)
  ultimately show ?thesis
    using Some rf by (auto simp: get_data_def is_get_def Let_def split: sum.splits option.splits)
qed

text \<open>
  C21. When all three requests answer with a status that is not \<^verbatim>\<open>ok\<close>,
  \<^verbatim>\<open>getData\<close> gives up after exactly three requests with the status of the last one.
\<close>

theorem get_data_gives_up:
  assumes "fetches 0 = Some r0" and "fetches 1 = Some r1" and "fetches 2 = Some r2"
    and "\<not> resp_ok r0" and "\<not> resp_ok r1" and "\<not> resp_ok r2"
  shows "get_data fetches convert =
    (replicate 3 (HttpGet data_url),
     Inl (JsError (digits_of_nat (resp_status r2) @ '': '' @ resp_status_text r2 @ '' '' @ [CHR 0x0A] @
       ''Error when trying fetch Newport Council data'')))"
  using assms by (simp add: get_data_def numeral_2_eq_2 numeral_3_eq_3)

theorem get_data_gives_up_witness:
  "(\<lambda>i::nat. Some \<lparr>resp_ok = False, resp_status = 503, resp_status_text = ''Service Unavailable'', resp_body = ''''\<rparr>) 0 =
     Some \<lparr>resp_ok = False, resp_status = 503, resp_status_text = ''Service Unavailable'', resp_body = ''''\<rparr> \<and>
   \<not> resp_ok \<lparr>resp_ok = False, resp_status = 503, resp_status_text = ''Service Unavailable'', resp_body = ''''\<rparr> \<and>
   fst (get_data (\<lambda>i. Some \<lparr>resp_ok = False, resp_status = 503, resp_status_text = ''Service Unavailable'',
     resp_body = ''''\<rparr>) (\<lambda>xml. Inl (JsError ''Unclosed root tag''))) = replicate 3 (HttpGet data_url)"
  using get_data_gives_up
    [of "\<lambda>i. Some \<lparr>resp_ok = False, resp_status = 503, resp_status_text = ''Service Unavailable'', resp_body = ''''\<rparr>"
        "\<lparr>resp_ok = False, resp_status = 503, resp_status_text = ''Service Unavailable'', resp_body = ''''\<rparr>"
        "\<lparr>resp_ok = False, resp_status = 503, resp_status_text = ''Service Unavailable'', resp_body = ''''\<rparr>"
        "\<lparr>resp_ok = False, resp_status = 503, resp_status_text = ''Service Unavailable'', resp_body = ''''\<rparr>"
        "\<lambda>xml. Inl (JsError ''Unclosed root tag'')"]
  by simp


section \<open>Retries and missing configuration\<close>

text \<open>
  C25. When the council's service answers ok within the three attempts (earlier answers
  not ok) and the body converts, \<^verbatim>\<open>getData\<close> returns the converted feed after exactly
  as many requests as it took.
\<close>

theorem get_data_succeeds:
  assumes "k \<le> 2" and "\<forall>j < k. \<exists>r. fetches j = Some r \<and> \<not> resp_ok r"
    and "fetches k = Some r" and "resp_ok r" and "convert (resp_body r) = Inr json"
  shows "get_data fetches convert = (replicate (Suc k) (HttpGet data_url), Inr json)"
proof -
  have "k = 0 \<or> k = 1 \<or> k = 2" using assms(1) by arith
  then show ?thesis
  proof (elim disjE)
    assume "k = 0"
    then show ?thesis using assms(3,4,5) by (simp add: get_data_def numeral_2_eq_2)
  next
    assume k: "k = 1"
    then obtain r0 where "fetches 0 = Some r0" "\<not> resp_ok r0" using assms(2) by auto
    then show ?thesis using k assms(3,4,5) by (simp add: get_data_def numeral_2_eq_2)
  next
    assume k: "k = 2"
    have "\<exists>r. fetches 0 = Some r \<and> \<not> resp_ok r" "\<exists>r. fetches 1 = Some r \<and> \<not> resp_ok r"
      using assms(2) k by simp_all
    then obtain r0 r1 where "fetches 0 = Some r0" "\<not> resp_ok r0" "fetches 1 = Some r1" "\<not> resp_ok r1"
      by blast
    then show ?thesis using k assms(3,4,5) by (simp add: get_data_def numeral_2_eq_2 numeral_3_eq_3)
  qed
qed

theorem get_data_succeeds_witness:
  "(1::nat) \<le> 2 \<and>
   (\<lambda>i::nat. Some \<lparr>resp_ok = (i \<noteq> 0), resp_status = 200, resp_status_text = ''OK'',
       resp_body = ''<rss/>''\<rparr>) 0 =
     Some \<lparr>resp_ok = False, resp_status = 200, resp_status_text = ''OK'', resp_body = ''<rss/>''\<rparr> \<and>
   get_data (\<lambda>i. Some \<lparr>resp_ok = (i \<noteq> 0), resp_status = 200, resp_status_text = ''OK'', resp_body = ''<rss/>''\<rparr>)
     (\<lambda>xml. Inr []) = ([HttpGet data_url, HttpGet data_url], Inr [])"
proof -
  let ?f = "\<lambda>i::nat. Some \<lparr>resp_ok = (i \<noteq> 0), resp_status = 200, resp_status_text = ''OK'',
       resp_body = ''<rss/>''\<rparr>"
  have h: "\<forall>j < (1::nat). \<exists>r. ?f j = Some r \<and> \<not> resp_ok r" by simp
  show ?thesis
    using h get_data_succeeds [OF _ h, of "\<lparr>resp_ok = True, resp_status = 200, resp_status_text = ''OK'',
       resp_body = ''<rss/>''\<rparr>" "\<lambda>xml. Inr []" "[]"]
    by simp
qed

text \<open>
  C26. Without \<^verbatim>\<open>WEBHOOK_URL\<close>, a Lambda run that finds bins due warns, posts nothing
  and reports the \<^verbatim>\<open>TypeError\<close> of \<^verbatim>\<open>fetch(undefined)\<close> through the callback.
\<close>

theorem handler_no_webhook_key:
  assumes "ordinary_time now" and "get_data fetches convert = (effs, Inr json)"
    and "length json \<le> 3" and "format_data_lambda now json = Inr formatted"
    and "due_bins formatted \<noteq> []" and "list_all spec_channel json"
  shows "filter is_post (fst (handler None fetches convert outcome now)) = [] \<and>
    snd (handler None fetches convert outcome now) = CallbackError TypeError"
proof -
  have gd: "get_due_bins now json = Inr (due_bins formatted)"
    using assms(4) by (auto simp: format_data_lambda_def split: sum.splits)
  obtain m where m: "build_message (due_bins formatted) = Inr (Some m)"
    using build_message_defined [OF assms(5)] get_due_bins_titles [OF assms(3) gd]
      get_due_bins_labels [OF assms(1) gd assms(6)] by blast
  have "filter is_post (fst (handler None fetches convert outcome now)) = []"
    using assms(2,4,5) m handler_posts [of None fetches convert outcome now]
    by (simp add: send_webhook_posts)
  moreover have "snd (handler None fetches convert outcome now) = CallbackError TypeError"
    using assms(2,4,5) m by (simp add: handler_def send_webhook_def Let_def)
  ultimately show ?thesis by simp
qed

theorem handler_no_webhook_key_witness:
  "ordinary_time 1531044000000 \<and> list_all spec_channel [\<lparr>items = [\<lparr>titles = [''Tue 9 Jul 2018'']\<rparr>]\<rparr>] \<and>
   format_data_lambda 1531044000000 [\<lparr>items = [\<lparr>titles = [''Tue 9 Jul 2018'']\<rparr>]\<rparr>] =
     Inr \<lparr>updated_on = to_date_string (Some 1531044000000),
          due_bins = [\<lparr>due_title = Some ''waste'', due_on = ''tomorrow''\<rparr>]\<rparr> \<and>
   snd (handler None
     (\<lambda>i. Some \<lparr>resp_ok = True, resp_status = 200, resp_status_text = ''OK'', resp_body = ''<rss/>''\<rparr>)
     (\<lambda>xml. Inr [\<lparr>items = [\<lparr>titles = [''Tue 9 Jul 2018'']\<rparr>]\<rparr>]) None 1531044000000) =
   CallbackError TypeError"
proof -
  have o: "ordinary_time 1531044000000" by (simp add: ordinary_time_def ms_per_day_def)
  have g: "get_data (\<lambda>i. Some \<lparr>resp_ok = True, resp_status = 200, resp_status_text = ''OK'', resp_body = ''<rss/>''\<rparr>)
     (\<lambda>xml. Inr [\<lparr>items = [\<lparr>titles = [''Tue 9 Jul 2018'']\<rparr>]\<rparr>]) =
     ([HttpGet data_url], Inr [\<lparr>items = [\<lparr>titles = [''Tue 9 Jul 2018'']\<rparr>]\<rparr>])"
    by (simp add: get_data_def numeral_2_eq_2)
  have l: "length [\<lparr>items = [\<lparr>titles = [''Tue 9 Jul 2018'']\<rparr>]\<rparr>] \<le> 3" by simp
  have sp: "list_all spec_channel [\<lparr>items = [\<lparr>titles = [''Tue 9 Jul 2018'']\<rparr>]\<rparr>]"
    using scenario_spec_channel by simp
  have ne: "due_bins \<lparr>updated_on = to_date_string (Some 1531044000000),
          due_bins = [\<lparr>due_title = Some ''waste'', due_on = ''tomorrow''\<rparr>]\<rparr> \<noteq> []" by simp
  show ?thesis
    using handler_no_webhook_key [OF o g l scenario_format_data_lambda ne sp, of None] o sp
      scenario_format_data_lambda
    by simp
qed

text \<open>
  C27. When \<^verbatim>\<open>formatData\<close> of \<^verbatim>\<open>src/index.js\<close> throws (a channel, item or title is
  missing, or a title does not parse), the scheduled job logs the error and posts
  nothing.
\<close>

theorem scheduled_job_format_error:
  assumes "format_data_index now channels = Inl e"
  shows "scheduled_job webhook_key outcome1 outcome2 now channels =
    [ConsoleLog (''Checking bin data at '' @ iso_format now), ConsoleLog (error_string e)]"
  using assms by (simp add: scheduled_job_def build_response_data_def)

theorem scheduled_job_format_error_witness:
  "format_data_index 1531044000000 [] = Inl TypeError \<and>
   filter is_post (scheduled_job (Some ''https://maker.ifttt.com/hook'') None None 1531044000000 []) = []"
proof -
  have f: "format_data_index 1531044000000 [] = Inl TypeError"
    by (simp add: format_data_index_def channel_collection_date_def js_index_def)
  show ?thesis
    using f scheduled_job_format_error [OF f, of "Some ''https://maker.ifttt.com/hook''" None None]
    by (simp add: is_post_def)
qed

end
