(* ===== verification/Conversion.thy ===== *)
theory Conversion
  imports Pipeline
begin

text \<open>
  \<^verbatim>\<open>convertXMLtoJSON\<close> of \<^verbatim>\<open>src/lambda/index.js\<close> (lines 13 to 20) and its use by
  \<^verbatim>\<open>getData\<close>. The function returns a new promise whose executor hands the XML text to
  xml2js' \<^verbatim>\<open>parseString\<close>; the callback calls \<^verbatim>\<open>reject(err)\<close> on an error and then,
  having no \<^verbatim>\<open>return\<close>, \<^verbatim>\<open>resolve(result)\<close> as well. A promise is a cell that settles
  once: the resolving functions of a promise capability do nothing once it has settled.
  The parser is an input \<open>xml_parser\<close>: its outcome on a text is the error it reports
  (\<open>Inl\<close>) or the document (\<open>Inr\<close>), and xml2js calls the callback with
  \<^verbatim>\<open>(err)\<close> or with \<^verbatim>\<open>(null, result)\<close> accordingly. \<open>xml_convert\<close> is what
  \<^verbatim>\<open>await convertXMLtoJSON(xml)\<close> gives \<^verbatim>\<open>getData\<close>: the document, or the reason the
  await throws, which is the \<open>convert\<close> argument of \<open>Pipeline.get_data\<close>.
\<close>

section \<open>Promises\<close>

datatype 'a promise = Pending | Fulfilled 'a | Rejected string

text \<open>The resolving functions of a promise (ECMAScript Promise Resolve and Reject
  Functions): once the promise has settled, a call has no effect. The values resolved
  here are plain objects, never thenables.\<close>

definition promise_resolve :: "'a \<Rightarrow> 'a promise \<Rightarrow> 'a promise" where
  "promise_resolve v p = (case p of Pending \<Rightarrow> Fulfilled v | _ \<Rightarrow> p)"

definition promise_reject :: "string \<Rightarrow> 'a promise \<Rightarrow> 'a promise" where
  "promise_reject e p = (case p of Pending \<Rightarrow> Rejected e | _ \<Rightarrow> p)"

section \<open>convertXMLtoJSON\<close>

text \<open>The arguments xml2js passes to the callback: \<^verbatim>\<open>(err)\<close> or \<^verbatim>\<open>(null, result)\<close>;
  \<open>None\<close> is \<^verbatim>\<open>null\<close> or a missing argument.\<close>

definition xml2js_callback_args :: "string + 'a \<Rightarrow> string option \<times> 'a option" where
  "xml2js_callback_args outcome =
     (case outcome of Inl err \<Rightarrow> (Some err, None) | Inr result \<Rightarrow> (None, Some result))"

text \<open>The callback \<^verbatim>\<open>function (err, result) { if (err) { reject(err); } resolve(result); }\<close>
  acting on the promise.\<close>

definition xml_callback :: "string option \<Rightarrow> 'a option \<Rightarrow> 'a option promise \<Rightarrow> 'a option promise" where
  "xml_callback err result p =
     (let p1 = (case err of Some e \<Rightarrow> promise_reject e p | None \<Rightarrow> p)
      in promise_resolve result p1)"

text \<open>\<^verbatim>\<open>convertXMLtoJSON(xml)\<close>: the executor runs at once and \<^verbatim>\<open>parseString\<close> calls the
  callback before returning.\<close>

definition convert_xml_to_json :: "(string \<Rightarrow> string + 'a) \<Rightarrow> string \<Rightarrow> 'a option promise" where
  "convert_xml_to_json xml_parser xml =
     (case xml2js_callback_args (xml_parser xml) of
       (err, result) \<Rightarrow> xml_callback err result Pending)"

text \<open>\<^verbatim>\<open>json = await convertXMLtoJSON(xml)\<close> inside \<^verbatim>\<open>getData\<close>: the document when
  the promise is fulfilled with one, the rejection reason (an xml2js \<^verbatim>\<open>Error\<close>) when the
  await throws. The promise is never left pending and never fulfilled with
  \<^verbatim>\<open>undefined\<close> (\<open>convert_xml_to_json_cases\<close>); those two shapes, which the
  await would turn into a hang and an \<^verbatim>\<open>undefined\<close> document, are not representable in
  \<open>get_data\<close>'s result type and are mapped to a \<^verbatim>\<open>TypeError\<close>.\<close>

definition await_conversion :: "'a option promise \<Rightarrow> 'a js_result" where
  "await_conversion p =
     (case p of
       Fulfilled (Some json) \<Rightarrow> Inr json
     | Rejected err \<Rightarrow> Inl (JsError err)
     | _ \<Rightarrow> Inl TypeError)"

definition xml_convert :: "(string \<Rightarrow> string + 'a) \<Rightarrow> string \<Rightarrow> 'a js_result" where
  "xml_convert xml_parser xml = await_conversion (convert_xml_to_json xml_parser xml)"

section \<open>Lemmas\<close>

lemma promise_resolve_Pending [simp]: "promise_resolve v Pending = Fulfilled v"
  by (simp add: promise_resolve_def)

lemma promise_reject_Pending [simp]: "promise_reject e Pending = Rejected e"
  by (simp add: promise_reject_def)

lemma promise_resolve_settled [simp]: "p \<noteq> Pending \<Longrightarrow> promise_resolve v p = p"
  by (cases p) (simp_all add: promise_resolve_def)

lemma promise_reject_settled [simp]: "p \<noteq> Pending \<Longrightarrow> promise_reject e p = p"
  by (cases p) (simp_all add: promise_reject_def)

lemma xml_callback_Pending [simp]:
  "xml_callback (Some e) result Pending = Rejected e"
  "xml_callback None result Pending = Fulfilled result"
  by (simp_all add: xml_callback_def)

lemma convert_xml_to_json_cases:
  "xml_parser xml = Inl e \<Longrightarrow> convert_xml_to_json xml_parser xml = Rejected e"
  "xml_parser xml = Inr r \<Longrightarrow> convert_xml_to_json xml_parser xml = Fulfilled (Some r)"
  by (simp_all add: convert_xml_to_json_def xml2js_callback_args_def)

text \<open>The awaited conversion is the parser's document, and fails exactly on its errors, with
  their message.\<close>

lemma xml_convert_eq:
  "xml_convert xml_parser xml = (case xml_parser xml of Inl e \<Rightarrow> Inl (JsError e) | Inr r \<Rightarrow> Inr r)"
  by (cases "xml_parser xml") (simp_all add: xml_convert_def await_conversion_def convert_xml_to_json_cases)

section \<open>Properties\<close>

text \<open>
  C29. \<^verbatim>\<open>convertXMLtoJSON\<close> rejects with the parser's error exactly when xml2js reports
  one, although the callback goes on to call \<^verbatim>\<open>resolve(undefined)\<close>, and is otherwise
  fulfilled with the parsed document.
\<close>

theorem convert_xml_to_json_outcome:
  "convert_xml_to_json xml_parser xml =
     (case xml_parser xml of Inl e \<Rightarrow> Rejected e | Inr r \<Rightarrow> Fulfilled (Some r))"
  by (cases "xml_parser xml") (simp_all add: convert_xml_to_json_cases)

end
