(* ===== verification/Json.thy ===== *)
theory Json
  imports Conversion
begin

text \<open>
  JavaScript values as \<^verbatim>\<open>JSON.stringify\<close> sees them, and Express' \<^verbatim>\<open>res.json\<close>, which
  sends \<^verbatim>\<open>JSON.stringify(value)\<close>. An object is its own enumerable properties, in
  order, together with the internal slots of a promise (\<open>[[PromiseState]]\<close> and
  \<open>[[PromiseResult]]\<close>) when it is one; serialisation reads only the properties
  (ECMAScript \<open>SerializeJSONObject\<close> enumerates own keys). The values of
  \<^verbatim>\<open>src/index.js\<close> are the response data object of \<^verbatim>\<open>buildResponseData\<close> and the promise
  \<^verbatim>\<open>dataForLoad\<close>; \<open>js_of_response_data\<close> builds the former as the object literals of
  lines 87 to 106 and 113 to 116 build it.
\<close>

section \<open>Values\<close>

datatype js_value =
    JsUndefined
  | JsNull
  | JsBool bool
  | JsString string
  | JsArray "js_value list"
  | JsObject "(string \<times> js_value) list" "js_value promise option"

text \<open>The object an \<^verbatim>\<open>async\<close> function returns: a fresh promise, with no own property.\<close>

definition promise_object :: "js_value promise \<Rightarrow> js_value" where
  "promise_object p = JsObject [] (Some p)"

section \<open>JSON.stringify\<close>

definition hex_digit :: "nat \<Rightarrow> char" where
  "hex_digit n = (if n < 10 then char_of (48 + n) else char_of (87 + n))"

text \<open>\<open>QuoteJSONString\<close>: the short escapes, other control characters as
  \<^verbatim>\<open>\u00XX\<close> in lower-case hexadecimal.\<close>

definition json_escape_char :: "char \<Rightarrow> string" where
  "json_escape_char c =
     (if c = CHR 0x22 then [CHR 0x5C, CHR 0x22]
      else if c = CHR 0x5C then [CHR 0x5C, CHR 0x5C]
      else if c = CHR 0x08 then [CHR 0x5C, CHR ''b'']
      else if c = CHR 0x0C then [CHR 0x5C, CHR ''f'']
      else if c = CHR 0x0A then [CHR 0x5C, CHR ''n'']
      else if c = CHR 0x0D then [CHR 0x5C, CHR ''r'']
      else if c = CHR 0x09 then [CHR 0x5C, CHR ''t'']
      else if of_char c < (32::nat) then
        [CHR 0x5C, CHR ''u'', CHR ''0'', CHR ''0'', hex_digit (of_char c div 16), hex_digit (of_char c mod 16)]
      else [c])"

definition json_quote :: "string \<Rightarrow> string" where
  "json_quote s = CHR 0x22 # concat (map json_escape_char s) @ [CHR 0x22]"

text \<open>\<open>SerializeJSONProperty\<close>: \<^verbatim>\<open>undefined\<close> has no serialisation (\<open>None\<close>); an object
  member holding it is skipped, an array element holding it prints \<^verbatim>\<open>null\<close>.\<close>

fun json_str :: "js_value \<Rightarrow> string option"
  and json_members :: "(string \<times> js_value) list \<Rightarrow> string list"
  and json_elems :: "js_value list \<Rightarrow> string list" where
  "json_str JsUndefined = None"
| "json_str JsNull = Some ''null''"
| "json_str (JsBool b) = Some (if b then ''true'' else ''false'')"
| "json_str (JsString s) = Some (json_quote s)"
| "json_str (JsArray vs) = Some (''['' @ js_join '','' (json_elems vs) @ '']'')"
| "json_str (JsObject props slots) = Some (''{'' @ js_join '','' (json_members props) @ ''}'')"
| "json_members [] = []"
| "json_members ((k, v) # ps) =
     (case json_str v of
       None \<Rightarrow> json_members ps
     | Some s \<Rightarrow> (json_quote k @ '':'' @ s) # json_members ps)"
| "json_elems [] = []"
| "json_elems (v # vs) = (case json_str v of None \<Rightarrow> ''null'' | Some s \<Rightarrow> s) # json_elems vs"

text \<open>\<^verbatim>\<open>res.json(value)\<close>: the body Express sends (empty for \<^verbatim>\<open>undefined\<close>).\<close>

definition res_json :: "js_value \<Rightarrow> string" where
  "res_json v = (case json_str v of None \<Rightarrow> [] | Some s \<Rightarrow> s)"

section \<open>The response data of src/index.js\<close>

definition js_of_bin_status :: "bin_status \<Rightarrow> js_value" where
  "js_of_bin_status b =
     JsObject [(''isDue'', JsBool (bs_is_due b)), (''daysUntilDue'', JsString (bs_days_until_due b)),
       (''collectionDate'', JsString (bs_collection_date b)),
       (''hasBeenPutOut'', JsBool (bs_has_been_put_out b))] None"

definition js_of_response_data :: "response_data \<Rightarrow> js_value" where
  "js_of_response_data d =
     JsObject [(''updatedOn'', JsString (rd_updated_on d)),
       (''bins'', JsObject [(''garden'', js_of_bin_status (garden (rd_bins d))),
                            (''waste'', js_of_bin_status (waste (rd_bins d))),
                            (''recycling'', js_of_bin_status (recycling (rd_bins d)))] None)] None"

section \<open>Lemmas\<close>

text \<open>A promise object serialises as \<^verbatim>\<open>{}\<close> in every state; the response data it
  may hold does not.\<close>

lemma res_json_promise_object [simp]: "res_json (promise_object p) = ''{}''"
  by (simp add: res_json_def promise_object_def)

lemma res_json_response_data: "res_json (js_of_response_data d) \<noteq> ''{}''"
  by (simp add: res_json_def js_of_response_data_def json_quote_def)

end
