(* ===== verification/Server.thy ===== *)
theory Server
  imports Json "HOL-Library.AList"
begin

text \<open>
  The long-running process of \<^verbatim>\<open>src/index.js\<close> as a state machine. Loading the module
  creates the global \<^verbatim>\<open>response\<close> object, warns when \<^verbatim>\<open>WEBHOOK_URL\<close> is missing,
  registers the scheduled job, starts \<^verbatim>\<open>dataForLoad = buildResponseData()\<close> (a
  promise) and starts the Express server. After that, four kinds of event interleave:
  the start-up promise settles, the scheduled job runs, and requests arrive for
  \<^verbatim>\<open>/api/bins\<close> and \<^verbatim>\<open>/\<close>. \<open>server_step\<close> is the step relation and \<open>server_reach\<close>
  the reachable states; the state records everything the process has emitted. Every
  request passes the CORS middleware (\<open>cors_middleware\<close>, registered with \<^verbatim>\<open>app.use\<close>
  before the routes) and then its route; a reply records the headers the application has
  set, and a page also the object passed to \<^verbatim>\<open>render\<close>. The EJS template
  \<^verbatim>\<open>templates/main.ejs\<close> is not in the repository: it is an input of each request to
  \<^verbatim>\<open>/\<close>, a function from the data to the rendered text or the rendering error.
\<close>

section \<open>State and events\<close>

text \<open>One bin of the global \<^verbatim>\<open>response\<close> object; \<open>None\<close> is \<^verbatim>\<open>undefined\<close>.\<close>

record global_bin =
  g_is_due :: bool
  g_days_until_due :: "string option"
  g_collection_date :: "string option"
  g_has_been_put_out :: bool

record global_response =
  g_updated_on :: string
  g_garden :: global_bin
  g_waste :: global_bin
  g_recycling :: global_bin

definition initial_bin :: global_bin where
  "initial_bin = \<lparr>g_is_due = False, g_days_until_due = None, g_collection_date = None,
     g_has_been_put_out = False\<rparr>"

definition initial_response :: global_response where
  "initial_response = \<lparr>g_updated_on = '''', g_garden = initial_bin, g_waste = initial_bin,
     g_recycling = initial_bin\<rparr>"

text \<open>A response header, name and value.\<close>

type_synonym header = "string \<times> string"

text \<open>\<^verbatim>\<open>templates/main.ejs\<close> rendered with some data: the text, or the error
  \<^verbatim>\<open>ejs.renderFile\<close> passes to its callback, as \<^verbatim>\<open>${err}\<close> prints it.\<close>

type_synonym ejs_template = "global_response \<Rightarrow> string + string"

text \<open>What the process emits: an effect of the pipeline, a JSON reply (headers, route,
  body), or a page (headers, the data passed to \<^verbatim>\<open>render\<close>, the text sent).\<close>

datatype server_output =
    Emit effect
  | JsonReply "header list" string string
  | PageReply "header list" global_response string

datatype server_event =
    BootSettles time_value "xml2json_channel list" "http_response option"
  | Tick time_value "xml2json_channel list" "http_response option" "http_response option"
  | GetApiBins
  | GetRoot ejs_template

record server_state =
  srv_webhook_key :: "string option"
  srv_response :: global_response
  srv_boot_settled :: bool
  srv_data_for_load :: "js_value promise"
  srv_out :: "server_output list"

text \<open>The callback of \<^verbatim>\<open>app.listen\<close> (lines 253 to 255).\<close>

definition listen_log :: "string \<Rightarrow> effect" where
  "listen_log port = ConsoleLog (''Bin bot listening on port '' @ port)"

text \<open>
  The state once the module has been loaded: the key check of lines 8 to 14, the
  pending \<^verbatim>\<open>dataForLoad\<close> (line 244) and the listen log. \<open>webhook_key\<close> is
  \<^verbatim>\<open>process.env.WEBHOOK_URL\<close>, read as unset when it is empty: with that reading
  \<^verbatim>\<open>!webhookKey\<close> is \<open>webhook_key = None\<close>.
\<close>

definition server_init :: "string option \<Rightarrow> string \<Rightarrow> server_state" where
  "server_init webhook_key port =
     \<lparr>srv_webhook_key = webhook_key, srv_response = initial_response, srv_boot_settled = False,
      srv_data_for_load = Pending,
      srv_out = map Emit
        ((if webhook_key = None
          then [ConsoleWarn ''No WEBHOOK_URL provided, unable to send IFTTT webhook POST''] else []) @
         [listen_log port])\<rparr>"

text \<open>\<^verbatim>\<open>dataForLoad\<close> settles with what \<^verbatim>\<open>buildResponseData\<close> returns or throws.\<close>

definition settle_data_for_load :: "response_data js_result \<Rightarrow> js_value promise \<Rightarrow> js_value promise" where
  "settle_data_for_load r p =
     (case r of
       Inr data \<Rightarrow> promise_resolve (js_of_response_data data) p
     | Inl e \<Rightarrow> promise_reject (error_string e) p)"

section \<open>Rendering, middleware and routes\<close>

text \<open>
  \<^verbatim>\<open>render\<close> (lines 225 to 236). \<^verbatim>\<open>ejs.renderFile\<close> with a callback reads, compiles
  and runs the template synchronously and calls the callback before it returns, so
  \<^verbatim>\<open>HTML\<close> is always assigned when \<^verbatim>\<open>render\<close> returns it. The \<^verbatim>\<open>debug\<close> option's
  printing of the compiled template is not modelled.
\<close>

definition render :: "ejs_template \<Rightarrow> global_response \<Rightarrow> effect list \<times> string" where
  "render template template_data =
     (case template template_data of
       Inl err \<Rightarrow>
         ([ConsoleError (''Error rendering template'' @ [CHR 0x0A])],
          '':( Error when rendering the template:<br>'' @ err)
     | Inr html \<Rightarrow> ([], html))"

text \<open>\<^verbatim>\<open>res.header(field, value)\<close> (Express' \<^verbatim>\<open>res.set\<close>): sets the header,
  replacing an earlier value.\<close>

definition res_header :: "string \<Rightarrow> string \<Rightarrow> header list \<Rightarrow> header list" where
  "res_header field value hs = AList.update field value hs"

text \<open>The middleware of lines 238 to 242; \<^verbatim>\<open>next()\<close> passes on to the route.\<close>

definition cors_middleware :: "header list \<Rightarrow> header list" where
  "cors_middleware hs =
     res_header ''Access-Control-Allow-Headers'' ''Origin, X-Requested-With, Content-Type, Accept''
       (res_header ''Access-Control-Allow-Origin'' ''*'' hs)"

text \<open>Express runs the middleware registered with \<^verbatim>\<open>app.use\<close> before the routes
  registered after it; a request starts with no header set by the application.\<close>

definition dispatch :: "(header list \<Rightarrow> server_output list) \<Rightarrow> server_output list" where
  "dispatch route = route (cors_middleware [])"

text \<open>\<^verbatim>\<open>app.get('/api/bins')\<close>: \<^verbatim>\<open>res.json(dataForLoad)\<close>, the promise object itself.\<close>

definition api_bins_route :: "js_value promise \<Rightarrow> header list \<Rightarrow> server_output list" where
  "api_bins_route data_for_load hs =
     [JsonReply hs ''/api/bins'' (res_json (promise_object data_for_load))]"

text \<open>\<^verbatim>\<open>app.get('/')\<close>: \<^verbatim>\<open>res.send(render(response))\<close>.\<close>

definition root_route :: "ejs_template \<Rightarrow> global_response \<Rightarrow> header list \<Rightarrow> server_output list" where
  "root_route template response hs =
     (case render template response of (effs, html) \<Rightarrow> map Emit effs @ [PageReply hs response html])"

section \<open>Steps\<close>

inductive server_step :: "server_state \<Rightarrow> server_event \<Rightarrow> server_state \<Rightarrow> bool" where
  boot_settles:
    "\<not> srv_boot_settled s \<Longrightarrow>
     server_step s (BootSettles now channels outcome)
       (s\<lparr>srv_boot_settled := True,
          srv_data_for_load := settle_data_for_load
            (snd (build_response_data (srv_webhook_key s) outcome now channels)) (srv_data_for_load s),
          srv_out := srv_out s @
            map Emit (fst (build_response_data (srv_webhook_key s) outcome now channels))\<rparr>)"
| tick:
    "server_step s (Tick now channels outcome1 outcome2)
       (s\<lparr>srv_out := srv_out s @
            map Emit (scheduled_job (srv_webhook_key s) outcome1 outcome2 now channels)\<rparr>)"
| get_api_bins:
    "server_step s GetApiBins
       (s\<lparr>srv_out := srv_out s @ dispatch (api_bins_route (srv_data_for_load s))\<rparr>)"
| get_root:
    "server_step s (GetRoot template)
       (s\<lparr>srv_out := srv_out s @ dispatch (root_route template (srv_response s))\<rparr>)"

inductive server_reach :: "server_state \<Rightarrow> bool" where
  init: "server_reach (server_init webhook_key port)"
| step: "server_reach s \<Longrightarrow> server_step s e s' \<Longrightarrow> server_reach s'"

code_pred server_step .

inductive_cases server_step_BootSettlesE: "server_step s (BootSettles now channels outcome) s'"
inductive_cases server_step_TickE: "server_step s (Tick now channels outcome1 outcome2) s'"
inductive_cases server_step_GetApiBinsE: "server_step s GetApiBins s'"
inductive_cases server_step_GetRootE: "server_step s (GetRoot template) s'"
inductive_simps server_step_GetRoot_simps: "server_step s (GetRoot template) s'"

text \<open>The webhook posts among the outputs.\<close>

definition out_posts :: "server_output list \<Rightarrow> effect list" where
  "out_posts out = [e. Emit e \<leftarrow> out, is_post e]"

text \<open>A list in which every element is immediately repeated.\<close>

definition doubled :: "effect list \<Rightarrow> bool" where
  "doubled xs \<longleftrightarrow> (\<exists>ps. xs = concat (map (\<lambda>p. [p, p]) ps))"

text \<open>The headers of a reply; an effect has none.\<close>

fun reply_headers :: "server_output \<Rightarrow> header list option" where
  "reply_headers (Emit e) = None"
| "reply_headers (JsonReply hs path body) = Some hs"
| "reply_headers (PageReply hs data html) = Some hs"

text \<open>\<^verbatim>\<open>templates/main.ejs\<close> as the repository has it, absent: \<^verbatim>\<open>renderFile\<close>
  fails to read it.\<close>

definition enoent_error :: string where
  "enoent_error = ''Error: ENOENT: no such file or directory, open '' @ [CHR 0x27] @
     ''./templates/main.ejs'' @ [CHR 0x27]"

definition missing_template :: ejs_template where
  "missing_template data = Inl enoent_error"

section \<open>Lemmas\<close>

lemma server_step_webhook_key: "server_step s e s' \<Longrightarrow> srv_webhook_key s' = srv_webhook_key s"
  by (induction rule: server_step.induct) simp_all

lemma server_step_response: "server_step s e s' \<Longrightarrow> srv_response s' = srv_response s"
  by (induction rule: server_step.induct) simp_all

lemma server_step_out: "server_step s e s' \<Longrightarrow> \<exists>new. srv_out s' = srv_out s @ new"
  by (induction rule: server_step.induct) auto

lemma out_posts_append [simp]: "out_posts (xs @ ys) = out_posts xs @ out_posts ys"
  by (simp add: out_posts_def)

lemma out_posts_emit [simp]: "out_posts (map Emit es) = filter is_post es"
  by (induction es) (simp_all add: out_posts_def)

lemma out_posts_init [simp]: "out_posts (srv_out (server_init webhook_key port)) = []"
  by (simp add: server_init_def listen_log_def is_post_def out_posts_def)

lemma doubled_Nil [simp]: "doubled []"
  by (simp add: doubled_def)

lemma doubled_append: "doubled xs \<Longrightarrow> doubled ys \<Longrightarrow> doubled (xs @ ys)"
  unfolding doubled_def by (metis concat_append map_append)

lemma doubled_pair [simp]: "doubled [p, p]"
  unfolding doubled_def by (rule exI [of _ "[p]"]) simp

text \<open>The posts of one scheduled run: none, or one message twice.\<close>

lemma scheduled_job_posts_doubled:
  "doubled (filter is_post (scheduled_job webhook_key outcome1 outcome2 now channels))"
proof (cases "format_data_index now channels")
  case (Inl e)
  then show ?thesis by (simp add: scheduled_job_def build_response_data_def is_post_def)
next
  case (Inr data)
  then show ?thesis
    using handle_new_data_posts [of webhook_key outcome1 data]
      handle_new_data_posts [of webhook_key outcome2 data]
    by (auto simp: scheduled_job_def build_response_data_def is_post_def split: option.splits)
qed

lemma build_response_data_posts:
  "length (filter is_post (fst (build_response_data webhook_key outcome now channels))) \<le> 1"
  using handle_new_data_posts [of webhook_key outcome]
  by (auto simp: build_response_data_def is_post_def split: sum.splits option.splits)


text \<open>Each route's outputs, after the middleware: the effects of rendering, then one
  reply with the middleware's headers.\<close>

lemma dispatch_api_bins:
  "dispatch (api_bins_route p) = api_bins_route p (cors_middleware [])"
  by (simp add: dispatch_def)

lemma dispatch_root:
  "dispatch (root_route template response) =
     map Emit (fst (render template response)) @
     [PageReply (cors_middleware []) response (snd (render template response))]"
  by (simp add: dispatch_def root_route_def split: prod.split)

lemma render_no_post [simp]: "filter is_post (fst (render template response)) = []"
  by (simp add: render_def is_post_def split: sum.split)

lemma replies_not_Emit [simp]:
  "PageReply hs g html \<notin> Emit ` X"
  "JsonReply hs p b \<notin> Emit ` X"
  "r \<in> Emit ` X \<Longrightarrow> reply_headers r = None"
  by auto

lemma out_posts_replies:
  "out_posts [] = []"
  "out_posts (PageReply hs g html # xs) = out_posts xs"
  "out_posts (JsonReply hs p b # xs) = out_posts xs"
  by (simp_all add: out_posts_def)

lemma out_posts_dispatch [simp]:
  "out_posts (dispatch (api_bins_route p)) = []"
  "out_posts (dispatch (root_route template response)) = []"
  by (simp_all add: dispatch_api_bins api_bins_route_def dispatch_root out_posts_replies)

lemma map_of_cors_middleware [simp]:
  "map_of (cors_middleware hs) ''Access-Control-Allow-Origin'' = Some ''*''"
  "map_of (cors_middleware hs) ''Access-Control-Allow-Headers'' =
     Some ''Origin, X-Requested-With, Content-Type, Accept''"
  by (simp_all add: cors_middleware_def res_header_def update_conv')

lemma cors_middleware_Nil:
  "cors_middleware [] = [(''Access-Control-Allow-Origin'', ''*''),
     (''Access-Control-Allow-Headers'', ''Origin, X-Requested-With, Content-Type, Accept'')]"
  by (simp add: cors_middleware_def res_header_def)

text \<open>What every reachable state satisfies: the global object is the initial one, every
  page shows it, and every reply carries the headers of the middleware.\<close>

lemma server_reach_replies:
  assumes "server_reach s"
  shows "srv_response s = initial_response \<and>
    (\<forall>hs g html. PageReply hs g html \<in> set (srv_out s) \<longrightarrow> g = initial_response) \<and>
    (\<forall>r hs. r \<in> set (srv_out s) \<longrightarrow> reply_headers r = Some hs \<longrightarrow> hs = cors_middleware [])"
  using assms
proof (induction rule: server_reach.induct)
  case (init webhook_key port)
  then show ?case by (auto simp: server_init_def)
next
  case (step s e s')
  from step.hyps(2) step.IH show ?case
  proof (cases rule: server_step.cases)
    case get_api_bins
    then show ?thesis using step.IH by (auto simp: dispatch_api_bins api_bins_route_def)
  next
    case (get_root template)
    then show ?thesis using step.IH by (auto simp: dispatch_root)
  qed auto
qed

section \<open>What the web server shows\<close>

text \<open>
  C22. Every page the server of \<^verbatim>\<open>src/index.js\<close> renders is rendered from the initial
  global \<^verbatim>\<open>response\<close> object (no bin due, dates \<^verbatim>\<open>undefined\<close>, empty
  \<^verbatim>\<open>updatedOn\<close>): no code path ever writes the fetched data into it.
\<close>

theorem server_page_initial:
  assumes "server_reach s" and "PageReply hs g html \<in> set (srv_out s)"
  shows "g = initial_response"
  using server_reach_replies [OF assms(1)] assms(2) by blast

text \<open>
  C23. Every answer of \<^verbatim>\<open>/api/bins\<close> is \<^verbatim>\<open>{}\<close>, before and after the start-up
  \<^verbatim>\<open>buildResponseData\<close> settles \<^verbatim>\<open>dataForLoad\<close> with the fetched data or an error:
  \<^verbatim>\<open>res.json\<close> serialises the promise object, whose state is held in internal slots
  and not in properties, never the data it resolves to.
\<close>

theorem server_api_bins_empty:
  assumes "server_reach s" and "JsonReply hs p b \<in> set (srv_out s)"
  shows "b = ''{}''"
proof -
  have "\<forall>hs p b. JsonReply hs p b \<in> set (srv_out s) \<longrightarrow> b = ''{}''"
    using assms(1)
  proof (induction rule: server_reach.induct)
    case (init webhook_key port)
    then show ?case by (auto simp: server_init_def)
  next
    case (step s e s')
    from step.hyps(2) step.IH show ?case
    proof (cases rule: server_step.cases)
      case get_api_bins
      then show ?thesis using step.IH by (auto simp: dispatch_api_bins api_bins_route_def)
    next
      case (get_root template)
      then show ?thesis using step.IH by (auto simp: dispatch_root)
    qed auto
  qed
  then show ?thesis using assms(2) by blast
qed

text \<open>
  C30. Every reply of the server, page or JSON, carries
  \<^verbatim>\<open>Access-Control-Allow-Origin: *\<close> and the \<^verbatim>\<open>Access-Control-Allow-Headers\<close> list of
  the middleware: it is registered before both routes and runs on every request.
\<close>

theorem server_replies_cors:
  assumes "server_reach s" and "r \<in> set (srv_out s)" and "reply_headers r = Some hs"
  shows "map_of hs ''Access-Control-Allow-Origin'' = Some ''*'' \<and>
    map_of hs ''Access-Control-Allow-Headers'' = Some ''Origin, X-Requested-With, Content-Type, Accept''"
proof -
  have "hs = cors_middleware []" using server_reach_replies [OF assms(1)] assms(2,3) by blast
  then show ?thesis by simp
qed

text \<open>
  C31. A request to \<^verbatim>\<open>/\<close> whose template fails to render has exactly one outcome: the
  console error, then a page with the CORS headers whose text is the error page
  \<^verbatim>\<open>:( Error when rendering the template:<br>\<close> followed by the error.
\<close>

theorem server_root_render_error:
  assumes "template (srv_response s) = Inl err"
  shows "server_step s (GetRoot template) s' \<longleftrightarrow>
    s' = s\<lparr>srv_out := srv_out s @
      [Emit (ConsoleError (''Error rendering template'' @ [CHR 0x0A])),
       PageReply [(''Access-Control-Allow-Origin'', ''*''),
                  (''Access-Control-Allow-Headers'', ''Origin, X-Requested-With, Content-Type, Accept'')]
         (srv_response s) ('':( Error when rendering the template:<br>'' @ err)]\<rparr>"
  using assms
  by (simp add: server_step_GetRoot_simps dispatch_root render_def cors_middleware_Nil)

text \<open>The file is missing from the repository: rendering fails with \<^verbatim>\<open>ENOENT\<close>.\<close>

theorem server_root_render_error_witness:
  "missing_template (srv_response (server_init None ''8000'')) = Inl enoent_error \<and>
   server_step (server_init None ''8000'') (GetRoot missing_template)
     ((server_init None ''8000'')\<lparr>srv_out := srv_out (server_init None ''8000'') @
      [Emit (ConsoleError (''Error rendering template'' @ [CHR 0x0A])),
       PageReply [(''Access-Control-Allow-Origin'', ''*''),
                  (''Access-Control-Allow-Headers'', ''Origin, X-Requested-With, Content-Type, Accept'')]
         initial_response ('':( Error when rendering the template:<br>'' @ enoent_error)]\<rparr>)"
  using server_root_render_error [of missing_template "server_init None ''8000''" enoent_error]
  by (simp add: missing_template_def server_init_def)

text \<open>A process that has just served one page and one API request.\<close>

lemma server_reach_requests:
  "server_reach ((server_init webhook_key port)
     \<lparr>srv_out := srv_out (server_init webhook_key port) @
        dispatch (root_route template initial_response) @ dispatch (api_bins_route Pending)\<rparr>)"
proof -
  let ?s0 = "server_init webhook_key port"
  let ?s1 = "?s0\<lparr>srv_out := srv_out ?s0 @ dispatch (root_route template (srv_response ?s0))\<rparr>"
  have r1: "server_reach ?s1"
    by (rule server_reach.step [OF server_reach.init server_step.get_root])
  have "server_reach (?s1\<lparr>srv_out := srv_out ?s1 @ dispatch (api_bins_route (srv_data_for_load ?s1))\<rparr>)"
    by (rule server_reach.step [OF r1 server_step.get_api_bins])
  then show ?thesis by (simp add: server_init_def)
qed

lemmas server_outputs_eval = dispatch_api_bins api_bins_route_def dispatch_root render_def
  cors_middleware_Nil

theorem server_page_initial_witness:
  "server_reach ((server_init None ''8000'')
     \<lparr>srv_out := srv_out (server_init None ''8000'') @
        dispatch (root_route (\<lambda>g. Inr ''<html></html>'') initial_response) @ dispatch (api_bins_route Pending)\<rparr>) \<and>
   PageReply (cors_middleware []) initial_response ''<html></html>'' \<in> set (srv_out ((server_init None ''8000'')
     \<lparr>srv_out := srv_out (server_init None ''8000'') @
        dispatch (root_route (\<lambda>g. Inr ''<html></html>'') initial_response) @ dispatch (api_bins_route Pending)\<rparr>)) \<and>
   initial_response = initial_response"
  using server_page_initial [OF server_reach_requests [of None "''8000''" "\<lambda>g. Inr ''<html></html>''"],
      of "cors_middleware []" initial_response "''<html></html>''"]
    server_reach_requests [of None "''8000''" "\<lambda>g. Inr ''<html></html>''"]
  by (simp add: server_outputs_eval)

theorem server_api_bins_empty_witness:
  "server_reach ((server_init None ''8000'')
     \<lparr>srv_out := srv_out (server_init None ''8000'') @
        dispatch (root_route (\<lambda>g. Inr ''<html></html>'') initial_response) @ dispatch (api_bins_route Pending)\<rparr>) \<and>
   JsonReply (cors_middleware []) ''/api/bins'' ''{}'' \<in> set (srv_out ((server_init None ''8000'')
     \<lparr>srv_out := srv_out (server_init None ''8000'') @
        dispatch (root_route (\<lambda>g. Inr ''<html></html>'') initial_response) @ dispatch (api_bins_route Pending)\<rparr>)) \<and>
   ''{}'' = ''{}''"
  using server_api_bins_empty [OF server_reach_requests [of None "''8000''" "\<lambda>g. Inr ''<html></html>''"],
      of "cors_middleware []" "''/api/bins''" "''{}''"]
    server_reach_requests [of None "''8000''" "\<lambda>g. Inr ''<html></html>''"]
  by (simp add: server_outputs_eval)

theorem server_replies_cors_witness:
  "server_reach ((server_init None ''8000'')
     \<lparr>srv_out := srv_out (server_init None ''8000'') @
        dispatch (root_route (\<lambda>g. Inr ''<html></html>'') initial_response) @ dispatch (api_bins_route Pending)\<rparr>) \<and>
   PageReply (cors_middleware []) initial_response ''<html></html>'' \<in> set (srv_out ((server_init None ''8000'')
     \<lparr>srv_out := srv_out (server_init None ''8000'') @
        dispatch (root_route (\<lambda>g. Inr ''<html></html>'') initial_response) @ dispatch (api_bins_route Pending)\<rparr>)) \<and>
   reply_headers (PageReply (cors_middleware []) initial_response ''<html></html>'') = Some (cors_middleware []) \<and>
   map_of (cors_middleware []) ''Access-Control-Allow-Origin'' = Some ''*''"
  using server_replies_cors [OF server_reach_requests [of None "''8000''" "\<lambda>g. Inr ''<html></html>''"],
      of "PageReply (cors_middleware []) initial_response ''<html></html>''" "cors_middleware []"]
    server_reach_requests [of None "''8000''" "\<lambda>g. Inr ''<html></html>''"]
  by (simp add: server_outputs_eval)

section \<open>Every scheduled notification is sent twice\<close>


text \<open>
  C24. In every reachable state of the process of \<^verbatim>\<open>src/index.js\<close>, the webhook posts
  made so far are a doubled list, then at most one post of the start-up
  \<^verbatim>\<open>buildResponseData\<close>, then a doubled list again (empty while the start-up promise
  has not settled): each scheduled run that notifies sends its message twice in a row.
\<close>

theorem server_posts_doubled:
  assumes "server_reach s"
  shows "\<exists>xs b ys. out_posts (srv_out s) = xs @ b @ ys \<and> doubled xs \<and> doubled ys \<and>
    length b \<le> 1 \<and> (\<not> srv_boot_settled s \<longrightarrow> b = [] \<and> ys = [])"
  using assms
proof (induction rule: server_reach.induct)
  case (init webhook_key port)
  have "\<not> srv_boot_settled (server_init webhook_key port)" by (simp add: server_init_def)
  then show ?case unfolding out_posts_init by auto
next
  case (step s e s')
  then obtain xs b ys where IH: "out_posts (srv_out s) = xs @ b @ ys" "doubled xs" "doubled ys"
    "length b \<le> 1" "\<not> srv_boot_settled s \<longrightarrow> b = [] \<and> ys = []" by blast
  from step.hyps(2) show ?case
  proof (cases rule: server_step.cases)
    case (boot_settles now channels outcome)
    let ?p = "filter is_post (fst (build_response_data (srv_webhook_key s) outcome now channels))"
    have "out_posts (srv_out s') = xs @ ?p @ []" "length ?p \<le> 1"
      using IH boot_settles build_response_data_posts by simp_all
    then show ?thesis
      using IH(2) boot_settles
      apply -
      apply (rule exI [of _ xs], rule exI [of _ ?p], rule exI [of _ "[]"])
      by simp
  next
    case (tick now channels outcome1 outcome2)
    let ?p = "filter is_post (scheduled_job (srv_webhook_key s) outcome1 outcome2 now channels)"
    have d: "doubled ?p" by (rule scheduled_job_posts_doubled)
    show ?thesis
    proof (cases "srv_boot_settled s")
      case True
      have "out_posts (srv_out s') = xs @ b @ (ys @ ?p)" using IH tick by simp
      moreover have "doubled (ys @ ?p)" using IH(3) d by (rule doubled_append)
      ultimately show ?thesis using IH tick True by auto
    next
      case False
      have "out_posts (srv_out s') = (xs @ ?p) @ [] @ []" using IH tick False by simp
      moreover have "doubled (xs @ ?p)" using IH(2) d by (rule doubled_append)
      ultimately show ?thesis using tick False by fastforce
    qed
  next
    case get_api_bins
    then have "out_posts (srv_out s') = xs @ b @ ys" using IH(1) by simp
    then show ?thesis using IH(2-5) get_api_bins by auto
  next
    case (get_root template)
    then have "out_posts (srv_out s') = xs @ b @ ys" using IH(1) by simp
    then show ?thesis using IH(2-5) get_root by auto
  qed
qed


theorem server_posts_doubled_witness:
  "server_reach ((server_init None ''8000'')
     \<lparr>srv_out := srv_out (server_init None ''8000'') @
        dispatch (root_route (\<lambda>g. Inr ''<html></html>'') initial_response) @ dispatch (api_bins_route Pending)\<rparr>) \<and>
   \<not> srv_boot_settled ((server_init None ''8000'')
     \<lparr>srv_out := srv_out (server_init None ''8000'') @
        dispatch (root_route (\<lambda>g. Inr ''<html></html>'') initial_response) @ dispatch (api_bins_route Pending)\<rparr>) \<and>
   (\<exists>xs b ys. out_posts (srv_out ((server_init None ''8000'')
     \<lparr>srv_out := srv_out (server_init None ''8000'') @
        dispatch (root_route (\<lambda>g. Inr ''<html></html>'') initial_response) @ dispatch (api_bins_route Pending)\<rparr>)) =
       xs @ b @ ys \<and> doubled xs \<and> b = [] \<and> ys = [])"
  using server_posts_doubled [OF server_reach_requests [of None "''8000''" "\<lambda>g. Inr ''<html></html>''"]]
    server_reach_requests [of None "''8000''" "\<lambda>g. Inr ''<html></html>''"]
  by (simp add: server_init_def)

end
