(* ===== verification/Spec2Isabelle.thy ===== *)
theory Spec2Isabelle
  imports Server
begin

text \<open>
  \<^bold>\<open>bin-bot: a verification development.\<close>

  The program (Crispioso/bin-bot) reads Newport City Council's waste-collection feed and
  tells, through an IFTTT webhook, which bins (waste, garden, recycling) are collected
  today or tomorrow. It exists twice: \<^verbatim>\<open>src/index.js\<close>, an Express server with a
  twice-daily \<^verbatim>\<open>node-schedule\<close> job, and \<^verbatim>\<open>src/lambda/index.js\<close>, an AWS Lambda handler.
  Both parse each feed title into a collection date, classify it against the clock
  (due today before the 21:11 cutoff, due tomorrow), label it with date-fns'
  \<^verbatim>\<open>distanceInWordsStrict\<close>, group the due bins into one English sentence and post it.

  \<^bold>\<open>Theories\<close>, in import order.
  \<^item> \<open>Prelude\<close>: JS exceptions as \<open>Inl\<close> values (\<open>js_error\<close>), \<^verbatim>\<open>undefined\<close> reads,
    decimal digit strings and their round trip, \<^verbatim>\<open>split\<close>, \<^verbatim>\<open>join\<close>, the two regular
    expressions of the sources, floor-division bounds.
  \<^item> \<open>JSDate\<close>: the ECMAScript calendar (\<open>DayFromYear\<close>, \<open>YearFromTime\<close>,
    \<open>MonthFromTime\<close>, \<open>DateFromTime\<close>, \<open>MakeDay\<close>, \<open>TimeClip\<close>) with its two round
    trips, day to date to day and valid date to day to date.
  \<^item> \<open>DateAPI\<close>: \<^verbatim>\<open>new Date(y, m, d, ...)\<close>, the getters, date-fns \<^verbatim>\<open>addDays\<close> and
    \<^verbatim>\<open>isAfter\<close>, \<^verbatim>\<open>toLocaleDateString("en-GB")\<close>; equal en-GB strings mean the same day.
  \<^item> \<open>ISOString\<close>: \<^verbatim>\<open>toISOString\<close> and the ISO parser; parsing the printed string gives
    the time value back (\<open>iso_parse_format\<close>); \<^verbatim>\<open>Date.prototype.toString\<close>
    (\<open>to_date_string\<close>, ECMAScript's \<open>ToDateString\<close>), the Lambda's \<^verbatim>\<open>updatedOn\<close>.
  \<^item> \<open>DateString\<close>: a grammar-level model of V8 on the strings the sources build,
    \<^verbatim>\<open>"Mon D, YYYY hh:mm:ss"\<close> (day/year composition, 24:00, TimeClip).
  \<^item> \<open>V8Legacy\<close>: V8's whole date-string parser, which \<^verbatim>\<open>new Date(string)\<close> runs
    (\<^verbatim>\<open>dateparser-inl.h\<close>, \<^verbatim>\<open>dateparser.cc\<close>): the tokenizer \<open>v8_tokens\<close> (numbers
    of at most nine significant digits, the five symbols, words looked up in the keyword
    table, white space, parenthesised comments), the ES5 prefix \<open>v8_es5\<close>, the legacy
    loop \<open>v8_loop\<close> over \<open>v8_step\<close>, the day, time and zone composers with their
    \<^verbatim>\<open>Write\<close> (missing day components are 1, so \<^verbatim>\<open>"Jul 9"\<close> is 2001; the zone offset
    in unsigned 32-bit arithmetic), and \<open>v8_parse\<close>, which reads every string of
    \<^verbatim>\<open>toISOString\<close> back to its time value through the ES5 branch. Both recursions are \<^verbatim>\<open>function\<close>s
    with termination proofs by the length of the remaining input; the lemmas give their
    domains, well-formed tokens, and the equality with \<open>DateString\<close> on the grammar.
  \<^item> \<open>DueClassifier\<close>: \<^verbatim>\<open>binIsDue\<close> (index.js) and \<^verbatim>\<open>isDue\<close> (Lambda); C1 proves that
    \<^verbatim>\<open>binIsDue\<close> refines the specification's rule \<open>due_status\<close>.
  \<^item> \<open>DateParser\<close>: \<^verbatim>\<open>getCollectionDate\<close> and \<^verbatim>\<open>getBinDates\<close>, with the string
    they hand to V8 (\<open>date_template\<close>) and the specification's shape of a title
    (\<open>spec_title\<close>); C2 (for such titles the Lambda's same-day branch is dead), C3 (title
    to ISO string and back), C28 (every title in the layout of the specification's own
    example, \<^verbatim>\<open>Collection: Tue 9 Jul 2018\<close>, is dated in 2001 whatever its year).
  \<^item> \<open>DueLabel\<close>: \<^verbatim>\<open>distanceInWordsStrict\<close>, \<^verbatim>\<open>getDaysUntilDue\<close>, \<^verbatim>\<open>getDueDay\<close>; C4
    (index.js never says "Tomorrow"), C5 (the Lambda says "today" for tomorrow's bin after
    23:00). C2, C5, C12, C15 and C26 assume titles of the specified shape; outside it V8
    reads titles leniently (C28).
  \<^item> \<open>Message\<close>: \<^verbatim>\<open>createMessage\<close>, \<^verbatim>\<open>buildMessageForDay\<close>, \<^verbatim>\<open>buildMessage\<close>; C6
    (refinement of the specification's sentence for one or two bins), C7 (the two
    implementations agree), C8 (a middle bin is dropped), C9 (the sentinel), C10
    ("today.. ").
  \<^item> \<open>Aggregator\<close>: \<^verbatim>\<open>getDueBins\<close> and both \<^verbatim>\<open>formatData\<close>; C11 (one bad channel
    fails the run), C12 (the due-bin list keeps the enumeration order and only the two
    labels).
  \<^item> \<open>Pipeline\<close>: effect traces of \<^verbatim>\<open>handleNewData\<close>, \<^verbatim>\<open>buildResponseData\<close>, the
    scheduled job, \<^verbatim>\<open>getData\<close> (with the response body's \<^verbatim>\<open>bodyUsed\<close> flag threaded
    through its two \<^verbatim>\<open>response.text()\<close> calls), \<^verbatim>\<open>sendWebhook\<close> and the Lambda handler;
    C13 to C15 (the Lambda posts at most once, never when nothing is due, and then the
    composed sentence), C16 to C18 (index.js never fills the tomorrow group, posts each
    message twice per run, posts an empty message for bins due tomorrow), C19 to C21 and
    C25 (\<^verbatim>\<open>getData\<close>: a conversion error ends in the \<^verbatim>\<open>TypeError\<close> of reading the
    consumed body again, one to three requests, giving up after three failures, success
    on the first ok answer), C26 and C27 (no webhook key, a \<^verbatim>\<open>formatData\<close> exception).
  \<^item> \<open>Conversion\<close>: the Lambda's \<^verbatim>\<open>convertXMLtoJSON\<close> over a settle-once model of
    promises (\<open>promise_resolve\<close>, \<open>promise_reject\<close>), with xml2js' \<^verbatim>\<open>parseString\<close>
    as an input \<open>xml_parser\<close>; \<open>xml_convert\<close>, the awaited conversion, is the
    \<open>convert\<close> argument of \<open>get_data\<close>. C29 (the promise rejects exactly on a parser
    error, although the callback then calls \<^verbatim>\<open>resolve\<close>).
  \<^item> \<open>Json\<close>: JavaScript values with a promise's internal slots, \<^verbatim>\<open>JSON.stringify\<close>
    (\<open>QuoteJSONString\<close>, members holding \<^verbatim>\<open>undefined\<close> skipped), Express'
    \<^verbatim>\<open>res.json\<close>, and the response data object of \<^verbatim>\<open>buildResponseData\<close>.
  \<^item> \<open>Server\<close>: the index.js process as an inductive step relation over its global
    state, with \<^verbatim>\<open>render\<close>, the CORS middleware (\<open>cors_middleware\<close> over
    \<^verbatim>\<open>res.header\<close>), Express' order of middleware and routes (\<open>dispatch\<close>) and the two
    routes, and \<^verbatim>\<open>dataForLoad\<close> as a promise settled by the start-up event; C22 to
    C24 and C30 by rule induction over the reachable states (pages are always rendered
    from the initial object, \<^verbatim>\<open>/api/bins\<close> answers \<^verbatim>\<open>{}\<close> before and after
    \<^verbatim>\<open>dataForLoad\<close> settles, scheduled notifications come in identical pairs, every reply
    carries both CORS headers), C31 (a template that fails to render gives the console
    error and the error page; with the template missing from the repository, every page
    is that one).
  \<^item> This theory: C32, across \<open>DateParser\<close> and \<open>DueClassifier\<close>, shows the two programs
    disagree on the collection day before 21:11: \<^verbatim>\<open>binIsDue\<close> reports the bin due, the
    Lambda's \<^verbatim>\<open>isDue\<close> does not (it compares the collection instant, not the clock,
    with the cutoff).

  \<^bold>\<open>Modelling choices.\<close> The clock is a parameter \<open>now\<close>, read once per run (the
  sources call \<^verbatim>\<open>new Date()\<close> several times within milliseconds). The host time zone
  is UTC (the Lambda runtime's), so local and UTC times agree. Exceptions are \<open>Inl\<close>
  values; \<^verbatim>\<open>undefined\<close> is \<open>None\<close>. Every collaborator is an input: the \<open>i\<close>-th HTTP
  request is answered by \<open>fetches i\<close>, the webhook by an outcome, XML conversion by a
  function; every observable action (request, post, console line, reply) is an element
  of a trace. All loops are structural recursion over lists (\<^verbatim>\<open>forEach\<close>), and the
  retries of \<^verbatim>\<open>getData\<close> are bounded by the two the code makes, and V8's tokenizer and
  loop terminate by the length of their input (\<open>v8_parser_terminates\<close>), so no fuel is
  needed. The scheduled job's and server's interleaving is the order of events in a run
  of \<open>server_step\<close>; each event is atomic, so a scheduled run whose awaits interleave
  with the start-up \<^verbatim>\<open>buildResponseData\<close> is represented by one of the two orders.
  \<open>webhook_key\<close> is \<^verbatim>\<open>process.env.WEBHOOK_URL\<close> read as unset when it is empty, so
  that \<^verbatim>\<open>!webhookKey\<close> is \<open>webhook_key = None\<close>; an empty variable, which \<^verbatim>\<open>fetch\<close>
  would refuse like an unset one, is outside the model. \<^verbatim>\<open>response.text()\<close> follows
  node-fetch 2, whose second read of a body rejects with a \<^verbatim>\<open>TypeError\<close>. The en-GB
  date strings are those of Node with full ICU (\<open>DD/MM/YYYY\<close>); the commented-out
  \<^verbatim>\<open>'7/9/2018'\<close> of the Lambda suggests a runtime printing US dates, and the theorems
  only compare such strings for equality, which holds in either format exactly for the
  same day.

  \<^bold>\<open>Not modelled.\<close> Platform code (the \<^verbatim>\<open>Date\<close> built-in, date-fns, V8's date
  parser) is not in the repository: it is modelled from the ECMAScript specification,
  V8's source and the libraries' behaviour, and marked so in the manifest. Of V8's parser
  the use counter (a telemetry side effect) and two-byte strings are left out; small
  integers are 32-bit (Node's 64-bit builds). On the ISO strings of
  \<^verbatim>\<open>toISOString\<close>, \<^verbatim>\<open>binIsDue\<close>'s \<^verbatim>\<open>new Date\<close> is V8's parser, proved to read back
  every such string (\<open>v8_parse_iso_format\<close>); \<^verbatim>\<open>distanceInWordsStrict\<close> uses date-fns'
  own ISO parser, the ISO model of \<open>ISOString\<close>.
  \<^verbatim>\<open>fetch\<close>, xml2js and xml2json are libraries the sources only call: each request's
  outcome, the xml2js parser's outcome and index.js' converted channel list are inputs;
  \<^verbatim>\<open>convertXMLtoJSON\<close>, the code of the repository around the parser, is modelled.
  The EJS template \<^verbatim>\<open>templates/main.ejs\<close> is not in the repository: each request to
  \<^verbatim>\<open>/\<close> takes it as an input, a function from the data to the text or the error,
  and EJS' \<^verbatim>\<open>debug\<close> printing of the compiled template is left out. Of Express, only the
  headers the application sets are recorded (not \<^verbatim>\<open>Content-Type\<close>, \<^verbatim>\<open>ETag\<close> or
  \<^verbatim>\<open>X-Powered-By\<close>), and requests to other paths (Express' 404) are not events.
  \<^verbatim>\<open>Date.prototype.toString\<close> (the Lambda's \<^verbatim>\<open>updatedOn\<close>) is modelled with the
  zone name V8 prints for UTC; no decision and no output depends on it.
\<close>

section \<open>The two entry points on the collection day\<close>

text \<open>
  C32. The two programs disagree on the morning of a collection: for a feed title of the
  specified shape whose collection falls on the clock's day, before 21:11, the server's
  \<^verbatim>\<open>binIsDue\<close> (src/index.js) on the ISO string \<^verbatim>\<open>getCollectionDate\<close> gives reports
  the bin due, while the Lambda's \<^verbatim>\<open>isDue\<close> (src/lambda/index.js) on the record
  \<^verbatim>\<open>getBinDates\<close> builds from the same title does not: the Lambda's
  \<^verbatim>\<open>binCollectionTimeHasPassed\<close> compares the 23:00 collection instant, not the clock,
  with the cutoff.
\<close>

theorem entry_points_disagree_same_day:
  assumes o: "ordinary_time now" and c: "channel_title bin = Some title" and sp: "spec_title title"
    and g: "get_bin_dates now bin = Inr dates" and same: "collected_on dates = todays_date now"
    and before: "now \<le> cutoff_time now"
  shows "get_collection_date title = Inr (collected_on_iso_string dates) \<and>
    bin_is_due now (collected_on_iso_string dates) \<and> \<not> is_due now dates"
proof -
  obtain title' t where c': "channel_title bin = Some title'" and p: "parse_title_date title' = Inr (Some t)"
    and d: "dates = \<lparr>bin_collection_time_has_passed =
        is_after (Some t) (js_new_date (get_full_year now) (get_month now) (get_date now) 21 11 0 0),
      collected_on = locale_date_string_gb (Some t), collected_on_iso_string = iso_format t\<rparr>"
    using g by (rule get_bin_dates_Inr)
  have p': "parse_title_date title = Inr (Some t)" using p c c' by simp
  have tod: "time_within_day t = 82800000" and yr: "100 \<le> year_from_day (js_day t)"
    using parse_title_date_Some [OF sp p'] by simp_all
  have clip: "\<bar>t\<bar> \<le> 8640000000000000" using p' by (rule parse_title_date_clip)
  have y1: "1 \<le> year_from_day (js_day t)" using yr by simp
  have day: "js_day t = js_day now"
    using same gb_eq_days(1) [OF o y1] by (simp add: d todays_date_def)
  have after: "cutoff_time now < t" using day tod by (rule same_day_collection_after_cutoff)
  have gc: "get_collection_date title = Inr (iso_format t)"
    using p' by (simp add: get_collection_date_def to_iso_string_def)
  have idx: "bin_is_due now (iso_format t)"
    unfolding bin_is_due_def Let_def v8_parse_iso_format [OF clip] cutoff_date [OF o]
    using day gb_eq_days [OF o y1] before by (simp add: is_after_def)
  have lam: "\<not> is_due now dates"
    using day after gb_eq_days [OF o y1]
    by (simp add: d is_due_def todays_date_def tomorrows_date_def is_after_def cutoff_date [OF o])
  show ?thesis using gc idx lam by (simp add: d)
qed

theorem entry_points_disagree_same_day_witness:
  "ordinary_time 1531130400000 \<and>
   channel_title \<lparr>items = [\<lparr>titles = [''Tue 9 Jul 2018'']\<rparr>]\<rparr> = Some ''Tue 9 Jul 2018'' \<and>
   spec_title ''Tue 9 Jul 2018'' \<and>
   get_bin_dates 1531130400000 \<lparr>items = [\<lparr>titles = [''Tue 9 Jul 2018'']\<rparr>]\<rparr> =
     Inr \<lparr>bin_collection_time_has_passed = is_after (Some 1531177200000)
            (js_new_date (get_full_year 1531130400000) (get_month 1531130400000)
              (get_date 1531130400000) 21 11 0 0),
          collected_on = locale_date_string_gb (Some 1531177200000),
          collected_on_iso_string = iso_format 1531177200000\<rparr> \<and>
   locale_date_string_gb (Some 1531177200000) = todays_date 1531130400000 \<and>
   1531130400000 \<le> cutoff_time 1531130400000 \<and>
   get_collection_date ''Tue 9 Jul 2018'' = Inr (iso_format 1531177200000) \<and>
   bin_is_due 1531130400000 (iso_format 1531177200000) \<and>
   \<not> is_due 1531130400000
     \<lparr>bin_collection_time_has_passed = is_after (Some 1531177200000)
        (js_new_date (get_full_year 1531130400000) (get_month 1531130400000)
          (get_date 1531130400000) 21 11 0 0),
      collected_on = locale_date_string_gb (Some 1531177200000),
      collected_on_iso_string = iso_format 1531177200000\<rparr>"
proof -
  have o: "ordinary_time 1531130400000" by (simp add: ordinary_time_def ms_per_day_def)
  have c: "channel_title \<lparr>items = [\<lparr>titles = [''Tue 9 Jul 2018'']\<rparr>]\<rparr> = Some ''Tue 9 Jul 2018''"
    by (simp add: channel_title_def js_index_def)
  have sp: "spec_title ''Tue 9 Jul 2018''"
    using scenario_spec_channel c by (simp add: spec_channel_def)
  have g: "get_bin_dates 1531130400000 \<lparr>items = [\<lparr>titles = [''Tue 9 Jul 2018'']\<rparr>]\<rparr> =
     Inr \<lparr>bin_collection_time_has_passed = is_after (Some 1531177200000)
            (js_new_date (get_full_year 1531130400000) (get_month 1531130400000)
              (get_date 1531130400000) 21 11 0 0),
          collected_on = locale_date_string_gb (Some 1531177200000),
          collected_on_iso_string = iso_format 1531177200000\<rparr>"
    by (simp add: get_bin_dates_def js_index_def parse_title_example to_iso_string_def)
  have y: "1 \<le> year_from_day (js_day 1531177200000)"
    by (simp add: js_day_def ms_per_day_def year_from_day_def day_from_year_def Let_def)
  have same: "locale_date_string_gb (Some 1531177200000) = todays_date 1531130400000"
    using gb_eq_days(1) [OF o y] by (simp add: todays_date_def js_day_def ms_per_day_def)
  have before: "1531130400000 \<le> cutoff_time 1531130400000"
    by (simp add: cutoff_time_def make_date_def make_time_def js_day_def ms_per_day_def)
  show ?thesis
    using entry_points_disagree_same_day [OF o c sp g _ before] o c sp g same before by simp
qed

end
